theory Spec2Isabelle
  imports Main "HOL-Library.Char_ord" "HOL-Library.Monad_Syntax"
begin

section \<open>Scanner: \<^verbatim>\<open>internal/lexer/lexer.go\<close>\<close>

subsection \<open>Token kinds\<close>

text \<open>
  \<^verbatim>\<open>type TokenType int\<close> with the constants numbered by \<^verbatim>\<open>iota\<close>, in the order of
  the source. \<^verbatim>\<open>TYPE\<close> and \<^verbatim>\<open>INT\<close> are written \<open>TYPE_KW\<close> and \<open>INT_T\<close>, since
  the plain names are reserved syntax of the logic.
\<close>

type_synonym TokenType = int

named_theorems tokdefs

definition EOF :: TokenType where [tokdefs]: "EOF = 0"
definition ILLEGAL :: TokenType where [tokdefs]: "ILLEGAL = 1"
definition COMMENT :: TokenType where [tokdefs]: "COMMENT = 2"
definition IDENTIFIER :: TokenType where [tokdefs]: "IDENTIFIER = 3"
definition NUMBER :: TokenType where [tokdefs]: "NUMBER = 4"
definition HEX_NUMBER :: TokenType where [tokdefs]: "HEX_NUMBER = 5"
definition STRING :: TokenType where [tokdefs]: "STRING = 6"
definition HEX_STRING :: TokenType where [tokdefs]: "HEX_STRING = 7"
definition UNICODE_STRING :: TokenType where [tokdefs]: "UNICODE_STRING = 8"
definition ABSTRACT :: TokenType where [tokdefs]: "ABSTRACT = 9"
definition ADDRESS :: TokenType where [tokdefs]: "ADDRESS = 10"
definition ANONYMOUS :: TokenType where [tokdefs]: "ANONYMOUS = 11"
definition AS :: TokenType where [tokdefs]: "AS = 12"
definition ASSEMBLY :: TokenType where [tokdefs]: "ASSEMBLY = 13"
definition BOOL :: TokenType where [tokdefs]: "BOOL = 14"
definition BREAK :: TokenType where [tokdefs]: "BREAK = 15"
definition BYTES :: TokenType where [tokdefs]: "BYTES = 16"
definition CALLDATA :: TokenType where [tokdefs]: "CALLDATA = 17"
definition CASE :: TokenType where [tokdefs]: "CASE = 18"
definition CATCH :: TokenType where [tokdefs]: "CATCH = 19"
definition CONSTANT :: TokenType where [tokdefs]: "CONSTANT = 20"
definition CONSTRUCTOR :: TokenType where [tokdefs]: "CONSTRUCTOR = 21"
definition CONTINUE :: TokenType where [tokdefs]: "CONTINUE = 22"
definition CONTRACT :: TokenType where [tokdefs]: "CONTRACT = 23"
definition DEFAULT :: TokenType where [tokdefs]: "DEFAULT = 24"
definition DELETE :: TokenType where [tokdefs]: "DELETE = 25"
definition DO :: TokenType where [tokdefs]: "DO = 26"
definition ELSE :: TokenType where [tokdefs]: "ELSE = 27"
definition EMIT :: TokenType where [tokdefs]: "EMIT = 28"
definition ENUM :: TokenType where [tokdefs]: "ENUM = 29"
definition ERROR :: TokenType where [tokdefs]: "ERROR = 30"
definition EVENT :: TokenType where [tokdefs]: "EVENT = 31"
definition EXTERNAL :: TokenType where [tokdefs]: "EXTERNAL = 32"
definition FALLBACK :: TokenType where [tokdefs]: "FALLBACK = 33"
definition FALSE :: TokenType where [tokdefs]: "FALSE = 34"
definition FIXED :: TokenType where [tokdefs]: "FIXED = 35"
definition FOR :: TokenType where [tokdefs]: "FOR = 36"
definition FROM :: TokenType where [tokdefs]: "FROM = 37"
definition FUNCTION :: TokenType where [tokdefs]: "FUNCTION = 38"
definition GLOBAL :: TokenType where [tokdefs]: "GLOBAL = 39"
definition HEX :: TokenType where [tokdefs]: "HEX = 40"
definition IF :: TokenType where [tokdefs]: "IF = 41"
definition IMMUTABLE :: TokenType where [tokdefs]: "IMMUTABLE = 42"
definition IMPORT :: TokenType where [tokdefs]: "IMPORT = 43"
definition INDEXED :: TokenType where [tokdefs]: "INDEXED = 44"
definition INTERFACE :: TokenType where [tokdefs]: "INTERFACE = 45"
definition INTERNAL :: TokenType where [tokdefs]: "INTERNAL = 46"
definition IS :: TokenType where [tokdefs]: "IS = 47"
definition LET :: TokenType where [tokdefs]: "LET = 48"
definition LIBRARY :: TokenType where [tokdefs]: "LIBRARY = 49"
definition MAPPING :: TokenType where [tokdefs]: "MAPPING = 50"
definition MEMORY :: TokenType where [tokdefs]: "MEMORY = 51"
definition MODIFIER :: TokenType where [tokdefs]: "MODIFIER = 52"
definition NEW :: TokenType where [tokdefs]: "NEW = 53"
definition OVERRIDE :: TokenType where [tokdefs]: "OVERRIDE = 54"
definition PAYABLE :: TokenType where [tokdefs]: "PAYABLE = 55"
definition PRAGMA :: TokenType where [tokdefs]: "PRAGMA = 56"
definition PRIVATE :: TokenType where [tokdefs]: "PRIVATE = 57"
definition PUBLIC :: TokenType where [tokdefs]: "PUBLIC = 58"
definition PURE :: TokenType where [tokdefs]: "PURE = 59"
definition RECEIVE :: TokenType where [tokdefs]: "RECEIVE = 60"
definition RETURN :: TokenType where [tokdefs]: "RETURN = 61"
definition RETURNS :: TokenType where [tokdefs]: "RETURNS = 62"
definition REVERT :: TokenType where [tokdefs]: "REVERT = 63"
definition STORAGE :: TokenType where [tokdefs]: "STORAGE = 64"
definition STRING_TYPE :: TokenType where [tokdefs]: "STRING_TYPE = 65"
definition STRUCT :: TokenType where [tokdefs]: "STRUCT = 66"
definition SWITCH :: TokenType where [tokdefs]: "SWITCH = 67"
definition TRANSIENT :: TokenType where [tokdefs]: "TRANSIENT = 68"
definition TRUE :: TokenType where [tokdefs]: "TRUE = 69"
definition TRY :: TokenType where [tokdefs]: "TRY = 70"
definition TYPE_KW :: TokenType where [tokdefs]: "TYPE_KW = 71"
definition UFIXED :: TokenType where [tokdefs]: "UFIXED = 72"
definition UNCHECKED :: TokenType where [tokdefs]: "UNCHECKED = 73"
definition UNICODE :: TokenType where [tokdefs]: "UNICODE = 74"
definition USING :: TokenType where [tokdefs]: "USING = 75"
definition VIEW :: TokenType where [tokdefs]: "VIEW = 76"
definition VIRTUAL :: TokenType where [tokdefs]: "VIRTUAL = 77"
definition WHILE :: TokenType where [tokdefs]: "WHILE = 78"
definition LAYOUT :: TokenType where [tokdefs]: "LAYOUT = 79"
definition AT :: TokenType where [tokdefs]: "AT = 80"
definition INT_T :: TokenType where [tokdefs]: "INT_T = 81"
definition UINT :: TokenType where [tokdefs]: "UINT = 82"
definition BYTE :: TokenType where [tokdefs]: "BYTE = 83"
definition BYTES_N :: TokenType where [tokdefs]: "BYTES_N = 84"
definition FIXED_N :: TokenType where [tokdefs]: "FIXED_N = 85"
definition UFIXED_N :: TokenType where [tokdefs]: "UFIXED_N = 86"
definition LPAREN :: TokenType where [tokdefs]: "LPAREN = 87"
definition RPAREN :: TokenType where [tokdefs]: "RPAREN = 88"
definition LBRACK :: TokenType where [tokdefs]: "LBRACK = 89"
definition RBRACK :: TokenType where [tokdefs]: "RBRACK = 90"
definition LBRACE :: TokenType where [tokdefs]: "LBRACE = 91"
definition RBRACE :: TokenType where [tokdefs]: "RBRACE = 92"
definition COLON :: TokenType where [tokdefs]: "COLON = 93"
definition SEMICOLON :: TokenType where [tokdefs]: "SEMICOLON = 94"
definition PERIOD :: TokenType where [tokdefs]: "PERIOD = 95"
definition COMMA :: TokenType where [tokdefs]: "COMMA = 96"
definition QUESTION :: TokenType where [tokdefs]: "QUESTION = 97"
definition ARROW :: TokenType where [tokdefs]: "ARROW = 98"
definition RIGHT_ARROW :: TokenType where [tokdefs]: "RIGHT_ARROW = 99"
definition ASSIGN :: TokenType where [tokdefs]: "ASSIGN = 100"
definition ASSIGN_ADD :: TokenType where [tokdefs]: "ASSIGN_ADD = 101"
definition ASSIGN_SUB :: TokenType where [tokdefs]: "ASSIGN_SUB = 102"
definition ASSIGN_MUL :: TokenType where [tokdefs]: "ASSIGN_MUL = 103"
definition ASSIGN_DIV :: TokenType where [tokdefs]: "ASSIGN_DIV = 104"
definition ASSIGN_MOD :: TokenType where [tokdefs]: "ASSIGN_MOD = 105"
definition ASSIGN_AND :: TokenType where [tokdefs]: "ASSIGN_AND = 106"
definition ASSIGN_OR :: TokenType where [tokdefs]: "ASSIGN_OR = 107"
definition ASSIGN_XOR :: TokenType where [tokdefs]: "ASSIGN_XOR = 108"
definition ASSIGN_SHL :: TokenType where [tokdefs]: "ASSIGN_SHL = 109"
definition ASSIGN_SHR :: TokenType where [tokdefs]: "ASSIGN_SHR = 110"
definition ASSIGN_SAR :: TokenType where [tokdefs]: "ASSIGN_SAR = 111"
definition EQ :: TokenType where [tokdefs]: "EQ = 112"
definition NEQ :: TokenType where [tokdefs]: "NEQ = 113"
definition LT :: TokenType where [tokdefs]: "LT = 114"
definition GT :: TokenType where [tokdefs]: "GT = 115"
definition LTE :: TokenType where [tokdefs]: "LTE = 116"
definition GTE :: TokenType where [tokdefs]: "GTE = 117"
definition AND :: TokenType where [tokdefs]: "AND = 118"
definition OR :: TokenType where [tokdefs]: "OR = 119"
definition NOT :: TokenType where [tokdefs]: "NOT = 120"
definition BIT_AND :: TokenType where [tokdefs]: "BIT_AND = 121"
definition BIT_OR :: TokenType where [tokdefs]: "BIT_OR = 122"
definition BIT_XOR :: TokenType where [tokdefs]: "BIT_XOR = 123"
definition BIT_NOT :: TokenType where [tokdefs]: "BIT_NOT = 124"
definition SHL :: TokenType where [tokdefs]: "SHL = 125"
definition SHR :: TokenType where [tokdefs]: "SHR = 126"
definition SAR :: TokenType where [tokdefs]: "SAR = 127"
definition ADD :: TokenType where [tokdefs]: "ADD = 128"
definition SUB :: TokenType where [tokdefs]: "SUB = 129"
definition MUL :: TokenType where [tokdefs]: "MUL = 130"
definition DIV :: TokenType where [tokdefs]: "DIV = 131"
definition MOD :: TokenType where [tokdefs]: "MOD = 132"
definition EXP :: TokenType where [tokdefs]: "EXP = 133"
definition INC :: TokenType where [tokdefs]: "INC = 134"
definition DEC :: TokenType where [tokdefs]: "DEC = 135"

text \<open>The keyword table \<^verbatim>\<open>keywords\<close>, a Go map from the lexeme to its kind (\<open>keywords\<close> is a
  reserved word of the theory header, hence \<open>keywords_map\<close>).\<close>

definition keywords_table :: "(string \<times> TokenType) list" where
  "keywords_table = [
    (''abstract'', ABSTRACT), (''address'', ADDRESS), (''anonymous'', ANONYMOUS), (''as'', AS),
    (''assembly'', ASSEMBLY), (''bool'', BOOL), (''break'', BREAK), (''bytes'', BYTES),
    (''calldata'', CALLDATA), (''case'', CASE), (''catch'', CATCH), (''constant'', CONSTANT),
    (''constructor'', CONSTRUCTOR), (''continue'', CONTINUE), (''contract'', CONTRACT),
    (''default'', DEFAULT), (''delete'', DELETE), (''do'', DO), (''else'', ELSE),
    (''emit'', EMIT), (''enum'', ENUM), (''error'', ERROR), (''event'', EVENT),
    (''external'', EXTERNAL), (''fallback'', FALLBACK), (''false'', FALSE), (''for'', FOR),
    (''from'', FROM), (''function'', FUNCTION), (''global'', GLOBAL), (''hex'', HEX),
    (''if'', IF), (''immutable'', IMMUTABLE), (''import'', IMPORT), (''indexed'', INDEXED),
    (''interface'', INTERFACE), (''internal'', INTERNAL), (''is'', IS), (''let'', LET),
    (''library'', LIBRARY), (''mapping'', MAPPING), (''memory'', MEMORY),
    (''modifier'', MODIFIER), (''new'', NEW), (''override'', OVERRIDE), (''payable'', PAYABLE),
    (''pragma'', PRAGMA), (''private'', PRIVATE), (''public'', PUBLIC), (''pure'', PURE),
    (''receive'', RECEIVE), (''return'', RETURN), (''returns'', RETURNS), (''revert'', REVERT),
    (''storage'', STORAGE), (''string'', STRING_TYPE), (''struct'', STRUCT),
    (''switch'', SWITCH), (''transient'', TRANSIENT), (''true'', TRUE), (''try'', TRY),
    (''type'', TYPE_KW), (''unchecked'', UNCHECKED), (''layout'', LAYOUT), (''at'', AT),
    (''unicode'', UNICODE), (''using'', USING), (''view'', VIEW), (''virtual'', VIRTUAL),
    (''while'', WHILE)
  ]"

definition keywords_map :: "string \<Rightarrow> TokenType option" where
  "keywords_map = map_of keywords_table"

subsection \<open>Tokens and scanner state\<close>

record Token =
  Type :: TokenType
  Value :: string
  Line :: nat
  Column :: nat
  Start :: nat
  End :: nat

record Lexer =
  input :: string
  pos :: nat
  line :: nat
  column :: nat
  start :: nat

definition lex_New :: "string \<Rightarrow> Lexer" where
  "lex_New inp = \<lparr>input = inp, pos = 0, line = 1, column = 0, start = 0\<rparr>"

definition isDigit :: "char \<Rightarrow> bool" where
  "isDigit ch \<longleftrightarrow> CHR ''0'' \<le> ch \<and> ch \<le> CHR ''9''"

definition isIdentifierStart :: "char \<Rightarrow> bool" where
  "isIdentifierStart ch \<longleftrightarrow>
     (CHR ''a'' \<le> ch \<and> ch \<le> CHR ''z'') \<or> (CHR ''A'' \<le> ch \<and> ch \<le> CHR ''Z'') \<or>
     ch = CHR ''_'' \<or> ch = CHR ''$''"

definition isIdentifierPart :: "char \<Rightarrow> bool" where
  "isIdentifierPart ch \<longleftrightarrow> isIdentifierStart ch \<or> isDigit ch"

definition isHexDigit :: "char \<Rightarrow> bool" where
  "isHexDigit ch \<longleftrightarrow>
     isDigit ch \<or> (CHR ''a'' \<le> ch \<and> ch \<le> CHR ''f'') \<or> (CHR ''A'' \<le> ch \<and> ch \<le> CHR ''F'')"

text \<open>\<^verbatim>\<open>peek\<close>, \<^verbatim>\<open>peekAt\<close> and \<^verbatim>\<open>advance\<close> of the scanner; past the end they give the
  zero byte and leave the state alone.\<close>

definition lex_peek :: "Lexer \<Rightarrow> char" where
  "lex_peek l = (if pos l \<ge> length (input l) then CHR 0x00 else input l ! pos l)"

definition lex_peekAt :: "Lexer \<Rightarrow> nat \<Rightarrow> char" where
  "lex_peekAt l offset =
     (if pos l + offset \<ge> length (input l) then CHR 0x00 else input l ! (pos l + offset))"

definition lex_advance :: "Lexer \<Rightarrow> char \<times> Lexer" where
  "lex_advance l =
     (if pos l \<ge> length (input l) then (CHR 0x00, l)
      else
        let ch = input l ! pos l in
        (ch, if ch = CHR 0x0A then l\<lparr>pos := pos l + 1, line := line l + 1, column := 0\<rparr>
             else l\<lparr>pos := pos l + 1, column := column l + 1\<rparr>))"

text \<open>The loop \<^verbatim>\<open>for l.pos < len(l.input) && P(l.peek()) { l.advance() }\<close>, which the
  scanner runs over identifier characters, digits and the body of a line comment.\<close>

function advanceWhile :: "(char \<Rightarrow> bool) \<Rightarrow> Lexer \<Rightarrow> Lexer" where
  "advanceWhile P l =
     (if pos l < length (input l) \<and> P (lex_peek l) then advanceWhile P (snd (lex_advance l))
      else l)"
  by pat_completeness auto
termination
  by (relation "measure (\<lambda>(P, l). length (input l) - pos l)") (auto simp: lex_advance_def Let_def)

declare advanceWhile.simps [simp del]

lemma lex_advance_input [simp]: "input (snd (lex_advance l)) = input l"
  by (simp add: lex_advance_def Let_def)

lemma lex_advance_pos: "pos (snd (lex_advance l)) = (if pos l < length (input l) then pos l + 1 else pos l)"
  by (simp add: lex_advance_def Let_def)

lemma advanceWhile_input [simp]: "input (advanceWhile P l) = input l"
  by (induction P l rule: advanceWhile.induct) (subst advanceWhile.simps, simp)

lemma advanceWhile_pos_ge: "pos l \<le> pos (advanceWhile P l)"
proof (induction P l rule: advanceWhile.induct)
  case (1 P l)
  show ?case
  proof (cases "pos l < length (input l) \<and> P (lex_peek l)")
    case True
    with 1 have "pos (snd (lex_advance l)) \<le> pos (advanceWhile P (snd (lex_advance l)))" by simp
    with True show ?thesis
      by (subst advanceWhile.simps) (simp add: lex_advance_pos)
  next
    case False
    then show ?thesis by (subst advanceWhile.simps) auto
  qed
qed

lemma advanceWhile_pos_le: "pos l \<le> length (input l) \<Longrightarrow> pos (advanceWhile P l) \<le> length (input l)"
proof (induction P l rule: advanceWhile.induct)
  case (1 P l)
  show ?case
  proof (cases "pos l < length (input l) \<and> P (lex_peek l)")
    case True
    with 1 show ?thesis
      by (subst advanceWhile.simps) (simp add: lex_advance_pos)
  next
    case False
    with 1 show ?thesis by (subst advanceWhile.simps) auto
  qed
qed

text \<open>The inner loop of a block comment: up to and including the closing \<^verbatim>\<open>*/\<close>, or to
  the end of the input.\<close>

function skipBlockComment :: "Lexer \<Rightarrow> Lexer" where
  "skipBlockComment l =
     (if pos l < length (input l) then
        (if lex_peek l = CHR ''*'' \<and> lex_peekAt l 1 = CHR ''/''
         then snd (lex_advance (snd (lex_advance l)))
         else skipBlockComment (snd (lex_advance l)))
      else l)"
  by pat_completeness auto
termination
  by (relation "measure (\<lambda>l. length (input l) - pos l)") (auto simp: lex_advance_def Let_def)

declare skipBlockComment.simps [simp del]

lemma skipBlockComment_input [simp]: "input (skipBlockComment l) = input l"
  by (induction l rule: skipBlockComment.induct) (subst skipBlockComment.simps, simp)

lemma skipBlockComment_pos_ge: "pos l \<le> pos (skipBlockComment l)"
proof (induction l rule: skipBlockComment.induct)
  case (1 l)
  show ?case
  proof (cases "pos l < length (input l)")
    case True
    note lt = this
    show ?thesis
    proof (cases "lex_peek l = CHR ''*'' \<and> lex_peekAt l 1 = CHR ''/''")
      case True
      with lt show ?thesis
        by (subst skipBlockComment.simps) (simp add: lex_advance_pos)
    next
      case False
      with lt 1 have "pos (snd (lex_advance l)) \<le> pos (skipBlockComment (snd (lex_advance l)))"
        by simp
      with lt False show ?thesis
        by (subst skipBlockComment.simps) (simp add: lex_advance_pos)
    qed
  next
    case False
    then show ?thesis by (subst skipBlockComment.simps) simp
  qed
qed

lemma skipBlockComment_pos_le:
  "pos l \<le> length (input l) \<Longrightarrow> pos (skipBlockComment l) \<le> length (input l)"
proof (induction l rule: skipBlockComment.induct)
  case (1 l)
  show ?case
  proof (cases "pos l < length (input l)")
    case True
    with 1 show ?thesis
      by (subst skipBlockComment.simps) (simp add: lex_advance_pos)
  next
    case False
    with 1 show ?thesis by (subst skipBlockComment.simps) simp
  qed
qed

function skipWhitespaceAndComments :: "Lexer \<Rightarrow> Lexer" where
  "skipWhitespaceAndComments l =
     (if pos l < length (input l) then
        (let ch = lex_peek l in
         if ch = CHR '' '' \<or> ch = CHR 0x09 \<or> ch = CHR 0x0A \<or> ch = CHR 0x0D then
           skipWhitespaceAndComments (snd (lex_advance l))
         else if ch = CHR ''/'' \<and> lex_peekAt l 1 = CHR ''/'' then
           skipWhitespaceAndComments
             (advanceWhile (\<lambda>c. c \<noteq> CHR 0x0A) (snd (lex_advance (snd (lex_advance l)))))
         else if ch = CHR ''/'' \<and> lex_peekAt l 1 = CHR ''*'' then
           skipWhitespaceAndComments
             (skipBlockComment (snd (lex_advance (snd (lex_advance l)))))
         else l)
      else l)"
  by pat_completeness auto
termination
proof (relation "measure (\<lambda>l. length (input l) - pos l)", goal_cases)
  case 1
  show ?case by simp
next
  case (2 l ch)
  then show ?case by (simp add: lex_advance_pos)
next
  case (3 l ch)
  have "pos (snd (lex_advance (snd (lex_advance l))))
        \<le> pos (advanceWhile (\<lambda>c. c \<noteq> CHR 0x0A) (snd (lex_advance (snd (lex_advance l)))))"
    by (rule advanceWhile_pos_ge)
  moreover have "pos l < pos (snd (lex_advance (snd (lex_advance l))))"
    using 3 by (simp add: lex_advance_pos)
  moreover have "pos (advanceWhile (\<lambda>c. c \<noteq> CHR 0x0A) (snd (lex_advance (snd (lex_advance l)))))
        \<le> length (input l)"
    using 3 advanceWhile_pos_le [of "snd (lex_advance (snd (lex_advance l)))" "\<lambda>c. c \<noteq> CHR 0x0A"]
    by (simp add: lex_advance_pos)
  ultimately show ?case using 3 by simp
next
  case (4 l ch)
  have "pos (snd (lex_advance (snd (lex_advance l))))
        \<le> pos (skipBlockComment (snd (lex_advance (snd (lex_advance l)))))"
    by (rule skipBlockComment_pos_ge)
  moreover have "pos l < pos (snd (lex_advance (snd (lex_advance l))))"
    using 4 by (simp add: lex_advance_pos)
  ultimately show ?case using 4 by simp
qed

declare skipWhitespaceAndComments.simps [simp del]


subsection \<open>Go string helpers\<close>

text \<open>\<^verbatim>\<open>s[i:j]\<close>, \<^verbatim>\<open>strings.HasPrefix\<close>, and the conversion \<^verbatim>\<open>string(b)\<close> of a byte, which
  yields the UTF-8 encoding of the code point \<open>b\<close> (two bytes from 0x80 on).\<close>

definition slice :: "string \<Rightarrow> nat \<Rightarrow> nat \<Rightarrow> string" where
  "slice s i j = take (j - i) (drop i s)"

definition HasPrefix :: "string \<Rightarrow> string \<Rightarrow> bool" where
  "HasPrefix s p \<longleftrightarrow> take (length p) s = p"

definition string_of_byte :: "char \<Rightarrow> string" where
  "string_of_byte ch =
     (if (of_char ch :: nat) < 128 then [ch]
      else [char_of (192 + (of_char ch :: nat) div 64), char_of (128 + (of_char ch :: nat) mod 64)])"

subsection \<open>Identifiers and sized type names\<close>

definition isValidIntSize :: "string \<Rightarrow> bool" where
  "isValidIntSize s \<longleftrightarrow> length s \<noteq> 0 \<and> list_all isDigit s"

definition isIntType :: "string \<Rightarrow> bool" where
  "isIntType v \<longleftrightarrow>
     (if v = ''int'' then True
      else if \<not> HasPrefix v ''int'' then False
      else isValidIntSize (drop 3 v))"

definition isUintType :: "string \<Rightarrow> bool" where
  "isUintType v \<longleftrightarrow>
     (if v = ''uint'' then True
      else if \<not> HasPrefix v ''uint'' then False
      else isValidIntSize (drop 4 v))"

definition isBytesNType :: "string \<Rightarrow> bool" where
  "isBytesNType v \<longleftrightarrow>
     (if \<not> HasPrefix v ''bytes'' \<or> length v \<le> 5 then False
      else list_all isDigit (drop 5 v))"

text \<open>\<^verbatim>\<open>strings.Index(s, "x")\<close>: the index of the first \<open>x\<close>, or \<open>-1\<close>.\<close>

definition Index_x :: "string \<Rightarrow> int" where
  "Index_x s =
     (if CHR ''x'' \<in> set s then int (length (takeWhile (\<lambda>c. c \<noteq> CHR ''x'') s)) else -1)"

definition isValidFixedSuffix :: "string \<Rightarrow> bool" where
  "isValidFixedSuffix s \<longleftrightarrow>
     (let xIdx = Index_x s in
      if xIdx \<le> 0 \<or> xIdx = int (length s) - 1 then False
      else list_all isDigit (take (nat xIdx) s) \<and> list_all isDigit (drop (nat xIdx + 1) s))"

definition isFixedNType :: "string \<Rightarrow> bool" where
  "isFixedNType v \<longleftrightarrow> (if \<not> HasPrefix v ''fixed'' then False else isValidFixedSuffix (drop 5 v))"

definition isUfixedNType :: "string \<Rightarrow> bool" where
  "isUfixedNType v \<longleftrightarrow> (if \<not> HasPrefix v ''ufixed'' then False else isValidFixedSuffix (drop 6 v))"

definition readIdentifier :: "nat \<Rightarrow> nat \<Rightarrow> Lexer \<Rightarrow> Token \<times> Lexer" where
  "readIdentifier ln col l0 =
     (let st = pos l0;
          l = advanceWhile isIdentifierPart l0;
          v = slice (input l) st (pos l);
          tokenType =
            (case keywords_map v of
               Some kw \<Rightarrow> kw
             | None \<Rightarrow>
                 if HasPrefix v ''int'' \<and> isIntType v then INT_T
                 else if HasPrefix v ''uint'' \<and> isUintType v then UINT
                 else if HasPrefix v ''bytes'' \<and> isBytesNType v then BYTES_N
                 else if v = ''fixed'' then FIXED
                 else if v = ''ufixed'' then UFIXED
                 else if isFixedNType v then FIXED_N
                 else if isUfixedNType v then UFIXED_N
                 else IDENTIFIER)
      in (\<lparr>Type = tokenType, Value = v, Line = ln, Column = col, Start = st, End = pos l\<rparr>, l))"

subsection \<open>Numbers\<close>

definition readNumber :: "nat \<Rightarrow> nat \<Rightarrow> Lexer \<Rightarrow> Token \<times> Lexer" where
  "readNumber ln col l0 =
     (let st = pos l0;
          l1 = advanceWhile (\<lambda>c. isDigit c \<or> c = CHR ''_'') l0;
          l2 = (if lex_peek l1 = CHR ''.'' \<and> lex_peekAt l1 1 \<noteq> CHR ''.''
                then advanceWhile (\<lambda>c. isDigit c \<or> c = CHR ''_'') (snd (lex_advance l1))
                else l1);
          l3 = (if lex_peek l2 = CHR ''e'' \<or> lex_peek l2 = CHR ''E'' then
                  (let l = snd (lex_advance l2);
                       l = (if lex_peek l = CHR ''+'' \<or> lex_peek l = CHR ''-''
                            then snd (lex_advance l) else l)
                   in advanceWhile (\<lambda>c. isDigit c \<or> c = CHR ''_'') l)
                else l2);
          v = slice (input l3) st (pos l3);
          v = filter (\<lambda>c. c \<noteq> CHR ''_'') v
      in (\<lparr>Type = NUMBER, Value = v, Line = ln, Column = col, Start = st, End = pos l3\<rparr>, l3))"

definition readHexNumber :: "nat \<Rightarrow> nat \<Rightarrow> Lexer \<Rightarrow> Token \<times> Lexer" where
  "readHexNumber ln col l0 =
     (let st = pos l0;
          l = snd (lex_advance l0);
          l = snd (lex_advance l);
          l = advanceWhile (\<lambda>c. isHexDigit c \<or> c = CHR ''_'') l;
          v = slice (input l) st (pos l)
      in (\<lparr>Type = HEX_NUMBER, Value = v, Line = ln, Column = col, Start = st, End = pos l\<rparr>, l))"

subsection \<open>Strings\<close>

definition unescape :: "char \<Rightarrow> char" where
  "unescape escaped =
     (if escaped = CHR ''n'' then CHR 0x0A
      else if escaped = CHR ''r'' then CHR 0x0D
      else if escaped = CHR ''t'' then CHR 0x09
      else if escaped = CHR 0x5C then CHR 0x5C
      else if escaped = CHR 0x27 then CHR 0x27
      else if escaped = CHR 0x22 then CHR 0x22
      else escaped)"

function readString_loop :: "char \<Rightarrow> string \<Rightarrow> Lexer \<Rightarrow> string \<times> Lexer" where
  "readString_loop quote sb l =
     (if pos l < length (input l) then
        (let ch = lex_peek l in
         if ch = quote then (sb, snd (lex_advance l))
         else if ch = CHR 0x5C \<and> pos l + 1 < length (input l) then
           readString_loop quote
             (sb @ [unescape (fst (lex_advance (snd (lex_advance l))))])
             (snd (lex_advance (snd (lex_advance l))))
         else if ch = CHR 0x0A \<or> ch = CHR 0x0D then (sb, l)
         else readString_loop quote (sb @ [fst (lex_advance l)]) (snd (lex_advance l)))
      else (sb, l))"
  by pat_completeness auto
termination
  by (relation "measure (\<lambda>(q, sb, l). length (input l) - pos l)") (auto simp: lex_advance_pos)

declare readString_loop.simps [simp del]

definition readString :: "nat \<Rightarrow> nat \<Rightarrow> Lexer \<Rightarrow> Token \<times> Lexer" where
  "readString ln col l0 =
     (let st = pos l0;
          (quote, l) = lex_advance l0;
          (sb, l) = readString_loop quote [] l
      in (\<lparr>Type = STRING, Value = sb, Line = ln, Column = col, Start = st, End = pos l\<rparr>, l))"

subsection \<open>Operators and punctuation\<close>

definition two_char_operators :: "(string \<times> TokenType) list" where
  "two_char_operators = [
    (''=>'', ARROW), (''->'', RIGHT_ARROW), (''=='', EQ), (''!='', NEQ), (''<='', LTE),
    (''>='', GTE), (''&&'', AND), (''||'', OR), (''<<'', SHL), (''>>'', SHR), (''**'', EXP),
    (''++'', INC), (''--'', DEC), (''+='', ASSIGN_ADD), (''-='', ASSIGN_SUB),
    (''*='', ASSIGN_MUL), (''/='', ASSIGN_DIV), (''%='', ASSIGN_MOD), (''&='', ASSIGN_AND),
    (''|='', ASSIGN_OR), (''^='', ASSIGN_XOR)
  ]"

definition one_char_operators :: "(char \<times> TokenType) list" where
  "one_char_operators = [
    (CHR ''('', LPAREN), (CHR '')'', RPAREN), (CHR ''['', LBRACK), (CHR '']'', RBRACK),
    (CHR ''{'', LBRACE), (CHR ''}'', RBRACE), (CHR '':'', COLON), (CHR '';'', SEMICOLON),
    (CHR ''.'', PERIOD), (CHR '','', COMMA), (CHR ''?'', QUESTION), (CHR ''='', ASSIGN),
    (CHR ''<'', LT), (CHR ''>'', GT), (CHR ''!'', NOT), (CHR ''&'', BIT_AND), (CHR ''|'', BIT_OR),
    (CHR ''^'', BIT_XOR), (CHR ''~'', BIT_NOT), (CHR ''+'', ADD), (CHR ''-'', SUB),
    (CHR ''*'', MUL), (CHR ''/'', DIV), (CHR ''%'', MOD)
  ]"

text \<open>The three switches of \<^verbatim>\<open>readOperator\<close>: three characters, then two, then one. The
  two- and one-character switches return the matched lexeme with the kind of the table,
  after one more \<^verbatim>\<open>advance\<close> in the two-character case.\<close>

definition readOperator :: "nat \<Rightarrow> nat \<Rightarrow> Lexer \<Rightarrow> Token \<times> Lexer" where
  "readOperator ln col l0 =
     (let st = pos l0;
          (ch, l) = lex_advance l0;
          three = string_of_byte ch @ string_of_byte (lex_peek l) @ string_of_byte (lex_peekAt l 1);
          two = string_of_byte ch @ string_of_byte (lex_peek l)
      in
      if pos l + 1 < length (input l) \<and> three = ''>>>'' then
        (let l = snd (lex_advance (snd (lex_advance l))) in
         if lex_peek l = CHR ''='' then
           (let l = snd (lex_advance l) in
            (\<lparr>Type = ASSIGN_SAR, Value = ''>>>='', Line = ln, Column = col, Start = st, End = pos l\<rparr>, l))
         else (\<lparr>Type = SAR, Value = ''>>>'', Line = ln, Column = col, Start = st, End = pos l\<rparr>, l))
      else if pos l + 1 < length (input l) \<and> three = ''>>='' then
        (let l = snd (lex_advance (snd (lex_advance l))) in
         (\<lparr>Type = ASSIGN_SHR, Value = ''>>='', Line = ln, Column = col, Start = st, End = pos l\<rparr>, l))
      else if pos l + 1 < length (input l) \<and> three = ''<<='' then
        (let l = snd (lex_advance (snd (lex_advance l))) in
         (\<lparr>Type = ASSIGN_SHL, Value = ''<<='', Line = ln, Column = col, Start = st, End = pos l\<rparr>, l))
      else
        (case (if pos l < length (input l) then map_of two_char_operators two else None) of
           Some t \<Rightarrow>
             (let l = snd (lex_advance l) in
              (\<lparr>Type = t, Value = two, Line = ln, Column = col, Start = st, End = pos l\<rparr>, l))
         | None \<Rightarrow>
             (case map_of one_char_operators ch of
                Some t \<Rightarrow>
                  (\<lparr>Type = t, Value = [ch], Line = ln, Column = col, Start = st, End = pos l\<rparr>, l)
              | None \<Rightarrow>
                  (\<lparr>Type = ILLEGAL, Value = string_of_byte ch, Line = ln, Column = col,
                    Start = st, End = pos l\<rparr>, l))))"

subsection \<open>\<^verbatim>\<open>NextToken\<close> and \<^verbatim>\<open>Tokenize\<close>\<close>

definition NextToken :: "Lexer \<Rightarrow> Token \<times> Lexer" where
  "NextToken l0 =
     (let l = skipWhitespaceAndComments l0 in
      if pos l \<ge> length (input l) then
        (\<lparr>Type = EOF, Value = [], Line = line l, Column = column l, Start = pos l, End = pos l\<rparr>, l)
      else
        (let l = l\<lparr>start := pos l\<rparr>;
             startLine = line l;
             startColumn = column l;
             ch = lex_peek l
         in
         if isIdentifierStart ch then readIdentifier startLine startColumn l
         else if ch = CHR ''0'' \<and> pos l + 1 < length (input l) \<and>
                 (lex_peekAt l 1 = CHR ''x'' \<or> lex_peekAt l 1 = CHR ''X'')
         then readHexNumber startLine startColumn l
         else if isDigit ch \<or> (ch = CHR ''.'' \<and> pos l + 1 < length (input l) \<and> isDigit (lex_peekAt l 1))
         then readNumber startLine startColumn l
         else if ch = CHR 0x22 \<or> ch = CHR 0x27 then readString startLine startColumn l
         else readOperator startLine startColumn l))"


subsection \<open>Every token but the last consumes input\<close>

lemma advanceWhile_progress:
  "pos l < length (input l) \<Longrightarrow> P (lex_peek l) \<Longrightarrow> pos l < pos (advanceWhile P l)"
proof -
  assume a: "pos l < length (input l)" "P (lex_peek l)"
  have "pos (snd (lex_advance l)) \<le> pos (advanceWhile P (snd (lex_advance l)))"
    by (rule advanceWhile_pos_ge)
  with a show ?thesis
    by (subst advanceWhile.simps) (simp add: lex_advance_pos)
qed

lemma skipWhitespaceAndComments_input [simp]: "input (skipWhitespaceAndComments l) = input l"
  by (induction l rule: skipWhitespaceAndComments.induct)
     (subst skipWhitespaceAndComments.simps, simp add: Let_def)

lemma skipWhitespaceAndComments_pos_ge: "pos l \<le> pos (skipWhitespaceAndComments l)"
proof (induction l rule: skipWhitespaceAndComments.induct)
  case (1 l)
  let ?a2 = "snd (lex_advance (snd (lex_advance l)))"
  have p1: "pos l \<le> pos (snd (lex_advance l))" by (simp add: lex_advance_pos)
  have p2: "pos l \<le> pos ?a2" by (simp add: lex_advance_pos)
  have p3: "pos ?a2 \<le> pos (advanceWhile (\<lambda>c. c \<noteq> CHR 0x0A) ?a2)" by (rule advanceWhile_pos_ge)
  have p4: "pos ?a2 \<le> pos (skipBlockComment ?a2)" by (rule skipBlockComment_pos_ge)
  show ?case
    using 1 p1 p2 p3 p4
    by (subst skipWhitespaceAndComments.simps) (auto simp: Let_def)
qed

lemma readString_loop_input [simp]: "input (snd (readString_loop q sb l)) = input l"
  by (induction q sb l rule: readString_loop.induct)
     (subst readString_loop.simps, simp add: Let_def)

lemma readString_loop_pos_ge: "pos l \<le> pos (snd (readString_loop q sb l))"
proof (induction q sb l rule: readString_loop.induct)
  case (1 quote sb l)
  have p1: "pos l \<le> pos (snd (lex_advance l))" by (simp add: lex_advance_pos)
  have p2: "pos l \<le> pos (snd (lex_advance (snd (lex_advance l))))" by (simp add: lex_advance_pos)
  show ?case
    using 1 p1 p2
    by (subst readString_loop.simps) (auto simp: Let_def)
qed

lemma readIdentifier_input [simp]: "input (snd (readIdentifier ln col l)) = input l"
  by (simp add: readIdentifier_def Let_def)

lemma readNumber_input [simp]: "input (snd (readNumber ln col l)) = input l"
  by (simp add: readNumber_def Let_def)

lemma readHexNumber_input [simp]: "input (snd (readHexNumber ln col l)) = input l"
  by (simp add: readHexNumber_def Let_def)

lemma readString_input [simp]: "input (snd (readString ln col l)) = input l"
  by (simp add: readString_def Let_def split_beta)

lemma readOperator_input [simp]: "input (snd (readOperator ln col l)) = input l"
  by (simp add: readOperator_def Let_def split_beta split: option.splits)

lemma NextToken_input [simp]: "input (snd (NextToken l)) = input l"
  by (simp add: NextToken_def Let_def)

lemma readIdentifier_progress:
  "pos l < length (input l) \<Longrightarrow> isIdentifierStart (lex_peek l) \<Longrightarrow>
   pos l < pos (snd (readIdentifier ln col l))"
  by (simp add: readIdentifier_def Let_def advanceWhile_progress isIdentifierPart_def)

lemma readHexNumber_progress:
  "pos l < length (input l) \<Longrightarrow> pos l < pos (snd (readHexNumber ln col l))"
proof -
  assume a: "pos l < length (input l)"
  let ?a2 = "snd (lex_advance (snd (lex_advance l)))"
  have "pos ?a2 \<le> pos (advanceWhile (\<lambda>c. isHexDigit c \<or> c = CHR ''_'') ?a2)"
    by (rule advanceWhile_pos_ge)
  moreover have "pos l < pos ?a2" using a by (simp add: lex_advance_pos)
  ultimately show ?thesis by (simp add: readHexNumber_def Let_def)
qed

lemma readNumber_pos_ge_first:
  "pos (advanceWhile (\<lambda>c. isDigit c \<or> c = CHR ''_'') l) \<le> pos (snd (readNumber ln col l))"
proof -
  let ?D = "\<lambda>c. isDigit c \<or> c = CHR ''_''"
  let ?l1 = "advanceWhile ?D l"
  let ?l2 = "if lex_peek ?l1 = CHR ''.'' \<and> lex_peekAt ?l1 1 \<noteq> CHR ''.''
             then advanceWhile ?D (snd (lex_advance ?l1)) else ?l1"
  have a: "pos ?l1 \<le> pos ?l2"
    using advanceWhile_pos_ge [of "snd (lex_advance ?l1)" ?D]
    by (auto simp: lex_advance_pos split: if_splits)
  have b: "pos ?l2 \<le> pos (snd (readNumber ln col l))"
  proof (cases "lex_peek ?l2 = CHR ''e'' \<or> lex_peek ?l2 = CHR ''E''")
    case False
    then show ?thesis by (simp add: readNumber_def Let_def)
  next
    case True
    let ?m = "snd (lex_advance ?l2)"
    let ?m2 = "if lex_peek ?m = CHR ''+'' \<or> lex_peek ?m = CHR ''-'' then snd (lex_advance ?m) else ?m"
    have "pos ?l2 \<le> pos ?m" by (simp add: lex_advance_pos)
    moreover have "pos ?m \<le> pos ?m2" by (simp add: lex_advance_pos)
    moreover have "pos ?m2 \<le> pos (advanceWhile ?D ?m2)" by (rule advanceWhile_pos_ge)
    moreover have "snd (readNumber ln col l) = advanceWhile ?D ?m2"
      using True by (simp add: readNumber_def Let_def)
    ultimately show ?thesis by simp
  qed
  from a b show ?thesis by simp
qed

lemma readNumber_pos_ge_frac:
  assumes "lex_peek l = CHR ''.''" "lex_peekAt l 1 \<noteq> CHR ''.''" "pos l < length (input l)"
  shows "pos l < pos (snd (readNumber ln col l))"
proof -
  let ?D = "\<lambda>c. isDigit c \<or> c = CHR ''_''"
  have nd: "\<not> ?D (lex_peek l)" using assms(1) by (simp add: isDigit_def less_eq_char_def)
  then have l1: "advanceWhile ?D l = l" by (subst advanceWhile.simps) simp
  let ?l2 = "advanceWhile ?D (snd (lex_advance l))"
  have a: "pos l < pos ?l2"
    using advanceWhile_pos_ge [of "snd (lex_advance l)" ?D] assms(3)
    by (simp add: lex_advance_pos)
  have b: "pos ?l2 \<le> pos (snd (readNumber ln col l))"
  proof (cases "lex_peek ?l2 = CHR ''e'' \<or> lex_peek ?l2 = CHR ''E''")
    case False
    then show ?thesis using assms l1 by (simp add: readNumber_def Let_def)
  next
    case True
    let ?m = "snd (lex_advance ?l2)"
    let ?m2 = "if lex_peek ?m = CHR ''+'' \<or> lex_peek ?m = CHR ''-'' then snd (lex_advance ?m) else ?m"
    have "pos ?l2 \<le> pos ?m" by (simp add: lex_advance_pos)
    moreover have "pos ?m \<le> pos ?m2" by (simp add: lex_advance_pos)
    moreover have "pos ?m2 \<le> pos (advanceWhile ?D ?m2)" by (rule advanceWhile_pos_ge)
    moreover have "snd (readNumber ln col l) = advanceWhile ?D ?m2"
      using True assms l1 by (simp add: readNumber_def Let_def)
    ultimately show ?thesis by simp
  qed
  from a b show ?thesis by simp
qed

lemma readNumber_progress:
  assumes "pos l < length (input l)"
    and "isDigit (lex_peek l) \<or> (lex_peek l = CHR ''.'' \<and> isDigit (lex_peekAt l 1))"
  shows "pos l < pos (snd (readNumber ln col l))"
proof (cases "isDigit (lex_peek l)")
  case True
  then have "pos l < pos (advanceWhile (\<lambda>c. isDigit c \<or> c = CHR ''_'') l)"
    using assms(1) by (intro advanceWhile_progress) simp_all
  with readNumber_pos_ge_first [of l ln col] show ?thesis by simp
next
  case False
  with assms(2) have d: "lex_peek l = CHR ''.''" "isDigit (lex_peekAt l 1)" by simp_all
  from d(2) have "lex_peekAt l 1 \<noteq> CHR ''.''" by (auto simp: isDigit_def less_eq_char_def)
  with d(1) assms(1) show ?thesis by (intro readNumber_pos_ge_frac) simp_all
qed

lemma readString_progress:
  "pos l < length (input l) \<Longrightarrow> pos l < pos (snd (readString ln col l))"
proof -
  assume a: "pos l < length (input l)"
  have "pos (snd (lex_advance l)) \<le> pos (snd (readString_loop (fst (lex_advance l)) [] (snd (lex_advance l))))"
    by (rule readString_loop_pos_ge)
  with a show ?thesis by (simp add: readString_def Let_def split_beta lex_advance_pos)
qed

lemma readOperator_progress:
  "pos l < length (input l) \<Longrightarrow> pos l < pos (snd (readOperator ln col l))"
  by (simp add: readOperator_def Let_def split_beta lex_advance_pos split: option.splits)

lemma NextToken_at_end:
  "length (input l) \<le> pos (skipWhitespaceAndComments l) \<Longrightarrow> Type (fst (NextToken l)) = EOF"
  by (simp add: NextToken_def Let_def)

lemma NextToken_progress:
  assumes "pos (skipWhitespaceAndComments l) < length (input l)"
  shows "pos l < pos (snd (NextToken l))"
proof -
  let ?s = "skipWhitespaceAndComments l"
  let ?l = "?s\<lparr>start := pos ?s\<rparr>"
  have s: "pos l \<le> pos ?s" by (rule skipWhitespaceAndComments_pos_ge)
  have lt: "pos ?l < length (input ?l)" using assms by simp
  have pk: "lex_peek ?l = lex_peek ?s" "lex_peekAt ?l 1 = lex_peekAt ?s 1"
    by (simp_all add: lex_peek_def lex_peekAt_def)
  have "pos ?l < pos (snd (NextToken l))"
    using assms lt
      readIdentifier_progress [of ?l "line ?l" "column ?l"]
      readHexNumber_progress [of ?l "line ?l" "column ?l"]
      readNumber_progress [of ?l "line ?l" "column ?l"]
      readString_progress [of ?l "line ?l" "column ?l"]
      readOperator_progress [of ?l "line ?l" "column ?l"]
    by (simp add: NextToken_def Let_def pk)
  with s show ?thesis by simp
qed

text \<open>\<^verbatim>\<open>Tokenize\<close>: call \<^verbatim>\<open>NextToken\<close> until it returns \<^verbatim>\<open>EOF\<close>, which is appended too.\<close>

function Tokenize :: "Lexer \<Rightarrow> Token list" where
  "Tokenize l =
     (let (tok, l') = NextToken l in
      if Type tok = EOF then [tok] else tok # Tokenize l')"
  by pat_completeness auto
termination
proof (relation "measure (\<lambda>l. length (input l) - pos l)", goal_cases)
  case 1
  show ?case by simp
next
  case (2 l x tok l')
  then have ne: "Type (fst (NextToken l)) \<noteq> EOF" and l': "l' = snd (NextToken l)"
    by (metis fst_conv, metis snd_conv)
  from ne have lt: "pos (skipWhitespaceAndComments l) < length (input l)"
    using NextToken_at_end [of l] by (cases "pos (skipWhitespaceAndComments l) < length (input l)") auto
  have "pos l \<le> pos (skipWhitespaceAndComments l)" by (rule skipWhitespaceAndComments_pos_ge)
  with lt have "pos l < length (input l)" by simp
  moreover from lt have "pos l < pos l'" unfolding l' by (rule NextToken_progress)
  moreover have "input l' = input l" unfolding l' by simp
  ultimately show ?case by simp
qed

declare Tokenize.simps [simp del]


subsection \<open>Shape of the token stream\<close>

lemma Tokenize_not_Nil: "Tokenize l \<noteq> []"
  by (subst Tokenize.simps) (simp add: split_beta)

lemma Tokenize_last_EOF: "Type (last (Tokenize l)) = EOF"
proof (induction l rule: Tokenize.induct)
  case (1 l)
  show ?case
  proof (cases "Type (fst (NextToken l)) = EOF")
    case True
    then show ?thesis by (subst Tokenize.simps) (simp add: split_beta)
  next
    case False
    with 1 [of "NextToken l" "fst (NextToken l)" "snd (NextToken l)"]
    have "Type (last (Tokenize (snd (NextToken l)))) = EOF" by simp
    with False show ?thesis
      by (subst Tokenize.simps) (simp add: split_beta Tokenize_not_Nil)
  qed
qed

lemma Tokenize_butlast_not_EOF: "\<forall>t \<in> set (butlast (Tokenize l)). Type t \<noteq> EOF"
proof (induction l rule: Tokenize.induct)
  case (1 l)
  show ?case
  proof (cases "Type (fst (NextToken l)) = EOF")
    case True
    then show ?thesis by (subst Tokenize.simps) (simp add: split_beta)
  next
    case False
    with 1 [of "NextToken l" "fst (NextToken l)" "snd (NextToken l)"]
    have "\<forall>t \<in> set (butlast (Tokenize (snd (NextToken l)))). Type t \<noteq> EOF" by simp
    with False show ?thesis
      by (subst Tokenize.simps) (simp add: split_beta Tokenize_not_Nil)
  qed
qed

lemma keywords_map_not_BYTE: "keywords_map v = Some t \<Longrightarrow> t \<noteq> BYTE"
proof -
  assume "keywords_map v = Some t"
  then have "(v, t) \<in> set keywords_table"
    unfolding keywords_map_def by (rule map_of_SomeD)
  then have "t \<in> snd ` set keywords_table" by force
  then show ?thesis
    unfolding keywords_table_def by (auto simp: tokdefs)
qed

lemma readIdentifier_not_BYTE: "Type (fst (readIdentifier ln col l)) \<noteq> BYTE"
proof (cases "keywords_map (slice (input (advanceWhile isIdentifierPart l)) (pos l)
                 (pos (advanceWhile isIdentifierPart l)))")
  case None
  then show ?thesis by (simp add: readIdentifier_def Let_def tokdefs)
next
  case (Some t)
  then show ?thesis using keywords_map_not_BYTE [OF Some] by (simp add: readIdentifier_def Let_def)
qed

lemma two_char_not_BYTE: "map_of two_char_operators s = Some t \<Longrightarrow> t \<noteq> BYTE"
proof -
  assume "map_of two_char_operators s = Some t"
  then have "(s, t) \<in> set two_char_operators" by (rule map_of_SomeD)
  then have "t \<in> snd ` set two_char_operators" by force
  then show ?thesis unfolding two_char_operators_def by (auto simp: tokdefs)
qed

lemma one_char_not_BYTE: "map_of one_char_operators c = Some t \<Longrightarrow> t \<noteq> BYTE"
proof -
  assume "map_of one_char_operators c = Some t"
  then have "(c, t) \<in> set one_char_operators" by (rule map_of_SomeD)
  then have "t \<in> snd ` set one_char_operators" by force
  then show ?thesis unfolding one_char_operators_def by (auto simp: tokdefs)
qed

lemma readOperator_not_BYTE: "Type (fst (readOperator ln col l)) \<noteq> BYTE"
  by (auto simp: readOperator_def Let_def split_beta tokdefs
           dest: two_char_not_BYTE one_char_not_BYTE split: option.splits if_splits)

lemma NextToken_not_BYTE: "Type (fst (NextToken l)) \<noteq> BYTE"
proof -
  have a: "Type (fst (readNumber ln col m)) \<noteq> BYTE" for ln col m
    by (simp add: readNumber_def Let_def tokdefs)
  have b: "Type (fst (readHexNumber ln col m)) \<noteq> BYTE" for ln col m
    by (simp add: readHexNumber_def Let_def tokdefs)
  have c: "Type (fst (readString ln col m)) \<noteq> BYTE" for ln col m
    by (simp add: readString_def Let_def split_beta tokdefs)
  have d: "EOF \<noteq> BYTE" by (simp add: tokdefs)
  show ?thesis
    using a b c d readIdentifier_not_BYTE readOperator_not_BYTE
    by (simp add: NextToken_def Let_def)
qed

lemma Tokenize_not_BYTE: "\<forall>t \<in> set (Tokenize l). Type t \<noteq> BYTE"
proof (induction l rule: Tokenize.induct)
  case (1 l)
  show ?case
  proof (cases "Type (fst (NextToken l)) = EOF")
    case True
    then show ?thesis
      using NextToken_not_BYTE [of l] by (subst Tokenize.simps) (simp add: split_beta)
  next
    case False
    with 1 [of "NextToken l" "fst (NextToken l)" "snd (NextToken l)"]
    have "\<forall>t \<in> set (Tokenize (snd (NextToken l))). Type t \<noteq> BYTE" by simp
    with False show ?thesis
      using NextToken_not_BYTE [of l] by (subst Tokenize.simps) (simp add: split_beta)
  qed
qed


section \<open>Syntax tree: \<^verbatim>\<open>pkg/ast\<close>\<close>

text \<open>
  Every node struct of the package embeds \<^verbatim>\<open>BaseNode\<close> (the kind \<^verbatim>\<open>Type\<close>, and the
  optional \<^verbatim>\<open>Loc\<close> and \<^verbatim>\<open>Range\<close>) and adds its own fields. A node is modelled by the
  three fields of its \<^verbatim>\<open>BaseNode\<close> and the list of its other fields under their Go
  names, each holding a value: a string, a boolean, a node, \<^verbatim>\<open>nil\<close>, or a slice. A
  field that a struct literal does not mention has Go's zero value and is absent from the
  list; an assignment \<^verbatim>\<open>node.F = v\<close> is \<open>set_field\<close>. An \<^verbatim>\<open>ImportSymbol\<close> (which is not a
  node) is the value \<open>VImportSymbol symbol alias\<close>.
\<close>

datatype Position = Position nat nat

datatype Location = Location Position Position

type_synonym Range = "nat \<times> nat"

datatype Node = Node string "Location option" "Range option" "(string \<times> Value) list"
  and Value =
      VString string
    | VBool bool
    | VNode Node
    | VNil
    | VList "Value list"
    | VImportSymbol string string

definition mkNode :: "string \<Rightarrow> (string \<times> Value) list \<Rightarrow> Node" where
  "mkNode k fs = Node k None None fs"

fun NodeType :: "Node \<Rightarrow> string" where
  "NodeType (Node k l r fs) = k"

fun GetLocation :: "Node \<Rightarrow> Location option" where
  "GetLocation (Node k l r fs) = l"

fun GetRange :: "Node \<Rightarrow> Range option" where
  "GetRange (Node k l r fs) = r"

fun node_fields :: "Node \<Rightarrow> (string \<times> Value) list" where
  "node_fields (Node k l r fs) = fs"

definition VOpt :: "Node option \<Rightarrow> Value" where
  "VOpt x = (case x of None \<Rightarrow> VNil | Some n \<Rightarrow> VNode n)"

definition VNodes :: "Node list \<Rightarrow> Value" where
  "VNodes ns = VList (map VNode ns)"

definition VOpts :: "Node option list \<Rightarrow> Value" where
  "VOpts ns = VList (map VOpt ns)"

definition VStrings :: "string list \<Rightarrow> Value" where
  "VStrings xs = VList (map VString xs)"

text \<open>Reading a field gives the zero value of its type when the field was never assigned.\<close>

definition get_field :: "Node \<Rightarrow> string \<Rightarrow> Value option" where
  "get_field n f = map_of (node_fields n) f"

definition field_bool :: "Node \<Rightarrow> string \<Rightarrow> bool" where
  "field_bool n f = (case get_field n f of Some (VBool v) \<Rightarrow> v | _ \<Rightarrow> False)"

definition field_string :: "Node \<Rightarrow> string \<Rightarrow> string" where
  "field_string n f = (case get_field n f of Some (VString v) \<Rightarrow> v | _ \<Rightarrow> [])"

definition field_node :: "Node \<Rightarrow> string \<Rightarrow> Node option" where
  "field_node n f = (case get_field n f of Some (VNode v) \<Rightarrow> Some v | _ \<Rightarrow> None)"

definition field_list :: "Node \<Rightarrow> string \<Rightarrow> Value list" where
  "field_list n f = (case get_field n f of Some (VList vs) \<Rightarrow> vs | _ \<Rightarrow> [])"

fun update_field :: "string \<Rightarrow> Value \<Rightarrow> (string \<times> Value) list \<Rightarrow> (string \<times> Value) list" where
  "update_field f v [] = [(f, v)]"
| "update_field f v ((g, w) # fs) = (if g = f then (f, v) # fs else (g, w) # update_field f v fs)"

fun set_field :: "Node \<Rightarrow> string \<Rightarrow> Value \<Rightarrow> Node" where
  "set_field (Node k l r fs) f v = Node k l r (update_field f v fs)"

text \<open>\<^verbatim>\<open>node.F = append(node.F, v)\<close>.\<close>

definition append_field :: "Node \<Rightarrow> string \<Rightarrow> Value \<Rightarrow> Node" where
  "append_field n f v = set_field n f (VList (field_list n f @ [v]))"


section \<open>Builder: \<^verbatim>\<open>internal/builder\<close>\<close>

subsection \<open>State, options and errors\<close>

record Error =
  Message :: string
  ErrLine :: nat
  ErrColumn :: nat

record Options =
  Tolerant :: bool
  Loc :: bool
  Range :: bool

record Builder =
  tokens :: "Token list"
  pos :: nat
  errors :: "Error list"
  options :: Options

text \<open>\<^verbatim>\<open>New\<close>: scan the whole input first; \<^verbatim>\<open>nil\<close> options are the defaults.\<close>

definition New :: "string \<Rightarrow> Options option \<Rightarrow> Builder" where
  "New inp opts =
     \<lparr>tokens = Tokenize (lex_New inp), pos = 0, errors = [],
      options = (case opts of
                   None \<Rightarrow> \<lparr>Tolerant = False, Loc = False, Range = False\<rparr>
                 | Some opt \<Rightarrow> opt)\<rparr>"

text \<open>\<^verbatim>\<open>lexer.Token{Type: lexer.EOF}\<close>, every other field zero.\<close>

definition EOF_token :: Token where
  "EOF_token = \<lparr>Type = EOF, Value = [], Line = 0, Column = 0, Start = 0, End = 0\<rparr>"

subsection \<open>Token navigation\<close>

definition peek :: "Builder \<Rightarrow> Token" where
  "peek b = (if pos b \<ge> length (tokens b) then EOF_token else tokens b ! pos b)"

definition previous :: "Builder \<Rightarrow> Token" where
  "previous b = (if pos b = 0 then EOF_token else tokens b ! (pos b - 1))"

definition isAtEnd :: "Builder \<Rightarrow> bool" where
  "isAtEnd b \<longleftrightarrow> Type (peek b) = EOF"

definition advance :: "Builder \<Rightarrow> Token \<times> Builder" where
  "advance b = (let b' = (if \<not> isAtEnd b then b\<lparr>pos := pos b + 1\<rparr> else b) in (previous b', b'))"

definition check :: "TokenType \<Rightarrow> Builder \<Rightarrow> bool" where
  "check t b = (if isAtEnd b then False else Type (peek b) = t)"

subsection \<open>Errors and synchronisation\<close>

text \<open>The table \<^verbatim>\<open>tokenNames\<close> and \<^verbatim>\<open>TokenType.String\<close>, which prints a kind without a
  name as \<^verbatim>\<open>TokenType(%d)\<close>.\<close>

definition tokenNames :: "(TokenType \<times> string) list" where
  "tokenNames = [
    (EOF, ''EOF''), (ILLEGAL, ''ILLEGAL''), (COMMENT, ''COMMENT''),
    (IDENTIFIER, ''IDENTIFIER''), (NUMBER, ''NUMBER''), (HEX_NUMBER, ''HEX_NUMBER''),
    (STRING, ''STRING''), (HEX_STRING, ''HEX_STRING''), (UNICODE_STRING, ''UNICODE_STRING''),
    (ABSTRACT, ''abstract''), (ADDRESS, ''address''), (ANONYMOUS, ''anonymous''), (AS, ''as''),
    (ASSEMBLY, ''assembly''), (BOOL, ''bool''), (BREAK, ''break''), (BYTES, ''bytes''),
    (CALLDATA, ''calldata''), (CASE, ''case''), (CATCH, ''catch''), (CONSTANT, ''constant''),
    (CONSTRUCTOR, ''constructor''), (CONTINUE, ''continue''), (CONTRACT, ''contract''),
    (DEFAULT, ''default''), (DELETE, ''delete''), (DO, ''do''), (ELSE, ''else''),
    (EMIT, ''emit''), (ENUM, ''enum''), (ERROR, ''error''), (EVENT, ''event''),
    (EXTERNAL, ''external''), (FALLBACK, ''fallback''), (FALSE, ''false''), (FIXED, ''fixed''),
    (FOR, ''for''), (FROM, ''from''), (FUNCTION, ''function''), (GLOBAL, ''global''),
    (HEX, ''hex''), (IF, ''if''), (IMMUTABLE, ''immutable''), (IMPORT, ''import''),
    (INDEXED, ''indexed''), (INTERFACE, ''interface''), (INTERNAL, ''internal''), (IS, ''is''),
    (LET, ''let''), (LIBRARY, ''library''), (MAPPING, ''mapping''), (MEMORY, ''memory''),
    (MODIFIER, ''modifier''), (NEW, ''new''), (OVERRIDE, ''override''), (PAYABLE, ''payable''),
    (PRAGMA, ''pragma''), (PRIVATE, ''private''), (PUBLIC, ''public''), (PURE, ''pure''),
    (RECEIVE, ''receive''), (RETURN, ''return''), (RETURNS, ''returns''), (REVERT, ''revert''),
    (STORAGE, ''storage''), (STRING_TYPE, ''string''), (STRUCT, ''struct''),
    (SWITCH, ''switch''), (TRUE, ''true''), (TRY, ''try''), (TRANSIENT, ''transient''),
    (TYPE_KW, ''type''), (UFIXED, ''ufixed''), (UNCHECKED, ''unchecked''),
    (LAYOUT, ''layout''), (AT, ''at''), (UNICODE, ''unicode''), (USING, ''using''),
    (VIEW, ''view''), (VIRTUAL, ''virtual''), (WHILE, ''while''), (INT_T, ''int''),
    (UINT, ''uint''), (BYTE, ''byte''), (BYTES_N, ''bytes<N>''), (FIXED_N, ''fixed<M>x<N>''),
    (UFIXED_N, ''ufixed<M>x<N>''), (LPAREN, ''(''), (RPAREN, '')''), (LBRACK, ''[''),
    (RBRACK, '']''), (LBRACE, ''{''), (RBRACE, ''}''), (COLON, '':''), (SEMICOLON, '';''),
    (PERIOD, ''.''), (COMMA, '',''), (QUESTION, ''?''), (ARROW, ''=>''), (RIGHT_ARROW, ''->''),
    (ASSIGN, ''=''), (ASSIGN_ADD, ''+=''), (ASSIGN_SUB, ''-=''), (ASSIGN_MUL, ''*=''),
    (ASSIGN_DIV, ''/=''), (ASSIGN_MOD, ''%=''), (ASSIGN_AND, ''&=''), (ASSIGN_OR, ''|=''),
    (ASSIGN_XOR, ''^=''), (ASSIGN_SHL, ''<<=''), (ASSIGN_SHR, ''>>=''), (ASSIGN_SAR, ''>>>=''),
    (EQ, ''==''), (NEQ, ''!=''), (LT, ''<''), (GT, ''>''), (LTE, ''<=''), (GTE, ''>=''),
    (AND, ''&&''), (OR, ''||''), (NOT, ''!''), (BIT_AND, ''&''), (BIT_OR, ''|''),
    (BIT_XOR, ''^''), (BIT_NOT, ''~''), (SHL, ''<<''), (SHR, ''>>''), (SAR, ''>>>''),
    (ADD, ''+''), (SUB, ''-''), (MUL, ''*''), (DIV, ''/''), (MOD, ''%''), (EXP, ''**''),
    (INC, ''++''), (DEC, ''--'')
  ]"

fun digits_nat :: "nat \<Rightarrow> string" where
  "digits_nat n =
     (if n < 10 then [char_of (48 + n)] else digits_nat (n div 10) @ [char_of (48 + n mod 10)])"

declare digits_nat.simps [simp del]

definition itoa :: "int \<Rightarrow> string" where
  "itoa i = (if i < 0 then CHR ''-'' # digits_nat (nat (- i)) else digits_nat (nat i))"

definition TokenType_String :: "TokenType \<Rightarrow> string" where
  "TokenType_String t =
     (case map_of tokenNames t of
        Some name \<Rightarrow> name
      | None \<Rightarrow> ''TokenType('' @ itoa t @ '')'')"

text \<open>The loop of \<^verbatim>\<open>synchronize\<close>: skip to just after a semicolon or to the start of a
  top-level construct.\<close>

definition sync_kinds :: "TokenType list" where
  "sync_kinds = [CONTRACT, INTERFACE, LIBRARY, FUNCTION, STRUCT, ENUM, EVENT, ERROR,
                 PRAGMA, IMPORT, USING]"

lemma advance_measure:
  "\<not> isAtEnd b \<Longrightarrow> length (tokens (snd (advance b))) - pos (snd (advance b)) < length (tokens b) - pos b"
proof -
  assume a: "\<not> isAtEnd b"
  then have "pos b < length (tokens b)"
    by (auto simp: isAtEnd_def peek_def EOF_token_def split: if_splits)
  with a show ?thesis by (simp add: advance_def Let_def)
qed

function synchronize_loop :: "Builder \<Rightarrow> Builder" where
  "synchronize_loop b =
     (if \<not> isAtEnd b then
        (if Type (previous b) = SEMICOLON then b
         else if Type (peek b) \<in> set sync_kinds then b
         else synchronize_loop (snd (advance b)))
      else b)"
  by pat_completeness auto
termination
  by (relation "measure (\<lambda>b. length (tokens b) - pos b)") (auto intro: advance_measure)

declare synchronize_loop.simps [simp del]

definition synchronize :: "Builder \<Rightarrow> Builder" where
  "synchronize b = synchronize_loop (snd (advance b))"

definition addError :: "string \<Rightarrow> Builder \<Rightarrow> Builder" where
  "addError message b =
     (let tok = peek b;
          b = b\<lparr>errors := errors b @ [\<lparr>Message = message, ErrLine = Line tok, ErrColumn = Column tok\<rparr>]\<rparr>
      in if Tolerant (options b) then synchronize b else b)"

definition expect :: "TokenType \<Rightarrow> Builder \<Rightarrow> Token \<times> Builder" where
  "expect t b =
     (if check t b then advance b
      else
        let b = addError (''expected '' @ [CHR 0x27] @ TokenType_String t @ [CHR 0x27] @
                          '', got '' @ [CHR 0x27] @ Value (peek b) @ [CHR 0x27]) b;
            b = (if \<not> Tolerant (options b) then snd (advance b) else b)
        in (peek b, b))"

definition expectKeyword :: "string \<Rightarrow> Builder \<Rightarrow> Token \<times> Builder" where
  "expectKeyword keyword b =
     (if Value (peek b) = keyword then advance b
      else
        let b = addError (''expected '' @ [CHR 0x27] @ keyword @ [CHR 0x27] @
                          '', got '' @ [CHR 0x27] @ Value (peek b) @ [CHR 0x27]) b;
            b = (if \<not> Tolerant (options b) then snd (advance b) else b)
        in (peek b, b))"

subsection \<open>Type tests\<close>

definition isElementaryTypeName :: "Builder \<Rightarrow> bool" where
  "isElementaryTypeName b =
     (let t = Type (peek b) in
      t = ADDRESS \<or> t = BOOL \<or> t = STRING_TYPE \<or> t = BYTES \<or> t = INT_T \<or> t = UINT \<or>
      t = BYTE \<or> t = BYTES_N \<or> t = FIXED \<or> t = UFIXED \<or> t = FIXED_N \<or> t = UFIXED_N)"

definition isTypeName :: "Builder \<Rightarrow> bool" where
  "isTypeName b \<longleftrightarrow>
     isElementaryTypeName b \<or> check MAPPING b \<or> check FUNCTION b \<or> check IDENTIFIER b"

definition isContextualKeyword :: "Builder \<Rightarrow> bool" where
  "isContextualKeyword b =
     (let t = Type (peek b) in
      t = FROM \<or> t = ERROR \<or> t = REVERT \<or> t = GLOBAL \<or> t = TRANSIENT \<or> t = LAYOUT \<or> t = AT)"

subsection \<open>Locations\<close>

text \<open>The node kinds that the type switch of \<^verbatim>\<open>setLocation\<close> lists; on any other node the
  call changes nothing.\<close>

definition setLocation_kinds :: "string list" where
  "setLocation_kinds = [
    ''SourceUnit'', ''PragmaDirective'', ''ImportDirective'', ''ContractDefinition'',
    ''InheritanceSpecifier'', ''FunctionDefinition'', ''ModifierDefinition'',
    ''ModifierInvocation'', ''StateVariableDeclaration'', ''VariableDeclaration'',
    ''VariableDeclarationStatement'', ''StructDefinition'', ''EnumDefinition'',
    ''EventDefinition'', ''ErrorDefinition'', ''UsingForDeclaration'',
    ''UserDefinedValueTypeDefinition'', ''ElementaryTypeName'', ''UserDefinedTypeName'',
    ''Mapping'', ''ArrayTypeName'', ''FunctionTypeName'', ''Block'', ''UncheckedBlock'',
    ''ExpressionStatement'', ''IfStatement'', ''WhileStatement'', ''DoWhileStatement'',
    ''ForStatement'', ''ContinueStatement'', ''BreakStatement'', ''ReturnStatement'',
    ''EmitStatement'', ''RevertStatement'', ''TryStatement'', ''CatchClause'',
    ''InlineAssembly'', ''AssemblyBlock'', ''AssemblyCall'', ''AssemblyLocalDefinition'',
    ''AssemblyAssignment'', ''AssemblyIdentifier'', ''AssemblyLiteral'', ''AssemblyIf'',
    ''AssemblySwitch'', ''AssemblyFor'', ''AssemblyFunctionDefinition'', ''TupleExpression'',
    ''NewExpression'', ''FunctionCall'', ''BinaryOperation'', ''UnaryOperation'',
    ''Conditional'', ''MemberAccess'', ''IndexAccess'', ''IndexRangeAccess'',
    ''FunctionCallOptions'', ''Identifier'', ''NumberLiteral'', ''BooleanLiteral'',
    ''StringLiteral'', ''HexLiteral''
  ]"

definition setLocation :: "Builder \<Rightarrow> Node \<Rightarrow> Token \<Rightarrow> Token \<Rightarrow> Node" where
  "setLocation b node startTok endTok =
     (if \<not> Loc (options b) \<and> \<not> Range (options b) then node
      else
        let loc = (if Loc (options b)
                   then Some (Location (Position (Line startTok) (Column startTok))
                                       (Position (Line endTok) (Column endTok + length (Value endTok))))
                   else None);
            rng = (if Range (options b) then Some (Start startTok, End endTok) else None)
        in if NodeType node \<in> set setLocation_kinds then Node (NodeType node) loc rng (node_fields node)
           else node)"

subsection \<open>Loops\<close>

text \<open>
  The builder's functions are mutually recursive and their loops run until the token
  cursor meets a condition, so they are defined by recursion on a step budget (fuel) that
  every call and every loop iteration decreases; \<open>None\<close> means that the budget ran
  out.

  \<open>whileB n c body a b\<close> is \<^verbatim>\<open>for c { body }\<close> over the loop variables \<open>a\<close>;
  \<open>loopB n body a b\<close> is \<^verbatim>\<open>for { body }\<close> whose body says whether to go on
  (\<^verbatim>\<open>continue\<close>, or the end of the body) or to leave (\<^verbatim>\<open>break\<close>).
\<close>

fun whileB :: "nat \<Rightarrow> (Builder \<Rightarrow> bool) \<Rightarrow> ('a \<Rightarrow> Builder \<Rightarrow> ('a \<times> Builder) option) \<Rightarrow>
    'a \<Rightarrow> Builder \<Rightarrow> ('a \<times> Builder) option" where
  "whileB 0 c body a b = None"
| "whileB (Suc n) c body a b =
     (if c b then (case body a b of None \<Rightarrow> None | Some (a', b') \<Rightarrow> whileB n c body a' b')
      else Some (a, b))"

fun loopB :: "nat \<Rightarrow> ('a \<Rightarrow> Builder \<Rightarrow> ((bool \<times> 'a) \<times> Builder) option) \<Rightarrow>
    'a \<Rightarrow> Builder \<Rightarrow> ('a \<times> Builder) option" where
  "loopB 0 body a b = None"
| "loopB (Suc n) body a b =
     (case body a b of
        None \<Rightarrow> None
      | Some ((go_on, a'), b') \<Rightarrow> if go_on then loopB n body a' b' else Some (a', b'))"


named_theorems parse_0 and parse_Suc and parse_rec and parse_body and parse_num and parse_top

subsection \<open>Type names and expressions: \<^verbatim>\<open>types.go\<close>, \<^verbatim>\<open>expressions.go\<close>\<close>

text \<open>\<^verbatim>\<open>strings.Join\<close>.\<close>

fun Join :: "string list \<Rightarrow> string \<Rightarrow> string" where
  "Join [] sep = []"
| "Join [x] sep = x"
| "Join (x # y # ys) sep = x @ sep @ Join (y # ys) sep"

definition parseElementaryTypeName :: "Builder \<Rightarrow> Node \<times> Builder" where
  "parseElementaryTypeName b0 =
     (let (startTok, b) = advance b0;
          node = mkNode ''ElementaryTypeName'' [(''Name'', VString (Value startTok))];
          (node, b) = (if Type startTok = ADDRESS \<and> check PAYABLE b
                       then (set_field node ''StateMutability'' (VString ''payable''), snd (advance b))
                       else (node, b))
      in (setLocation b node startTok (previous b), b))"

definition parseUserDefinedTypeName :: "nat \<Rightarrow> Builder \<Rightarrow> (Node \<times> Builder) option" where
  "parseUserDefinedTypeName n b0 = do {
     let startTok = peek b0;
     let (nameTok, b) = expect IDENTIFIER b0;
     (parts, b) \<leftarrow> whileB n (check PERIOD)
        (\<lambda>parts b.
           let b = snd (advance b);
               (partTok, b) = expect IDENTIFIER b
           in Some (parts @ [Value partTok], b))
        [Value nameTok] b;
     let node = mkNode ''UserDefinedTypeName'' [(''NamePath'', VString (Join parts ''.''))];
     Some (setLocation b node startTok (previous b), b)
   }"

definition checkNumberUnit :: "Builder \<Rightarrow> bool" where
  "checkNumberUnit b =
     (if \<not> check IDENTIFIER b then False
      else Value (peek b) \<in> set [''wei'', ''gwei'', ''ether'', ''seconds'', ''minutes'', ''hours'',
                                   ''days'', ''weeks'', ''years''])"

definition parseNumberLiteral :: "Token \<Rightarrow> Builder \<Rightarrow> Node \<times> Builder" where
  "parseNumberLiteral tok b =
     (let node = mkNode ''NumberLiteral'' [(''Number'', VString (Value tok))] in
      if checkNumberUnit b
      then (let (unitTok, b) = advance b in
            (set_field node ''SubDenomination'' (VString (Value unitTok)), b))
      else (node, b))"

text \<open>\<^verbatim>\<open>parts[0]\<close> panics on an empty slice; the model then gives no result.\<close>

definition parseStringLiteral :: "nat \<Rightarrow> Builder \<Rightarrow> (Node \<times> Builder) option" where
  "parseStringLiteral n b0 = do {
     ((parts, isUnicode, isHex), b) \<leftarrow>
       whileB n (\<lambda>b. check STRING b \<or> check UNICODE_STRING b \<or> check HEX_STRING b)
         (\<lambda>(parts, isUnicode, isHex) b.
            let (tok, b) = advance b in
            Some ((parts @ [Value tok],
                   isUnicode \<or> Type tok = UNICODE_STRING,
                   isHex \<or> Type tok = HEX_STRING), b))
         ([], False, False) b0;
     (case parts of
        [] \<Rightarrow> None
      | p0 # _ \<Rightarrow>
          if isHex
          then Some (mkNode ''HexLiteral'' [(''Value'', VString p0), (''Parts'', VStrings parts)], b)
          else Some (mkNode ''StringLiteral''
                       [(''Value'', VString p0), (''Parts'', VStrings parts),
                        (''IsUnicode'', VBool isUnicode)], b))
   }"

definition isAssignmentOperator :: "Builder \<Rightarrow> bool" where
  "isAssignmentOperator b \<longleftrightarrow>
     check ASSIGN b \<or> check ASSIGN_ADD b \<or> check ASSIGN_SUB b \<or>
     check ASSIGN_MUL b \<or> check ASSIGN_DIV b \<or> check ASSIGN_MOD b \<or>
     check ASSIGN_AND b \<or> check ASSIGN_OR b \<or> check ASSIGN_XOR b \<or>
     check ASSIGN_SHL b \<or> check ASSIGN_SHR b \<or> check ASSIGN_SAR b"

definition BinaryOperation :: "string \<Rightarrow> Node \<Rightarrow> Node \<Rightarrow> Node" where
  "BinaryOperation opr left right =
     mkNode ''BinaryOperation''
       [(''Operator'', VString opr), (''Left'', VNode left), (''Right'', VNode right)]"

definition Identifier :: "string \<Rightarrow> Node" where
  "Identifier name = mkNode ''Identifier'' [(''Name'', VString name)]"

text \<open>The storage location and the optional name that \<^verbatim>\<open>parseParameter\<close> and
  \<^verbatim>\<open>parseVariableDeclaration\<close> read after the type, in the same words.\<close>

definition parseLocationAndName :: "Node \<Rightarrow> Builder \<Rightarrow> Node \<times> Builder" where
  "parseLocationAndName node0 b0 =
     (let (node, b) =
            (if check MEMORY b0 \<or> check STORAGE b0 \<or> check CALLDATA b0
             then (let (locTok, b) = advance b0 in
                   (set_field node0 ''StorageLocation'' (VString (Value locTok)), b))
             else (node0, b0))
      in if check IDENTIFIER b \<or> isContextualKeyword b
         then (let (nameTok, b) = advance b in
               (set_field (set_field node ''Name'' (VString (Value nameTok)))
                  ''Identifier'' (VNode (Identifier (Value nameTok))), b))
         else (node, b))"

text \<open>
  The functions from \<^verbatim>\<open>parseTypeName\<close> to \<^verbatim>\<open>parseExpressionList\<close> call each other. Each
  is first written as \<open>f_body ps n\<close>, the body of the Go function with budget \<open>n\<close> for
  its loops, in which a call of one of these functions \<open>g\<close> is \<open>g_rec ps\<close>; then
  \<open>exprParsers_at\<close> ties the knot by recursion on the budget, so that
  \<open>f (Suc n) = f_body (exprParsers_at n) n\<close> and \<open>g_rec (exprParsers_at n) = g n\<close>: every
  call spends one unit of the budget.
\<close>

record ExprParsers =
  parseTypeName_rec :: "Builder \<Rightarrow> (Node \<times> Builder) option"
  parseMappingType_rec :: "Builder \<Rightarrow> (Node \<times> Builder) option"
  parseFunctionTypeName_rec :: "Builder \<Rightarrow> (Node \<times> Builder) option"
  parseParameterList_rec :: "Builder \<Rightarrow> (Node list \<times> Builder) option"
  parseParameter_rec :: "Builder \<Rightarrow> (Node \<times> Builder) option"
  parseExpression_rec :: "Builder \<Rightarrow> (Node \<times> Builder) option"
  parseAssignment_rec :: "Builder \<Rightarrow> (Node \<times> Builder) option"
  parseTernary_rec :: "Builder \<Rightarrow> (Node \<times> Builder) option"
  parseLogicalOr_rec :: "Builder \<Rightarrow> (Node \<times> Builder) option"
  parseLogicalAnd_rec :: "Builder \<Rightarrow> (Node \<times> Builder) option"
  parseEquality_rec :: "Builder \<Rightarrow> (Node \<times> Builder) option"
  parseRelational_rec :: "Builder \<Rightarrow> (Node \<times> Builder) option"
  parseBitwiseOr_rec :: "Builder \<Rightarrow> (Node \<times> Builder) option"
  parseBitwiseXor_rec :: "Builder \<Rightarrow> (Node \<times> Builder) option"
  parseBitwiseAnd_rec :: "Builder \<Rightarrow> (Node \<times> Builder) option"
  parseShift_rec :: "Builder \<Rightarrow> (Node \<times> Builder) option"
  parseAdditive_rec :: "Builder \<Rightarrow> (Node \<times> Builder) option"
  parseMultiplicative_rec :: "Builder \<Rightarrow> (Node \<times> Builder) option"
  parseExponentiation_rec :: "Builder \<Rightarrow> (Node \<times> Builder) option"
  parseUnary_rec :: "Builder \<Rightarrow> (Node \<times> Builder) option"
  parsePostfix_rec :: "Builder \<Rightarrow> (Node \<times> Builder) option"
  parseCallMemberIndex_rec :: "Builder \<Rightarrow> (Node \<times> Builder) option"
  parseFunctionCall_rec :: "Node \<Rightarrow> Builder \<Rightarrow> (Node \<times> Builder) option"
  parseFunctionCallOptions_rec :: "Node \<Rightarrow> Builder \<Rightarrow> (Node \<times> Builder) option"
  parsePrimary_rec :: "Builder \<Rightarrow> (Node \<times> Builder) option"
  parseTupleOrParenthesized_rec :: "Builder \<Rightarrow> (Node \<times> Builder) option"
  parseArrayLiteral_rec :: "Builder \<Rightarrow> (Node \<times> Builder) option"
  parseNewExpression_rec :: "Builder \<Rightarrow> (Node \<times> Builder) option"
  parseTypeExpression_rec :: "Builder \<Rightarrow> (Node \<times> Builder) option"
  parsePayableConversion_rec :: "Builder \<Rightarrow> (Node \<times> Builder) option"
  parseExpressionList_rec :: "Builder \<Rightarrow> (Node list \<times> Builder) option"

definition parseTypeName_body :: "ExprParsers \<Rightarrow> nat \<Rightarrow> Builder \<Rightarrow> (Node \<times> Builder) option" where
  "parseTypeName_body ps n b =
     do {
     let startTok = peek b;
     (typeName, b) \<leftarrow>
       (if check FUNCTION b then parseFunctionTypeName_rec ps b
        else if check MAPPING b then parseMappingType_rec ps b
        else if isElementaryTypeName b then Some (parseElementaryTypeName b)
        else parseUserDefinedTypeName n b);
     (typeName, b) \<leftarrow> whileB n (check LBRACK)
        (\<lambda>typeName b. do {
           let b = snd (advance b);
           (len, b) \<leftarrow>
             (if \<not> check RBRACK b
              then do { (e, b) \<leftarrow> parseExpression_rec ps b; Some (Some e, b) }
              else Some (None, b));
           let b = snd (expect RBRACK b);
           Some (mkNode ''ArrayTypeName''
                   [(''BaseTypeName'', VNode typeName), (''Length'', VOpt len)], b)
         })
        typeName b;
     Some (setLocation b typeName startTok (previous b), b)
   }"

definition parseMappingType_body :: "ExprParsers \<Rightarrow> nat \<Rightarrow> Builder \<Rightarrow> (Node \<times> Builder) option" where
  "parseMappingType_body ps n b =
     do {
     let (startTok, b) = advance b;
     let b = snd (expect LPAREN b);
     (keyType, b) \<leftarrow>
       (if isElementaryTypeName b then Some (parseElementaryTypeName b)
        else parseUserDefinedTypeName n b);
     let (keyName, b) =
       (if check IDENTIFIER b
        then (let (keyNameTok, b) = advance b in (Some (Identifier (Value keyNameTok)), b))
        else (None, b));
     let b = snd (expect ARROW b);
     (valueType, b) \<leftarrow> parseTypeName_rec ps b;
     let (valueName, b) =
       (if check IDENTIFIER b
        then (let (valueNameTok, b) = advance b in (Some (Identifier (Value valueNameTok)), b))
        else (None, b));
     let b = snd (expect RPAREN b);
     let node = mkNode ''Mapping''
       [(''KeyType'', VNode keyType), (''KeyName'', VOpt keyName),
        (''ValueType'', VNode valueType), (''ValueName'', VOpt valueName)];
     Some (setLocation b node startTok (previous b), b)
   }"

definition parseFunctionTypeName_body :: "ExprParsers \<Rightarrow> nat \<Rightarrow> Builder \<Rightarrow> (Node \<times> Builder) option" where
  "parseFunctionTypeName_body ps n b =
     do {
     let (startTok, b) = advance b;
     let node = mkNode ''FunctionTypeName'' [(''ParameterTypes'', VList [])];
     (params, b) \<leftarrow> parseParameterList_rec ps b;
     let node = set_field node ''ParameterTypes'' (VNodes params);
     (node, b) \<leftarrow> loopB n
        (\<lambda>node b.
           if check INTERNAL b
           then Some ((True, set_field node ''Visibility'' (VString ''internal'')), snd (advance b))
           else if check EXTERNAL b
           then Some ((True, set_field node ''Visibility'' (VString ''external'')), snd (advance b))
           else if check PURE b
           then Some ((True, set_field node ''StateMutability'' (VString ''pure'')), snd (advance b))
           else if check VIEW b
           then Some ((True, set_field node ''StateMutability'' (VString ''view'')), snd (advance b))
           else if check PAYABLE b
           then Some ((True, set_field node ''StateMutability'' (VString ''payable'')), snd (advance b))
           else Some ((False, node), b))
        node b;
     (node, b) \<leftarrow>
       (if check RETURNS b
        then do {
          let b = snd (advance b);
          (rets, b) \<leftarrow> parseParameterList_rec ps b;
          Some (set_field node ''ReturnTypes'' (VNodes rets), b)
        }
        else Some (node, b));
     Some (setLocation b node startTok (previous b), b)
   }"

definition parseParameterList_body :: "ExprParsers \<Rightarrow> nat \<Rightarrow> Builder \<Rightarrow> (Node list \<times> Builder) option" where
  "parseParameterList_body ps n b =
     do {
     let b = snd (expect LPAREN b);
     (params, b) \<leftarrow> whileB n (\<lambda>b. \<not> check RPAREN b \<and> \<not> isAtEnd b)
        (\<lambda>params b. do {
           (param, b) \<leftarrow> parseParameter_rec ps b;
           let b = (if \<not> check RPAREN b then snd (expect COMMA b) else b);
           Some (params @ [param], b)
         })
        [] b;
     let b = snd (expect RPAREN b);
     Some (params, b)
   }"

definition parseParameter_body :: "ExprParsers \<Rightarrow> nat \<Rightarrow> Builder \<Rightarrow> (Node \<times> Builder) option" where
  "parseParameter_body ps n b =
     do {
     let startTok = peek b;
     (typeName, b) \<leftarrow> parseTypeName_rec ps b;
     let node = mkNode ''VariableDeclaration'' [(''TypeName'', VNode typeName)];
     let (node, b) = parseLocationAndName node b;
     Some (setLocation b node startTok (previous b), b)
   }"

definition parseExpression_body :: "ExprParsers \<Rightarrow> nat \<Rightarrow> Builder \<Rightarrow> (Node \<times> Builder) option" where
  "parseExpression_body ps n b = parseAssignment_rec ps b"

definition parseAssignment_body :: "ExprParsers \<Rightarrow> nat \<Rightarrow> Builder \<Rightarrow> (Node \<times> Builder) option" where
  "parseAssignment_body ps n b =
     do {
     (left, b) \<leftarrow> parseTernary_rec ps b;
     if isAssignmentOperator b
     then do {
       let (opTok, b) = advance b;
       (right, b) \<leftarrow> parseAssignment_rec ps b;
       Some (BinaryOperation (Value opTok) left right, b)
     }
     else Some (left, b)
   }"

definition parseTernary_body :: "ExprParsers \<Rightarrow> nat \<Rightarrow> Builder \<Rightarrow> (Node \<times> Builder) option" where
  "parseTernary_body ps n b =
     do {
     (condition, b) \<leftarrow> parseLogicalOr_rec ps b;
     if check QUESTION b
     then do {
       let b = snd (advance b);
       (trueExpr, b) \<leftarrow> parseExpression_rec ps b;
       let b = snd (expect COLON b);
       (falseExpr, b) \<leftarrow> parseTernary_rec ps b;
       Some (mkNode ''Conditional''
               [(''Condition'', VNode condition), (''TrueExpression'', VNode trueExpr),
                (''FalseExpression'', VNode falseExpr)], b)
     }
     else Some (condition, b)
   }"

definition parseLogicalOr_body :: "ExprParsers \<Rightarrow> nat \<Rightarrow> Builder \<Rightarrow> (Node \<times> Builder) option" where
  "parseLogicalOr_body ps n b =
     do {
     (left, b) \<leftarrow> parseLogicalAnd_rec ps b;
     whileB n (check OR)
       (\<lambda>left b. do {
          let (opTok, b) = advance b;
          (right, b) \<leftarrow> parseLogicalAnd_rec ps b;
          Some (BinaryOperation (Value opTok) left right, b)
        })
       left b
   }"

definition parseLogicalAnd_body :: "ExprParsers \<Rightarrow> nat \<Rightarrow> Builder \<Rightarrow> (Node \<times> Builder) option" where
  "parseLogicalAnd_body ps n b =
     do {
     (left, b) \<leftarrow> parseEquality_rec ps b;
     whileB n (check AND)
       (\<lambda>left b. do {
          let (opTok, b) = advance b;
          (right, b) \<leftarrow> parseEquality_rec ps b;
          Some (BinaryOperation (Value opTok) left right, b)
        })
       left b
   }"

definition parseEquality_body :: "ExprParsers \<Rightarrow> nat \<Rightarrow> Builder \<Rightarrow> (Node \<times> Builder) option" where
  "parseEquality_body ps n b =
     do {
     (left, b) \<leftarrow> parseRelational_rec ps b;
     whileB n (\<lambda>b. check EQ b \<or> check NEQ b)
       (\<lambda>left b. do {
          let (opTok, b) = advance b;
          (right, b) \<leftarrow> parseRelational_rec ps b;
          Some (BinaryOperation (Value opTok) left right, b)
        })
       left b
   }"

definition parseRelational_body :: "ExprParsers \<Rightarrow> nat \<Rightarrow> Builder \<Rightarrow> (Node \<times> Builder) option" where
  "parseRelational_body ps n b =
     do {
     (left, b) \<leftarrow> parseBitwiseOr_rec ps b;
     whileB n (\<lambda>b. check LT b \<or> check GT b \<or> check LTE b \<or> check GTE b)
       (\<lambda>left b. do {
          let (opTok, b) = advance b;
          (right, b) \<leftarrow> parseBitwiseOr_rec ps b;
          Some (BinaryOperation (Value opTok) left right, b)
        })
       left b
   }"

definition parseBitwiseOr_body :: "ExprParsers \<Rightarrow> nat \<Rightarrow> Builder \<Rightarrow> (Node \<times> Builder) option" where
  "parseBitwiseOr_body ps n b =
     do {
     (left, b) \<leftarrow> parseBitwiseXor_rec ps b;
     whileB n (check BIT_OR)
       (\<lambda>left b. do {
          let (opTok, b) = advance b;
          (right, b) \<leftarrow> parseBitwiseXor_rec ps b;
          Some (BinaryOperation (Value opTok) left right, b)
        })
       left b
   }"

definition parseBitwiseXor_body :: "ExprParsers \<Rightarrow> nat \<Rightarrow> Builder \<Rightarrow> (Node \<times> Builder) option" where
  "parseBitwiseXor_body ps n b =
     do {
     (left, b) \<leftarrow> parseBitwiseAnd_rec ps b;
     whileB n (check BIT_XOR)
       (\<lambda>left b. do {
          let (opTok, b) = advance b;
          (right, b) \<leftarrow> parseBitwiseAnd_rec ps b;
          Some (BinaryOperation (Value opTok) left right, b)
        })
       left b
   }"

definition parseBitwiseAnd_body :: "ExprParsers \<Rightarrow> nat \<Rightarrow> Builder \<Rightarrow> (Node \<times> Builder) option" where
  "parseBitwiseAnd_body ps n b =
     do {
     (left, b) \<leftarrow> parseShift_rec ps b;
     whileB n (check BIT_AND)
       (\<lambda>left b. do {
          let (opTok, b) = advance b;
          (right, b) \<leftarrow> parseShift_rec ps b;
          Some (BinaryOperation (Value opTok) left right, b)
        })
       left b
   }"

definition parseShift_body :: "ExprParsers \<Rightarrow> nat \<Rightarrow> Builder \<Rightarrow> (Node \<times> Builder) option" where
  "parseShift_body ps n b =
     do {
     (left, b) \<leftarrow> parseAdditive_rec ps b;
     whileB n (\<lambda>b. check SHL b \<or> check SHR b \<or> check SAR b)
       (\<lambda>left b. do {
          let (opTok, b) = advance b;
          (right, b) \<leftarrow> parseAdditive_rec ps b;
          Some (BinaryOperation (Value opTok) left right, b)
        })
       left b
   }"

definition parseAdditive_body :: "ExprParsers \<Rightarrow> nat \<Rightarrow> Builder \<Rightarrow> (Node \<times> Builder) option" where
  "parseAdditive_body ps n b =
     do {
     (left, b) \<leftarrow> parseMultiplicative_rec ps b;
     whileB n (\<lambda>b. check ADD b \<or> check SUB b)
       (\<lambda>left b. do {
          let (opTok, b) = advance b;
          (right, b) \<leftarrow> parseMultiplicative_rec ps b;
          Some (BinaryOperation (Value opTok) left right, b)
        })
       left b
   }"

definition parseMultiplicative_body :: "ExprParsers \<Rightarrow> nat \<Rightarrow> Builder \<Rightarrow> (Node \<times> Builder) option" where
  "parseMultiplicative_body ps n b =
     do {
     (left, b) \<leftarrow> parseExponentiation_rec ps b;
     whileB n (\<lambda>b. check MUL b \<or> check DIV b \<or> check MOD b)
       (\<lambda>left b. do {
          let (opTok, b) = advance b;
          (right, b) \<leftarrow> parseExponentiation_rec ps b;
          Some (BinaryOperation (Value opTok) left right, b)
        })
       left b
   }"

definition parseExponentiation_body :: "ExprParsers \<Rightarrow> nat \<Rightarrow> Builder \<Rightarrow> (Node \<times> Builder) option" where
  "parseExponentiation_body ps n b =
     do {
     (left, b) \<leftarrow> parseUnary_rec ps b;
     if check EXP b
     then do {
       let (opTok, b) = advance b;
       (right, b) \<leftarrow> parseExponentiation_rec ps b;
       Some (BinaryOperation (Value opTok) left right, b)
     }
     else Some (left, b)
   }"

definition parseUnary_body :: "ExprParsers \<Rightarrow> nat \<Rightarrow> Builder \<Rightarrow> (Node \<times> Builder) option" where
  "parseUnary_body ps n b =
     (if check NOT b \<or> check BIT_NOT b \<or> check SUB b \<or> check ADD b \<or> check INC b \<or>
         check DEC b \<or> check DELETE b
      then do {
        let (opTok, b) = advance b;
        (expr, b) \<leftarrow> parseUnary_rec ps b;
        Some (mkNode ''UnaryOperation''
                [(''Operator'', VString (Value opTok)), (''SubExpression'', VNode expr),
                 (''IsPrefix'', VBool True)], b)
      }
      else parsePostfix_rec ps b)"

definition parsePostfix_body :: "ExprParsers \<Rightarrow> nat \<Rightarrow> Builder \<Rightarrow> (Node \<times> Builder) option" where
  "parsePostfix_body ps n b =
     do {
     (expr, b) \<leftarrow> parseCallMemberIndex_rec ps b;
     whileB n (\<lambda>b. check INC b \<or> check DEC b)
       (\<lambda>expr b.
          let (opTok, b) = advance b in
          Some (mkNode ''UnaryOperation''
                  [(''Operator'', VString (Value opTok)), (''SubExpression'', VNode expr),
                   (''IsPrefix'', VBool False)], b))
       expr b
   }"

definition parseCallMemberIndex_body :: "ExprParsers \<Rightarrow> nat \<Rightarrow> Builder \<Rightarrow> (Node \<times> Builder) option" where
  "parseCallMemberIndex_body ps n b =
     do {
     (expr, b) \<leftarrow> parsePrimary_rec ps b;
     loopB n
       (\<lambda>expr b.
          if check PERIOD b then do {
            let b = snd (advance b);
            let (memberTok, b) = advance b;
            Some ((True, mkNode ''MemberAccess''
                     [(''Expression'', VNode expr), (''MemberName'', VString (Value memberTok))]), b)
          }
          else if check LBRACK b then do {
            let b = snd (advance b);
            (indexStart, b) \<leftarrow>
              (if \<not> check COLON b \<and> \<not> check RBRACK b
               then do { (e, b) \<leftarrow> parseExpression_rec ps b; Some (Some e, b) }
               else Some (None, b));
            ((isRange, indexEnd), b) \<leftarrow>
              (if check COLON b
               then do {
                 let b = snd (advance b);
                 if \<not> check RBRACK b
                 then do { (e, b) \<leftarrow> parseExpression_rec ps b; Some ((True, Some e), b) }
                 else Some ((True, None), b)
               }
               else Some ((False, None), b));
            let b = snd (expect RBRACK b);
            Some ((True,
                   if isRange
                   then mkNode ''IndexRangeAccess''
                          [(''Base'', VNode expr), (''IndexStart'', VOpt indexStart),
                           (''IndexEnd'', VOpt indexEnd)]
                   else mkNode ''IndexAccess''
                          [(''Base'', VNode expr), (''Index'', VOpt indexStart)]), b)
          }
          else if check LPAREN b then do {
            (call, b) \<leftarrow> parseFunctionCall_rec ps expr b;
            Some ((True, call), b)
          }
          else if check LBRACE b then do {
            (call, b) \<leftarrow> parseFunctionCallOptions_rec ps expr b;
            Some ((True, call), b)
          }
          else Some ((False, expr), b))
       expr b
   }"

definition parseFunctionCall_body :: "ExprParsers \<Rightarrow> nat \<Rightarrow> Node \<Rightarrow> Builder \<Rightarrow> (Node \<times> Builder) option" where
  "parseFunctionCall_body ps n callee b =
     do {
     let b = snd (expect LPAREN b);
     let node = mkNode ''FunctionCall'' [(''Expression'', VNode callee), (''Arguments'', VList [])];
     (node, b) \<leftarrow>
       (if check LBRACE b
        then do {
          let b = snd (advance b);
          (node, b) \<leftarrow> whileB n (\<lambda>b. \<not> check RBRACE b \<and> \<not> isAtEnd b)
             (\<lambda>node b. do {
                let (nameTok, b) = expect IDENTIFIER b;
                let b = snd (expect COLON b);
                (v, b) \<leftarrow> parseExpression_rec ps b;
                let node = append_field node ''Names'' (VString (Value nameTok));
                let node = append_field node ''Arguments'' (VNode v);
                let b = (if \<not> check RBRACE b then snd (expect COMMA b) else b);
                Some (node, b)
              })
             node b;
          let b = snd (expect RBRACE b);
          Some (node, b)
        }
        else do {
          (args, b) \<leftarrow> parseExpressionList_rec ps b;
          Some (set_field node ''Arguments'' (VNodes args), b)
        });
     let b = snd (expect RPAREN b);
     Some (node, b)
   }"

definition parseFunctionCallOptions_body :: "ExprParsers \<Rightarrow> nat \<Rightarrow> Node \<Rightarrow> Builder \<Rightarrow> (Node \<times> Builder) option" where
  "parseFunctionCallOptions_body ps n expr b =
     do {
     let b = snd (expect LBRACE b);
     let node = mkNode ''FunctionCallOptions''
       [(''Expression'', VNode expr), (''Names'', VList []), (''Options'', VList [])];
     (node, b) \<leftarrow> whileB n (\<lambda>b. \<not> check RBRACE b \<and> \<not> isAtEnd b)
        (\<lambda>node b. do {
           let (nameTok, b) = expect IDENTIFIER b;
           let b = snd (expect COLON b);
           (v, b) \<leftarrow> parseExpression_rec ps b;
           let node = append_field node ''Names'' (VString (Value nameTok));
           let node = append_field node ''Options'' (VNode v);
           let b = (if \<not> check RBRACE b then snd (expect COMMA b) else b);
           Some (node, b)
         })
        node b;
     let b = snd (expect RBRACE b);
     Some (node, b)
   }"

definition parsePrimary_body :: "ExprParsers \<Rightarrow> nat \<Rightarrow> Builder \<Rightarrow> (Node \<times> Builder) option" where
  "parsePrimary_body ps n b =
     (let tok = peek b; t = Type tok in
      if t = IDENTIFIER then Some (Identifier (Value tok), snd (advance b))
      else if t = FROM \<or> t = ERROR \<or> t = REVERT \<or> t = GLOBAL \<or> t = TRANSIENT \<or>
              t = LAYOUT \<or> t = AT
      then Some (Identifier (Value tok), snd (advance b))
      else if t = NUMBER then Some (parseNumberLiteral tok (snd (advance b)))
      else if t = HEX_NUMBER
      then Some (mkNode ''NumberLiteral'' [(''Number'', VString (Value tok))], snd (advance b))
      else if t = STRING \<or> t = HEX_STRING \<or> t = UNICODE_STRING then parseStringLiteral n b
      else if t = TRUE
      then Some (mkNode ''BooleanLiteral'' [(''Value'', VBool True)], snd (advance b))
      else if t = FALSE
      then Some (mkNode ''BooleanLiteral'' [(''Value'', VBool False)], snd (advance b))
      else if t = LPAREN then parseTupleOrParenthesized_rec ps b
      else if t = LBRACK then parseArrayLiteral_rec ps b
      else if t = NEW then parseNewExpression_rec ps b
      else if t = TYPE_KW then parseTypeExpression_rec ps b
      else if t = PAYABLE then parsePayableConversion_rec ps b
      else if t = ADDRESS \<or> t = BOOL \<or> t = STRING_TYPE \<or> t = BYTES \<or> t = INT_T \<or>
              t = UINT \<or> t = BYTE \<or> t = BYTES_N \<or> t = FIXED \<or> t = UFIXED \<or>
              t = FIXED_N \<or> t = UFIXED_N
      then Some (parseElementaryTypeName b)
      else (let b = addError ''expected expression'' b;
                b = snd (advance b)
            in Some (Identifier [], b)))"

definition parseTupleOrParenthesized_body :: "ExprParsers \<Rightarrow> nat \<Rightarrow> Builder \<Rightarrow> (Node \<times> Builder) option" where
  "parseTupleOrParenthesized_body ps n b =
     do {
     let (startTok, b) = advance b;
     if check RPAREN b
     then Some (mkNode ''TupleExpression'' [(''Components'', VList []), (''IsArray'', VBool False)],
                snd (advance b))
     else do {
       (components, b) \<leftarrow>
         (if check COMMA b then Some ([None], b)
          else do { (expr, b) \<leftarrow> parseExpression_rec ps b; Some ([Some expr], b) });
       if check COMMA b
       then do {
         (components, b) \<leftarrow> whileB n (check COMMA)
            (\<lambda>components b. do {
               let b = snd (advance b);
               if check RPAREN b \<or> check COMMA b then Some (components @ [None], b)
               else do { (e, b) \<leftarrow> parseExpression_rec ps b; Some (components @ [Some e], b) }
             })
            components b;
         let b = snd (expect RPAREN b);
         let node = mkNode ''TupleExpression''
           [(''Components'', VOpts components), (''IsArray'', VBool False)];
         Some (setLocation b node startTok (previous b), b)
       }
       else do {
         let b = snd (expect RPAREN b);
         (case components of
            Some c0 # _ \<Rightarrow> Some (c0, b)
          | _ \<Rightarrow> None)
       }
     }
   }"

definition parseArrayLiteral_body :: "ExprParsers \<Rightarrow> nat \<Rightarrow> Builder \<Rightarrow> (Node \<times> Builder) option" where
  "parseArrayLiteral_body ps n b =
     do {
     let (startTok, b) = advance b;
     let node = mkNode ''TupleExpression'' [(''Components'', VList []), (''IsArray'', VBool True)];
     (node, b) \<leftarrow>
       (if \<not> check RBRACK b
        then do {
          (comps, b) \<leftarrow> parseExpressionList_rec ps b;
          Some (set_field node ''Components'' (VNodes comps), b)
        }
        else Some (node, b));
     let b = snd (expect RBRACK b);
     Some (setLocation b node startTok (previous b), b)
   }"

definition parseNewExpression_body :: "ExprParsers \<Rightarrow> nat \<Rightarrow> Builder \<Rightarrow> (Node \<times> Builder) option" where
  "parseNewExpression_body ps n b =
     do {
     let (startTok, b) = advance b;
     (typeName, b) \<leftarrow> parseTypeName_rec ps b;
     let node = mkNode ''NewExpression'' [(''TypeName'', VNode typeName)];
     Some (setLocation b node startTok (previous b), b)
   }"

definition parseTypeExpression_body :: "ExprParsers \<Rightarrow> nat \<Rightarrow> Builder \<Rightarrow> (Node \<times> Builder) option" where
  "parseTypeExpression_body ps n b =
     do {
     let b = snd (advance b);
     let b = snd (expect LPAREN b);
     (typeName, b) \<leftarrow> parseTypeName_rec ps b;
     let b = snd (expect RPAREN b);
     Some (mkNode ''FunctionCall''
             [(''Expression'', VNode (Identifier ''type'')), (''Arguments'', VList [VNode typeName])], b)
   }"

definition parsePayableConversion_body :: "ExprParsers \<Rightarrow> nat \<Rightarrow> Builder \<Rightarrow> (Node \<times> Builder) option" where
  "parsePayableConversion_body ps n b =
     do {
     let (startTok, b) = advance b;
     let b = snd (expect LPAREN b);
     (expr, b) \<leftarrow> parseExpression_rec ps b;
     let b = snd (expect RPAREN b);
     let node = mkNode ''FunctionCall''
       [(''Expression'', VNode (mkNode ''ElementaryTypeName''
            [(''Name'', VString ''address''), (''StateMutability'', VString ''payable'')])),
        (''Arguments'', VList [VNode expr])];
     Some (setLocation b node startTok (previous b), b)
   }"

definition parseExpressionList_body :: "ExprParsers \<Rightarrow> nat \<Rightarrow> Builder \<Rightarrow> (Node list \<times> Builder) option" where
  "parseExpressionList_body ps n b =
     (if check RPAREN b \<or> check RBRACK b \<or> check RBRACE b then Some ([], b)
      else do {
        (e, b) \<leftarrow> parseExpression_rec ps b;
        loopB n
          (\<lambda>exprs b.
             if check COMMA b then do {
               let b = snd (advance b);
               if check RPAREN b \<or> check RBRACK b \<or> check RBRACE b then Some ((False, exprs), b)
               else do { (e, b) \<leftarrow> parseExpression_rec ps b; Some ((True, exprs @ [e]), b) }
             }
             else Some ((False, exprs), b))
          [e] b
      })"

primrec exprParsers_at :: "nat \<Rightarrow> ExprParsers" where
  "exprParsers_at 0 = \<lparr>
     parseTypeName_rec = (\<lambda>b. None),
     parseMappingType_rec = (\<lambda>b. None),
     parseFunctionTypeName_rec = (\<lambda>b. None),
     parseParameterList_rec = (\<lambda>b. None),
     parseParameter_rec = (\<lambda>b. None),
     parseExpression_rec = (\<lambda>b. None),
     parseAssignment_rec = (\<lambda>b. None),
     parseTernary_rec = (\<lambda>b. None),
     parseLogicalOr_rec = (\<lambda>b. None),
     parseLogicalAnd_rec = (\<lambda>b. None),
     parseEquality_rec = (\<lambda>b. None),
     parseRelational_rec = (\<lambda>b. None),
     parseBitwiseOr_rec = (\<lambda>b. None),
     parseBitwiseXor_rec = (\<lambda>b. None),
     parseBitwiseAnd_rec = (\<lambda>b. None),
     parseShift_rec = (\<lambda>b. None),
     parseAdditive_rec = (\<lambda>b. None),
     parseMultiplicative_rec = (\<lambda>b. None),
     parseExponentiation_rec = (\<lambda>b. None),
     parseUnary_rec = (\<lambda>b. None),
     parsePostfix_rec = (\<lambda>b. None),
     parseCallMemberIndex_rec = (\<lambda>b. None),
     parseFunctionCall_rec = (\<lambda>callee b. None),
     parseFunctionCallOptions_rec = (\<lambda>expr b. None),
     parsePrimary_rec = (\<lambda>b. None),
     parseTupleOrParenthesized_rec = (\<lambda>b. None),
     parseArrayLiteral_rec = (\<lambda>b. None),
     parseNewExpression_rec = (\<lambda>b. None),
     parseTypeExpression_rec = (\<lambda>b. None),
     parsePayableConversion_rec = (\<lambda>b. None),
     parseExpressionList_rec = (\<lambda>b. None)\<rparr>"
| "exprParsers_at (Suc n) = \<lparr>
     parseTypeName_rec = parseTypeName_body (exprParsers_at n) n,
     parseMappingType_rec = parseMappingType_body (exprParsers_at n) n,
     parseFunctionTypeName_rec = parseFunctionTypeName_body (exprParsers_at n) n,
     parseParameterList_rec = parseParameterList_body (exprParsers_at n) n,
     parseParameter_rec = parseParameter_body (exprParsers_at n) n,
     parseExpression_rec = parseExpression_body (exprParsers_at n) n,
     parseAssignment_rec = parseAssignment_body (exprParsers_at n) n,
     parseTernary_rec = parseTernary_body (exprParsers_at n) n,
     parseLogicalOr_rec = parseLogicalOr_body (exprParsers_at n) n,
     parseLogicalAnd_rec = parseLogicalAnd_body (exprParsers_at n) n,
     parseEquality_rec = parseEquality_body (exprParsers_at n) n,
     parseRelational_rec = parseRelational_body (exprParsers_at n) n,
     parseBitwiseOr_rec = parseBitwiseOr_body (exprParsers_at n) n,
     parseBitwiseXor_rec = parseBitwiseXor_body (exprParsers_at n) n,
     parseBitwiseAnd_rec = parseBitwiseAnd_body (exprParsers_at n) n,
     parseShift_rec = parseShift_body (exprParsers_at n) n,
     parseAdditive_rec = parseAdditive_body (exprParsers_at n) n,
     parseMultiplicative_rec = parseMultiplicative_body (exprParsers_at n) n,
     parseExponentiation_rec = parseExponentiation_body (exprParsers_at n) n,
     parseUnary_rec = parseUnary_body (exprParsers_at n) n,
     parsePostfix_rec = parsePostfix_body (exprParsers_at n) n,
     parseCallMemberIndex_rec = parseCallMemberIndex_body (exprParsers_at n) n,
     parseFunctionCall_rec = parseFunctionCall_body (exprParsers_at n) n,
     parseFunctionCallOptions_rec = parseFunctionCallOptions_body (exprParsers_at n) n,
     parsePrimary_rec = parsePrimary_body (exprParsers_at n) n,
     parseTupleOrParenthesized_rec = parseTupleOrParenthesized_body (exprParsers_at n) n,
     parseArrayLiteral_rec = parseArrayLiteral_body (exprParsers_at n) n,
     parseNewExpression_rec = parseNewExpression_body (exprParsers_at n) n,
     parseTypeExpression_rec = parseTypeExpression_body (exprParsers_at n) n,
     parsePayableConversion_rec = parsePayableConversion_body (exprParsers_at n) n,
     parseExpressionList_rec = parseExpressionList_body (exprParsers_at n) n\<rparr>"

declare exprParsers_at.simps [simp del]

definition parseTypeName :: "nat \<Rightarrow> Builder \<Rightarrow> (Node \<times> Builder) option" where
  "parseTypeName n = parseTypeName_rec (exprParsers_at n)"

definition parseMappingType :: "nat \<Rightarrow> Builder \<Rightarrow> (Node \<times> Builder) option" where
  "parseMappingType n = parseMappingType_rec (exprParsers_at n)"

definition parseFunctionTypeName :: "nat \<Rightarrow> Builder \<Rightarrow> (Node \<times> Builder) option" where
  "parseFunctionTypeName n = parseFunctionTypeName_rec (exprParsers_at n)"

definition parseParameterList :: "nat \<Rightarrow> Builder \<Rightarrow> (Node list \<times> Builder) option" where
  "parseParameterList n = parseParameterList_rec (exprParsers_at n)"

definition parseParameter :: "nat \<Rightarrow> Builder \<Rightarrow> (Node \<times> Builder) option" where
  "parseParameter n = parseParameter_rec (exprParsers_at n)"

definition parseExpression :: "nat \<Rightarrow> Builder \<Rightarrow> (Node \<times> Builder) option" where
  "parseExpression n = parseExpression_rec (exprParsers_at n)"

definition parseAssignment :: "nat \<Rightarrow> Builder \<Rightarrow> (Node \<times> Builder) option" where
  "parseAssignment n = parseAssignment_rec (exprParsers_at n)"

definition parseTernary :: "nat \<Rightarrow> Builder \<Rightarrow> (Node \<times> Builder) option" where
  "parseTernary n = parseTernary_rec (exprParsers_at n)"

definition parseLogicalOr :: "nat \<Rightarrow> Builder \<Rightarrow> (Node \<times> Builder) option" where
  "parseLogicalOr n = parseLogicalOr_rec (exprParsers_at n)"

definition parseLogicalAnd :: "nat \<Rightarrow> Builder \<Rightarrow> (Node \<times> Builder) option" where
  "parseLogicalAnd n = parseLogicalAnd_rec (exprParsers_at n)"

definition parseEquality :: "nat \<Rightarrow> Builder \<Rightarrow> (Node \<times> Builder) option" where
  "parseEquality n = parseEquality_rec (exprParsers_at n)"

definition parseRelational :: "nat \<Rightarrow> Builder \<Rightarrow> (Node \<times> Builder) option" where
  "parseRelational n = parseRelational_rec (exprParsers_at n)"

definition parseBitwiseOr :: "nat \<Rightarrow> Builder \<Rightarrow> (Node \<times> Builder) option" where
  "parseBitwiseOr n = parseBitwiseOr_rec (exprParsers_at n)"

definition parseBitwiseXor :: "nat \<Rightarrow> Builder \<Rightarrow> (Node \<times> Builder) option" where
  "parseBitwiseXor n = parseBitwiseXor_rec (exprParsers_at n)"

definition parseBitwiseAnd :: "nat \<Rightarrow> Builder \<Rightarrow> (Node \<times> Builder) option" where
  "parseBitwiseAnd n = parseBitwiseAnd_rec (exprParsers_at n)"

definition parseShift :: "nat \<Rightarrow> Builder \<Rightarrow> (Node \<times> Builder) option" where
  "parseShift n = parseShift_rec (exprParsers_at n)"

definition parseAdditive :: "nat \<Rightarrow> Builder \<Rightarrow> (Node \<times> Builder) option" where
  "parseAdditive n = parseAdditive_rec (exprParsers_at n)"

definition parseMultiplicative :: "nat \<Rightarrow> Builder \<Rightarrow> (Node \<times> Builder) option" where
  "parseMultiplicative n = parseMultiplicative_rec (exprParsers_at n)"

definition parseExponentiation :: "nat \<Rightarrow> Builder \<Rightarrow> (Node \<times> Builder) option" where
  "parseExponentiation n = parseExponentiation_rec (exprParsers_at n)"

definition parseUnary :: "nat \<Rightarrow> Builder \<Rightarrow> (Node \<times> Builder) option" where
  "parseUnary n = parseUnary_rec (exprParsers_at n)"

definition parsePostfix :: "nat \<Rightarrow> Builder \<Rightarrow> (Node \<times> Builder) option" where
  "parsePostfix n = parsePostfix_rec (exprParsers_at n)"

definition parseCallMemberIndex :: "nat \<Rightarrow> Builder \<Rightarrow> (Node \<times> Builder) option" where
  "parseCallMemberIndex n = parseCallMemberIndex_rec (exprParsers_at n)"

definition parseFunctionCall :: "nat \<Rightarrow> Node \<Rightarrow> Builder \<Rightarrow> (Node \<times> Builder) option" where
  "parseFunctionCall n = parseFunctionCall_rec (exprParsers_at n)"

definition parseFunctionCallOptions :: "nat \<Rightarrow> Node \<Rightarrow> Builder \<Rightarrow> (Node \<times> Builder) option" where
  "parseFunctionCallOptions n = parseFunctionCallOptions_rec (exprParsers_at n)"

definition parsePrimary :: "nat \<Rightarrow> Builder \<Rightarrow> (Node \<times> Builder) option" where
  "parsePrimary n = parsePrimary_rec (exprParsers_at n)"

definition parseTupleOrParenthesized :: "nat \<Rightarrow> Builder \<Rightarrow> (Node \<times> Builder) option" where
  "parseTupleOrParenthesized n = parseTupleOrParenthesized_rec (exprParsers_at n)"

definition parseArrayLiteral :: "nat \<Rightarrow> Builder \<Rightarrow> (Node \<times> Builder) option" where
  "parseArrayLiteral n = parseArrayLiteral_rec (exprParsers_at n)"

definition parseNewExpression :: "nat \<Rightarrow> Builder \<Rightarrow> (Node \<times> Builder) option" where
  "parseNewExpression n = parseNewExpression_rec (exprParsers_at n)"

definition parseTypeExpression :: "nat \<Rightarrow> Builder \<Rightarrow> (Node \<times> Builder) option" where
  "parseTypeExpression n = parseTypeExpression_rec (exprParsers_at n)"

definition parsePayableConversion :: "nat \<Rightarrow> Builder \<Rightarrow> (Node \<times> Builder) option" where
  "parsePayableConversion n = parsePayableConversion_rec (exprParsers_at n)"

definition parseExpressionList :: "nat \<Rightarrow> Builder \<Rightarrow> (Node list \<times> Builder) option" where
  "parseExpressionList n = parseExpressionList_rec (exprParsers_at n)"

lemma parseTypeName_0 [parse_0]: "parseTypeName 0 = (\<lambda>b. None)"
  by (simp add: parseTypeName_def exprParsers_at.simps)

lemma parseTypeName_Suc [parse_Suc]: "parseTypeName (Suc n) = parseTypeName_body (exprParsers_at n) n"
  by (simp add: parseTypeName_def exprParsers_at.simps)

lemma parseTypeName_rec [parse_rec]: "parseTypeName_rec (exprParsers_at n) = parseTypeName n"
  by (simp add: parseTypeName_def)

lemma parseMappingType_0 [parse_0]: "parseMappingType 0 = (\<lambda>b. None)"
  by (simp add: parseMappingType_def exprParsers_at.simps)

lemma parseMappingType_Suc [parse_Suc]: "parseMappingType (Suc n) = parseMappingType_body (exprParsers_at n) n"
  by (simp add: parseMappingType_def exprParsers_at.simps)

lemma parseMappingType_rec [parse_rec]: "parseMappingType_rec (exprParsers_at n) = parseMappingType n"
  by (simp add: parseMappingType_def)

lemma parseFunctionTypeName_0 [parse_0]: "parseFunctionTypeName 0 = (\<lambda>b. None)"
  by (simp add: parseFunctionTypeName_def exprParsers_at.simps)

lemma parseFunctionTypeName_Suc [parse_Suc]: "parseFunctionTypeName (Suc n) = parseFunctionTypeName_body (exprParsers_at n) n"
  by (simp add: parseFunctionTypeName_def exprParsers_at.simps)

lemma parseFunctionTypeName_rec [parse_rec]: "parseFunctionTypeName_rec (exprParsers_at n) = parseFunctionTypeName n"
  by (simp add: parseFunctionTypeName_def)

lemma parseParameterList_0 [parse_0]: "parseParameterList 0 = (\<lambda>b. None)"
  by (simp add: parseParameterList_def exprParsers_at.simps)

lemma parseParameterList_Suc [parse_Suc]: "parseParameterList (Suc n) = parseParameterList_body (exprParsers_at n) n"
  by (simp add: parseParameterList_def exprParsers_at.simps)

lemma parseParameterList_rec [parse_rec]: "parseParameterList_rec (exprParsers_at n) = parseParameterList n"
  by (simp add: parseParameterList_def)

lemma parseParameter_0 [parse_0]: "parseParameter 0 = (\<lambda>b. None)"
  by (simp add: parseParameter_def exprParsers_at.simps)

lemma parseParameter_Suc [parse_Suc]: "parseParameter (Suc n) = parseParameter_body (exprParsers_at n) n"
  by (simp add: parseParameter_def exprParsers_at.simps)

lemma parseParameter_rec [parse_rec]: "parseParameter_rec (exprParsers_at n) = parseParameter n"
  by (simp add: parseParameter_def)

lemma parseExpression_0 [parse_0]: "parseExpression 0 = (\<lambda>b. None)"
  by (simp add: parseExpression_def exprParsers_at.simps)

lemma parseExpression_Suc [parse_Suc]: "parseExpression (Suc n) = parseExpression_body (exprParsers_at n) n"
  by (simp add: parseExpression_def exprParsers_at.simps)

lemma parseExpression_rec [parse_rec]: "parseExpression_rec (exprParsers_at n) = parseExpression n"
  by (simp add: parseExpression_def)

lemma parseAssignment_0 [parse_0]: "parseAssignment 0 = (\<lambda>b. None)"
  by (simp add: parseAssignment_def exprParsers_at.simps)

lemma parseAssignment_Suc [parse_Suc]: "parseAssignment (Suc n) = parseAssignment_body (exprParsers_at n) n"
  by (simp add: parseAssignment_def exprParsers_at.simps)

lemma parseAssignment_rec [parse_rec]: "parseAssignment_rec (exprParsers_at n) = parseAssignment n"
  by (simp add: parseAssignment_def)

lemma parseTernary_0 [parse_0]: "parseTernary 0 = (\<lambda>b. None)"
  by (simp add: parseTernary_def exprParsers_at.simps)

lemma parseTernary_Suc [parse_Suc]: "parseTernary (Suc n) = parseTernary_body (exprParsers_at n) n"
  by (simp add: parseTernary_def exprParsers_at.simps)

lemma parseTernary_rec [parse_rec]: "parseTernary_rec (exprParsers_at n) = parseTernary n"
  by (simp add: parseTernary_def)

lemma parseLogicalOr_0 [parse_0]: "parseLogicalOr 0 = (\<lambda>b. None)"
  by (simp add: parseLogicalOr_def exprParsers_at.simps)

lemma parseLogicalOr_Suc [parse_Suc]: "parseLogicalOr (Suc n) = parseLogicalOr_body (exprParsers_at n) n"
  by (simp add: parseLogicalOr_def exprParsers_at.simps)

lemma parseLogicalOr_rec [parse_rec]: "parseLogicalOr_rec (exprParsers_at n) = parseLogicalOr n"
  by (simp add: parseLogicalOr_def)

lemma parseLogicalAnd_0 [parse_0]: "parseLogicalAnd 0 = (\<lambda>b. None)"
  by (simp add: parseLogicalAnd_def exprParsers_at.simps)

lemma parseLogicalAnd_Suc [parse_Suc]: "parseLogicalAnd (Suc n) = parseLogicalAnd_body (exprParsers_at n) n"
  by (simp add: parseLogicalAnd_def exprParsers_at.simps)

lemma parseLogicalAnd_rec [parse_rec]: "parseLogicalAnd_rec (exprParsers_at n) = parseLogicalAnd n"
  by (simp add: parseLogicalAnd_def)

lemma parseEquality_0 [parse_0]: "parseEquality 0 = (\<lambda>b. None)"
  by (simp add: parseEquality_def exprParsers_at.simps)

lemma parseEquality_Suc [parse_Suc]: "parseEquality (Suc n) = parseEquality_body (exprParsers_at n) n"
  by (simp add: parseEquality_def exprParsers_at.simps)

lemma parseEquality_rec [parse_rec]: "parseEquality_rec (exprParsers_at n) = parseEquality n"
  by (simp add: parseEquality_def)

lemma parseRelational_0 [parse_0]: "parseRelational 0 = (\<lambda>b. None)"
  by (simp add: parseRelational_def exprParsers_at.simps)

lemma parseRelational_Suc [parse_Suc]: "parseRelational (Suc n) = parseRelational_body (exprParsers_at n) n"
  by (simp add: parseRelational_def exprParsers_at.simps)

lemma parseRelational_rec [parse_rec]: "parseRelational_rec (exprParsers_at n) = parseRelational n"
  by (simp add: parseRelational_def)

lemma parseBitwiseOr_0 [parse_0]: "parseBitwiseOr 0 = (\<lambda>b. None)"
  by (simp add: parseBitwiseOr_def exprParsers_at.simps)

lemma parseBitwiseOr_Suc [parse_Suc]: "parseBitwiseOr (Suc n) = parseBitwiseOr_body (exprParsers_at n) n"
  by (simp add: parseBitwiseOr_def exprParsers_at.simps)

lemma parseBitwiseOr_rec [parse_rec]: "parseBitwiseOr_rec (exprParsers_at n) = parseBitwiseOr n"
  by (simp add: parseBitwiseOr_def)

lemma parseBitwiseXor_0 [parse_0]: "parseBitwiseXor 0 = (\<lambda>b. None)"
  by (simp add: parseBitwiseXor_def exprParsers_at.simps)

lemma parseBitwiseXor_Suc [parse_Suc]: "parseBitwiseXor (Suc n) = parseBitwiseXor_body (exprParsers_at n) n"
  by (simp add: parseBitwiseXor_def exprParsers_at.simps)

lemma parseBitwiseXor_rec [parse_rec]: "parseBitwiseXor_rec (exprParsers_at n) = parseBitwiseXor n"
  by (simp add: parseBitwiseXor_def)

lemma parseBitwiseAnd_0 [parse_0]: "parseBitwiseAnd 0 = (\<lambda>b. None)"
  by (simp add: parseBitwiseAnd_def exprParsers_at.simps)

lemma parseBitwiseAnd_Suc [parse_Suc]: "parseBitwiseAnd (Suc n) = parseBitwiseAnd_body (exprParsers_at n) n"
  by (simp add: parseBitwiseAnd_def exprParsers_at.simps)

lemma parseBitwiseAnd_rec [parse_rec]: "parseBitwiseAnd_rec (exprParsers_at n) = parseBitwiseAnd n"
  by (simp add: parseBitwiseAnd_def)

lemma parseShift_0 [parse_0]: "parseShift 0 = (\<lambda>b. None)"
  by (simp add: parseShift_def exprParsers_at.simps)

lemma parseShift_Suc [parse_Suc]: "parseShift (Suc n) = parseShift_body (exprParsers_at n) n"
  by (simp add: parseShift_def exprParsers_at.simps)

lemma parseShift_rec [parse_rec]: "parseShift_rec (exprParsers_at n) = parseShift n"
  by (simp add: parseShift_def)

lemma parseAdditive_0 [parse_0]: "parseAdditive 0 = (\<lambda>b. None)"
  by (simp add: parseAdditive_def exprParsers_at.simps)

lemma parseAdditive_Suc [parse_Suc]: "parseAdditive (Suc n) = parseAdditive_body (exprParsers_at n) n"
  by (simp add: parseAdditive_def exprParsers_at.simps)

lemma parseAdditive_rec [parse_rec]: "parseAdditive_rec (exprParsers_at n) = parseAdditive n"
  by (simp add: parseAdditive_def)

lemma parseMultiplicative_0 [parse_0]: "parseMultiplicative 0 = (\<lambda>b. None)"
  by (simp add: parseMultiplicative_def exprParsers_at.simps)

lemma parseMultiplicative_Suc [parse_Suc]: "parseMultiplicative (Suc n) = parseMultiplicative_body (exprParsers_at n) n"
  by (simp add: parseMultiplicative_def exprParsers_at.simps)

lemma parseMultiplicative_rec [parse_rec]: "parseMultiplicative_rec (exprParsers_at n) = parseMultiplicative n"
  by (simp add: parseMultiplicative_def)

lemma parseExponentiation_0 [parse_0]: "parseExponentiation 0 = (\<lambda>b. None)"
  by (simp add: parseExponentiation_def exprParsers_at.simps)

lemma parseExponentiation_Suc [parse_Suc]: "parseExponentiation (Suc n) = parseExponentiation_body (exprParsers_at n) n"
  by (simp add: parseExponentiation_def exprParsers_at.simps)

lemma parseExponentiation_rec [parse_rec]: "parseExponentiation_rec (exprParsers_at n) = parseExponentiation n"
  by (simp add: parseExponentiation_def)

lemma parseUnary_0 [parse_0]: "parseUnary 0 = (\<lambda>b. None)"
  by (simp add: parseUnary_def exprParsers_at.simps)

lemma parseUnary_Suc [parse_Suc]: "parseUnary (Suc n) = parseUnary_body (exprParsers_at n) n"
  by (simp add: parseUnary_def exprParsers_at.simps)

lemma parseUnary_rec [parse_rec]: "parseUnary_rec (exprParsers_at n) = parseUnary n"
  by (simp add: parseUnary_def)

lemma parsePostfix_0 [parse_0]: "parsePostfix 0 = (\<lambda>b. None)"
  by (simp add: parsePostfix_def exprParsers_at.simps)

lemma parsePostfix_Suc [parse_Suc]: "parsePostfix (Suc n) = parsePostfix_body (exprParsers_at n) n"
  by (simp add: parsePostfix_def exprParsers_at.simps)

lemma parsePostfix_rec [parse_rec]: "parsePostfix_rec (exprParsers_at n) = parsePostfix n"
  by (simp add: parsePostfix_def)

lemma parseCallMemberIndex_0 [parse_0]: "parseCallMemberIndex 0 = (\<lambda>b. None)"
  by (simp add: parseCallMemberIndex_def exprParsers_at.simps)

lemma parseCallMemberIndex_Suc [parse_Suc]: "parseCallMemberIndex (Suc n) = parseCallMemberIndex_body (exprParsers_at n) n"
  by (simp add: parseCallMemberIndex_def exprParsers_at.simps)

lemma parseCallMemberIndex_rec [parse_rec]: "parseCallMemberIndex_rec (exprParsers_at n) = parseCallMemberIndex n"
  by (simp add: parseCallMemberIndex_def)

lemma parseFunctionCall_0 [parse_0]: "parseFunctionCall 0 = (\<lambda>callee b. None)"
  by (simp add: parseFunctionCall_def exprParsers_at.simps)

lemma parseFunctionCall_Suc [parse_Suc]: "parseFunctionCall (Suc n) = parseFunctionCall_body (exprParsers_at n) n"
  by (simp add: parseFunctionCall_def exprParsers_at.simps)

lemma parseFunctionCall_rec [parse_rec]: "parseFunctionCall_rec (exprParsers_at n) = parseFunctionCall n"
  by (simp add: parseFunctionCall_def)

lemma parseFunctionCallOptions_0 [parse_0]: "parseFunctionCallOptions 0 = (\<lambda>expr b. None)"
  by (simp add: parseFunctionCallOptions_def exprParsers_at.simps)

lemma parseFunctionCallOptions_Suc [parse_Suc]: "parseFunctionCallOptions (Suc n) = parseFunctionCallOptions_body (exprParsers_at n) n"
  by (simp add: parseFunctionCallOptions_def exprParsers_at.simps)

lemma parseFunctionCallOptions_rec [parse_rec]: "parseFunctionCallOptions_rec (exprParsers_at n) = parseFunctionCallOptions n"
  by (simp add: parseFunctionCallOptions_def)

lemma parsePrimary_0 [parse_0]: "parsePrimary 0 = (\<lambda>b. None)"
  by (simp add: parsePrimary_def exprParsers_at.simps)

lemma parsePrimary_Suc [parse_Suc]: "parsePrimary (Suc n) = parsePrimary_body (exprParsers_at n) n"
  by (simp add: parsePrimary_def exprParsers_at.simps)

lemma parsePrimary_rec [parse_rec]: "parsePrimary_rec (exprParsers_at n) = parsePrimary n"
  by (simp add: parsePrimary_def)

lemma parseTupleOrParenthesized_0 [parse_0]: "parseTupleOrParenthesized 0 = (\<lambda>b. None)"
  by (simp add: parseTupleOrParenthesized_def exprParsers_at.simps)

lemma parseTupleOrParenthesized_Suc [parse_Suc]: "parseTupleOrParenthesized (Suc n) = parseTupleOrParenthesized_body (exprParsers_at n) n"
  by (simp add: parseTupleOrParenthesized_def exprParsers_at.simps)

lemma parseTupleOrParenthesized_rec [parse_rec]: "parseTupleOrParenthesized_rec (exprParsers_at n) = parseTupleOrParenthesized n"
  by (simp add: parseTupleOrParenthesized_def)

lemma parseArrayLiteral_0 [parse_0]: "parseArrayLiteral 0 = (\<lambda>b. None)"
  by (simp add: parseArrayLiteral_def exprParsers_at.simps)

lemma parseArrayLiteral_Suc [parse_Suc]: "parseArrayLiteral (Suc n) = parseArrayLiteral_body (exprParsers_at n) n"
  by (simp add: parseArrayLiteral_def exprParsers_at.simps)

lemma parseArrayLiteral_rec [parse_rec]: "parseArrayLiteral_rec (exprParsers_at n) = parseArrayLiteral n"
  by (simp add: parseArrayLiteral_def)

lemma parseNewExpression_0 [parse_0]: "parseNewExpression 0 = (\<lambda>b. None)"
  by (simp add: parseNewExpression_def exprParsers_at.simps)

lemma parseNewExpression_Suc [parse_Suc]: "parseNewExpression (Suc n) = parseNewExpression_body (exprParsers_at n) n"
  by (simp add: parseNewExpression_def exprParsers_at.simps)

lemma parseNewExpression_rec [parse_rec]: "parseNewExpression_rec (exprParsers_at n) = parseNewExpression n"
  by (simp add: parseNewExpression_def)

lemma parseTypeExpression_0 [parse_0]: "parseTypeExpression 0 = (\<lambda>b. None)"
  by (simp add: parseTypeExpression_def exprParsers_at.simps)

lemma parseTypeExpression_Suc [parse_Suc]: "parseTypeExpression (Suc n) = parseTypeExpression_body (exprParsers_at n) n"
  by (simp add: parseTypeExpression_def exprParsers_at.simps)

lemma parseTypeExpression_rec [parse_rec]: "parseTypeExpression_rec (exprParsers_at n) = parseTypeExpression n"
  by (simp add: parseTypeExpression_def)

lemma parsePayableConversion_0 [parse_0]: "parsePayableConversion 0 = (\<lambda>b. None)"
  by (simp add: parsePayableConversion_def exprParsers_at.simps)

lemma parsePayableConversion_Suc [parse_Suc]: "parsePayableConversion (Suc n) = parsePayableConversion_body (exprParsers_at n) n"
  by (simp add: parsePayableConversion_def exprParsers_at.simps)

lemma parsePayableConversion_rec [parse_rec]: "parsePayableConversion_rec (exprParsers_at n) = parsePayableConversion n"
  by (simp add: parsePayableConversion_def)

lemma parseExpressionList_0 [parse_0]: "parseExpressionList 0 = (\<lambda>b. None)"
  by (simp add: parseExpressionList_def exprParsers_at.simps)

lemma parseExpressionList_Suc [parse_Suc]: "parseExpressionList (Suc n) = parseExpressionList_body (exprParsers_at n) n"
  by (simp add: parseExpressionList_def exprParsers_at.simps)

lemma parseExpressionList_rec [parse_rec]: "parseExpressionList_rec (exprParsers_at n) = parseExpressionList n"
  by (simp add: parseExpressionList_def)

lemma exprParsers_at_numeral [parse_num]:
  "parseTypeName_rec (exprParsers_at (numeral k)) = parseTypeName_body (exprParsers_at (pred_numeral k)) (pred_numeral k)"
  "parseMappingType_rec (exprParsers_at (numeral k)) = parseMappingType_body (exprParsers_at (pred_numeral k)) (pred_numeral k)"
  "parseFunctionTypeName_rec (exprParsers_at (numeral k)) = parseFunctionTypeName_body (exprParsers_at (pred_numeral k)) (pred_numeral k)"
  "parseParameterList_rec (exprParsers_at (numeral k)) = parseParameterList_body (exprParsers_at (pred_numeral k)) (pred_numeral k)"
  "parseParameter_rec (exprParsers_at (numeral k)) = parseParameter_body (exprParsers_at (pred_numeral k)) (pred_numeral k)"
  "parseExpression_rec (exprParsers_at (numeral k)) = parseExpression_body (exprParsers_at (pred_numeral k)) (pred_numeral k)"
  "parseAssignment_rec (exprParsers_at (numeral k)) = parseAssignment_body (exprParsers_at (pred_numeral k)) (pred_numeral k)"
  "parseTernary_rec (exprParsers_at (numeral k)) = parseTernary_body (exprParsers_at (pred_numeral k)) (pred_numeral k)"
  "parseLogicalOr_rec (exprParsers_at (numeral k)) = parseLogicalOr_body (exprParsers_at (pred_numeral k)) (pred_numeral k)"
  "parseLogicalAnd_rec (exprParsers_at (numeral k)) = parseLogicalAnd_body (exprParsers_at (pred_numeral k)) (pred_numeral k)"
  "parseEquality_rec (exprParsers_at (numeral k)) = parseEquality_body (exprParsers_at (pred_numeral k)) (pred_numeral k)"
  "parseRelational_rec (exprParsers_at (numeral k)) = parseRelational_body (exprParsers_at (pred_numeral k)) (pred_numeral k)"
  "parseBitwiseOr_rec (exprParsers_at (numeral k)) = parseBitwiseOr_body (exprParsers_at (pred_numeral k)) (pred_numeral k)"
  "parseBitwiseXor_rec (exprParsers_at (numeral k)) = parseBitwiseXor_body (exprParsers_at (pred_numeral k)) (pred_numeral k)"
  "parseBitwiseAnd_rec (exprParsers_at (numeral k)) = parseBitwiseAnd_body (exprParsers_at (pred_numeral k)) (pred_numeral k)"
  "parseShift_rec (exprParsers_at (numeral k)) = parseShift_body (exprParsers_at (pred_numeral k)) (pred_numeral k)"
  "parseAdditive_rec (exprParsers_at (numeral k)) = parseAdditive_body (exprParsers_at (pred_numeral k)) (pred_numeral k)"
  "parseMultiplicative_rec (exprParsers_at (numeral k)) = parseMultiplicative_body (exprParsers_at (pred_numeral k)) (pred_numeral k)"
  "parseExponentiation_rec (exprParsers_at (numeral k)) = parseExponentiation_body (exprParsers_at (pred_numeral k)) (pred_numeral k)"
  "parseUnary_rec (exprParsers_at (numeral k)) = parseUnary_body (exprParsers_at (pred_numeral k)) (pred_numeral k)"
  "parsePostfix_rec (exprParsers_at (numeral k)) = parsePostfix_body (exprParsers_at (pred_numeral k)) (pred_numeral k)"
  "parseCallMemberIndex_rec (exprParsers_at (numeral k)) = parseCallMemberIndex_body (exprParsers_at (pred_numeral k)) (pred_numeral k)"
  "parseFunctionCall_rec (exprParsers_at (numeral k)) = parseFunctionCall_body (exprParsers_at (pred_numeral k)) (pred_numeral k)"
  "parseFunctionCallOptions_rec (exprParsers_at (numeral k)) = parseFunctionCallOptions_body (exprParsers_at (pred_numeral k)) (pred_numeral k)"
  "parsePrimary_rec (exprParsers_at (numeral k)) = parsePrimary_body (exprParsers_at (pred_numeral k)) (pred_numeral k)"
  "parseTupleOrParenthesized_rec (exprParsers_at (numeral k)) = parseTupleOrParenthesized_body (exprParsers_at (pred_numeral k)) (pred_numeral k)"
  "parseArrayLiteral_rec (exprParsers_at (numeral k)) = parseArrayLiteral_body (exprParsers_at (pred_numeral k)) (pred_numeral k)"
  "parseNewExpression_rec (exprParsers_at (numeral k)) = parseNewExpression_body (exprParsers_at (pred_numeral k)) (pred_numeral k)"
  "parseTypeExpression_rec (exprParsers_at (numeral k)) = parseTypeExpression_body (exprParsers_at (pred_numeral k)) (pred_numeral k)"
  "parsePayableConversion_rec (exprParsers_at (numeral k)) = parsePayableConversion_body (exprParsers_at (pred_numeral k)) (pred_numeral k)"
  "parseExpressionList_rec (exprParsers_at (numeral k)) = parseExpressionList_body (exprParsers_at (pred_numeral k)) (pred_numeral k)"
  by (simp_all add: numeral_eq_Suc exprParsers_at.simps)

lemmas [parse_body] =
  parseTypeName_body_def
  parseMappingType_body_def
  parseFunctionTypeName_body_def
  parseParameterList_body_def
  parseParameter_body_def
  parseExpression_body_def
  parseAssignment_body_def
  parseTernary_body_def
  parseLogicalOr_body_def
  parseLogicalAnd_body_def
  parseEquality_body_def
  parseRelational_body_def
  parseBitwiseOr_body_def
  parseBitwiseXor_body_def
  parseBitwiseAnd_body_def
  parseShift_body_def
  parseAdditive_body_def
  parseMultiplicative_body_def
  parseExponentiation_body_def
  parseUnary_body_def
  parsePostfix_body_def
  parseCallMemberIndex_body_def
  parseFunctionCall_body_def
  parseFunctionCallOptions_body_def
  parsePrimary_body_def
  parseTupleOrParenthesized_body_def
  parseArrayLiteral_body_def
  parseNewExpression_body_def
  parseTypeExpression_body_def
  parsePayableConversion_body_def
  parseExpressionList_body_def

lemmas [parse_top] =
  parseTypeName_def
  parseMappingType_def
  parseFunctionTypeName_def
  parseParameterList_def
  parseParameter_def
  parseExpression_def
  parseAssignment_def
  parseTernary_def
  parseLogicalOr_def
  parseLogicalAnd_def
  parseEquality_def
  parseRelational_def
  parseBitwiseOr_def
  parseBitwiseXor_def
  parseBitwiseAnd_def
  parseShift_def
  parseAdditive_def
  parseMultiplicative_def
  parseExponentiation_def
  parseUnary_def
  parsePostfix_def
  parseCallMemberIndex_def
  parseFunctionCall_def
  parseFunctionCallOptions_def
  parsePrimary_def
  parseTupleOrParenthesized_def
  parseArrayLiteral_def
  parseNewExpression_def
  parseTypeExpression_def
  parsePayableConversion_def
  parseExpressionList_def

subsection \<open>Statements without nested statements: \<^verbatim>\<open>statements.go\<close>\<close>

definition parseVariableDeclaration :: "nat \<Rightarrow> Builder \<Rightarrow> (Node \<times> Builder) option" where
  "parseVariableDeclaration n b = do {
     let startTok = peek b;
     (typeName, b) \<leftarrow> parseTypeName n b;
     let node = mkNode ''VariableDeclaration'' [(''TypeName'', VNode typeName)];
     let (node, b) = parseLocationAndName node b;
     Some (setLocation b node startTok (previous b), b)
   }"

definition parseExpressionStatement :: "nat \<Rightarrow> Builder \<Rightarrow> (Node \<times> Builder) option" where
  "parseExpressionStatement n b = do {
     let startTok = peek b;
     (expr, b) \<leftarrow> parseExpression n b;
     let (endTok, b) = expect SEMICOLON b;
     let node = mkNode ''ExpressionStatement'' [(''Expression'', VNode expr)];
     Some (setLocation b node startTok endTok, b)
   }"

definition parseVariableDeclarationStatement :: "nat \<Rightarrow> Builder \<Rightarrow> (Node \<times> Builder) option" where
  "parseVariableDeclarationStatement n b = do {
     let startTok = peek b;
     let node = mkNode ''VariableDeclarationStatement'' [(''Variables'', VList [])];
     (varDecl, b) \<leftarrow> parseVariableDeclaration n b;
     let node = append_field node ''Variables'' (VNode varDecl);
     (node, b) \<leftarrow>
       (if check ASSIGN b
        then do {
          let b = snd (advance b);
          (e, b) \<leftarrow> parseExpression n b;
          Some (set_field node ''InitialValue'' (VNode e), b)
        }
        else Some (node, b));
     let (endTok, b) = expect SEMICOLON b;
     Some (setLocation b node startTok endTok, b)
   }"

text \<open>
  \<^verbatim>\<open>parseTupleVariableDeclarationOrExpression\<close>. The loop variables are the slice
  \<^verbatim>\<open>variables\<close> and the flag \<^verbatim>\<open>hasTypes\<close>. \<^verbatim>\<open>savedPos\<close> is read after
  \<^verbatim>\<open>b.expect(lexer.LPAREN)\<close>, as in the source; restoring it assigns \<^verbatim>\<open>b.pos\<close> only, so
  errors recorded during the attempt stay.
\<close>

definition parseTupleVariableDeclarationOrExpression ::
    "nat \<Rightarrow> Builder \<Rightarrow> (Node \<times> Builder) option" where
  "parseTupleVariableDeclarationOrExpression n b = do {
     let startTok = peek b;
     let b = snd (expect LPAREN b);
     let savedPos = pos b;
     ((variables, hasTypes), b) \<leftarrow> loopB n
        (\<lambda>(variables, hasTypes) b.
           if \<not> (\<not> check RPAREN b \<and> \<not> isAtEnd b) then Some ((False, (variables, hasTypes)), b)
           else if check COMMA b then Some ((True, (variables @ [None], hasTypes)), snd (advance b))
           else if isTypeName b then do {
             (varDecl, b) \<leftarrow> parseVariableDeclaration n b;
             let variables = variables @ [Some varDecl];
             if \<not> check RPAREN b \<and> \<not> check COMMA b then Some ((False, (variables, True)), b)
             else if check COMMA b then Some ((True, (variables, True)), snd (advance b))
             else Some ((True, (variables, True)), b)
           }
           else Some ((False, (variables, hasTypes)), b))
        ([], False) b;
     if hasTypes \<and> check RPAREN b
     then do {
       let b = snd (expect RPAREN b);
       let node = mkNode ''VariableDeclarationStatement'' [(''Variables'', VOpts variables)];
       (node, b) \<leftarrow>
         (if check ASSIGN b
          then do {
            let b = snd (advance b);
            (e, b) \<leftarrow> parseExpression n b;
            Some (set_field node ''InitialValue'' (VNode e), b)
          }
          else Some (node, b));
       let (endTok, b) = expect SEMICOLON b;
       Some (setLocation b node startTok endTok, b)
     }
     else parseExpressionStatement n (b\<lparr>pos := savedPos\<rparr>)
   }"

text \<open>
  \<^verbatim>\<open>looksLikeVariableDeclaration\<close> moves the cursor while it looks ahead and restores it
  on return (the deferred assignment), so the builder is unchanged and only the answer
  is returned.
\<close>

definition looksLikeVariableDeclaration :: "nat \<Rightarrow> Builder \<Rightarrow> bool option" where
  "looksLikeVariableDeclaration n b =
     (if isElementaryTypeName b then Some True
      else if check MAPPING b \<or> check FUNCTION b then Some True
      else if \<not> check IDENTIFIER b then Some False
      else do {
        let b = snd (advance b);
        (u, b) \<leftarrow> whileB n (check LBRACK)
           (\<lambda>u b. do {
              let b = snd (advance b);
              (u, b) \<leftarrow> whileB n (\<lambda>b. \<not> check RBRACK b \<and> \<not> isAtEnd b)
                 (\<lambda>u b. Some (u, snd (advance b))) u b;
              Some (u, if check RBRACK b then snd (advance b) else b)
            })
           () b;
        (u, b) \<leftarrow> whileB n (check PERIOD)
           (\<lambda>u b.
              let b = snd (advance b) in
              Some (u, if check IDENTIFIER b then snd (advance b) else b))
           u b;
        let b = (if check MEMORY b \<or> check STORAGE b \<or> check CALLDATA b
                 then snd (advance b) else b);
        Some (check IDENTIFIER b)
      })"

definition parseContinueStatement :: "Builder \<Rightarrow> Node \<times> Builder" where
  "parseContinueStatement b =
     (let (startTok, b) = advance b;
          (endTok, b) = expect SEMICOLON b
      in (setLocation b (mkNode ''ContinueStatement'' []) startTok endTok, b))"

definition parseBreakStatement :: "Builder \<Rightarrow> Node \<times> Builder" where
  "parseBreakStatement b =
     (let (startTok, b) = advance b;
          (endTok, b) = expect SEMICOLON b
      in (setLocation b (mkNode ''BreakStatement'' []) startTok endTok, b))"

definition parseReturnStatement :: "nat \<Rightarrow> Builder \<Rightarrow> (Node \<times> Builder) option" where
  "parseReturnStatement n b = do {
     let (startTok, b) = advance b;
     let node = mkNode ''ReturnStatement'' [];
     (node, b) \<leftarrow>
       (if \<not> check SEMICOLON b
        then do {
          (e, b) \<leftarrow> parseExpression n b;
          Some (set_field node ''Expression'' (VNode e), b)
        }
        else Some (node, b));
     let (endTok, b) = expect SEMICOLON b;
     Some (setLocation b node startTok endTok, b)
   }"

definition parseEmitStatement :: "nat \<Rightarrow> Builder \<Rightarrow> (Node \<times> Builder) option" where
  "parseEmitStatement n b = do {
     let (startTok, b) = advance b;
     (eventCall, b) \<leftarrow> parseExpression n b;
     let (endTok, b) = expect SEMICOLON b;
     let node = mkNode ''EmitStatement'' [(''EventCall'', VNode eventCall)];
     Some (setLocation b node startTok endTok, b)
   }"

definition parseRevertStatement :: "nat \<Rightarrow> Builder \<Rightarrow> (Node \<times> Builder) option" where
  "parseRevertStatement n b = do {
     let (startTok, b) = advance b;
     let node = mkNode ''RevertStatement'' [];
     (node, b) \<leftarrow>
       (if \<not> check SEMICOLON b
        then do {
          (e, b) \<leftarrow> parseExpression n b;
          Some (set_field node ''RevertCall'' (VNode e), b)
        }
        else Some (node, b));
     let (endTok, b) = expect SEMICOLON b;
     Some (setLocation b node startTok endTok, b)
   }"

text \<open>The expression after \<^verbatim>\<open>try\<close>: as \<^verbatim>\<open>parseCallMemberIndex\<close>, without the branch for
  \<^verbatim>\<open>{\<close>.\<close>

definition parseTryCallMemberIndex :: "nat \<Rightarrow> Builder \<Rightarrow> (Node \<times> Builder) option" where
  "parseTryCallMemberIndex n b = do {
     (expr, b) \<leftarrow> parsePrimary n b;
     loopB n
       (\<lambda>expr b.
          if check PERIOD b then do {
            let b = snd (advance b);
            let (memberTok, b) = advance b;
            Some ((True, mkNode ''MemberAccess''
                     [(''Expression'', VNode expr), (''MemberName'', VString (Value memberTok))]), b)
          }
          else if check LBRACK b then do {
            let b = snd (advance b);
            (indexStart, b) \<leftarrow>
              (if \<not> check COLON b \<and> \<not> check RBRACK b
               then do { (e, b) \<leftarrow> parseExpression n b; Some (Some e, b) }
               else Some (None, b));
            ((isRange, indexEnd), b) \<leftarrow>
              (if check COLON b
               then do {
                 let b = snd (advance b);
                 if \<not> check RBRACK b
                 then do { (e, b) \<leftarrow> parseExpression n b; Some ((True, Some e), b) }
                 else Some ((True, None), b)
               }
               else Some ((False, None), b));
            let b = snd (expect RBRACK b);
            Some ((True,
                   if isRange
                   then mkNode ''IndexRangeAccess''
                          [(''Base'', VNode expr), (''IndexStart'', VOpt indexStart),
                           (''IndexEnd'', VOpt indexEnd)]
                   else mkNode ''IndexAccess''
                          [(''Base'', VNode expr), (''Index'', VOpt indexStart)]), b)
          }
          else if check LPAREN b then do {
            (call, b) \<leftarrow> parseFunctionCall n expr b;
            Some ((True, call), b)
          }
          else Some ((False, expr), b))
       expr b
   }"

definition parseTryExpression :: "nat \<Rightarrow> Builder \<Rightarrow> (Node \<times> Builder) option" where
  "parseTryExpression n b = parseTryCallMemberIndex n b"

subsection \<open>Inline assembly\<close>

definition parseAssemblyLiteral :: "Builder \<Rightarrow> Node \<times> Builder" where
  "parseAssemblyLiteral b =
     (let (tok, b) = advance b;
          kind = (if Type tok = NUMBER \<or> Type tok = HEX_NUMBER then ''number''
                  else if Type tok = STRING then ''string''
                  else if Type tok = TRUE \<or> Type tok = FALSE then ''boolean''
                  else ''number'');
          node = mkNode ''AssemblyLiteral'' [(''Value'', VString (Value tok)), (''Kind'', VString kind)]
      in (setLocation b node tok tok, b))"



text \<open>
  \<^verbatim>\<open>parseAssemblyCall\<close> and \<^verbatim>\<open>parseAssemblyExpression\<close> call each other; the knot is
  tied as for the expressions.
\<close>

record AsmExprParsers =
  parseAssemblyCall_rec :: "string \<Rightarrow> Token \<Rightarrow> Builder \<Rightarrow> (Node \<times> Builder) option"
  parseAssemblyExpression_rec :: "Builder \<Rightarrow> (Node \<times> Builder) option"

definition parseAssemblyCall_body :: "AsmExprParsers \<Rightarrow> nat \<Rightarrow> string \<Rightarrow> Token \<Rightarrow> Builder \<Rightarrow> (Node \<times> Builder) option" where
  "parseAssemblyCall_body ps n name startTok b =
     do {
     let b = snd (expect LPAREN b);
     let node = mkNode ''AssemblyCall'' [(''FunctionName'', VString name), (''Arguments'', VList [])];
     (node, b) \<leftarrow> whileB n (\<lambda>b. \<not> check RPAREN b \<and> \<not> isAtEnd b)
        (\<lambda>node b. do {
           (arg, b) \<leftarrow> parseAssemblyExpression_rec ps b;
           let node = append_field node ''Arguments'' (VNode arg);
           let b = (if \<not> check RPAREN b then snd (expect COMMA b) else b);
           Some (node, b)
         })
        node b;
     let b = snd (expect RPAREN b);
     Some (setLocation b node startTok (previous b), b)
   }"

definition parseAssemblyExpression_body :: "AsmExprParsers \<Rightarrow> nat \<Rightarrow> Builder \<Rightarrow> (Node \<times> Builder) option" where
  "parseAssemblyExpression_body ps n b =
     (let tok = peek b in
      if Type tok = IDENTIFIER
      then (let (startTok, b) = advance b in
            if check LPAREN b then parseAssemblyCall_rec ps (Value startTok) startTok b
            else (let node = mkNode ''AssemblyIdentifier'' [(''Name'', VString (Value startTok))]
                  in Some (setLocation b node startTok startTok, b)))
      else Some (parseAssemblyLiteral b))"

primrec asmExprParsers_at :: "nat \<Rightarrow> AsmExprParsers" where
  "asmExprParsers_at 0 = \<lparr>
     parseAssemblyCall_rec = (\<lambda>name startTok b. None),
     parseAssemblyExpression_rec = (\<lambda>b. None)\<rparr>"
| "asmExprParsers_at (Suc n) = \<lparr>
     parseAssemblyCall_rec = parseAssemblyCall_body (asmExprParsers_at n) n,
     parseAssemblyExpression_rec = parseAssemblyExpression_body (asmExprParsers_at n) n\<rparr>"

declare asmExprParsers_at.simps [simp del]

definition parseAssemblyCall :: "nat \<Rightarrow> string \<Rightarrow> Token \<Rightarrow> Builder \<Rightarrow> (Node \<times> Builder) option" where
  "parseAssemblyCall n = parseAssemblyCall_rec (asmExprParsers_at n)"

definition parseAssemblyExpression :: "nat \<Rightarrow> Builder \<Rightarrow> (Node \<times> Builder) option" where
  "parseAssemblyExpression n = parseAssemblyExpression_rec (asmExprParsers_at n)"

lemma parseAssemblyCall_0 [parse_0]: "parseAssemblyCall 0 = (\<lambda>name startTok b. None)"
  by (simp add: parseAssemblyCall_def asmExprParsers_at.simps)

lemma parseAssemblyCall_Suc [parse_Suc]: "parseAssemblyCall (Suc n) = parseAssemblyCall_body (asmExprParsers_at n) n"
  by (simp add: parseAssemblyCall_def asmExprParsers_at.simps)

lemma parseAssemblyCall_rec [parse_rec]: "parseAssemblyCall_rec (asmExprParsers_at n) = parseAssemblyCall n"
  by (simp add: parseAssemblyCall_def)

lemma parseAssemblyExpression_0 [parse_0]: "parseAssemblyExpression 0 = (\<lambda>b. None)"
  by (simp add: parseAssemblyExpression_def asmExprParsers_at.simps)

lemma parseAssemblyExpression_Suc [parse_Suc]: "parseAssemblyExpression (Suc n) = parseAssemblyExpression_body (asmExprParsers_at n) n"
  by (simp add: parseAssemblyExpression_def asmExprParsers_at.simps)

lemma parseAssemblyExpression_rec [parse_rec]: "parseAssemblyExpression_rec (asmExprParsers_at n) = parseAssemblyExpression n"
  by (simp add: parseAssemblyExpression_def)

lemma asmExprParsers_at_numeral [parse_num]:
  "parseAssemblyCall_rec (asmExprParsers_at (numeral k)) = parseAssemblyCall_body (asmExprParsers_at (pred_numeral k)) (pred_numeral k)"
  "parseAssemblyExpression_rec (asmExprParsers_at (numeral k)) = parseAssemblyExpression_body (asmExprParsers_at (pred_numeral k)) (pred_numeral k)"
  by (simp_all add: numeral_eq_Suc asmExprParsers_at.simps)

lemmas [parse_body] =
  parseAssemblyCall_body_def
  parseAssemblyExpression_body_def

lemmas [parse_top] =
  parseAssemblyCall_def
  parseAssemblyExpression_def

definition parseAssemblyLocalDefinition :: "nat \<Rightarrow> Builder \<Rightarrow> (Node \<times> Builder) option" where
  "parseAssemblyLocalDefinition n b = do {
     let (startTok, b) = advance b;
     let node = mkNode ''AssemblyLocalDefinition'' [(''Names'', VList [])];
     (node, b) \<leftarrow> loopB n
        (\<lambda>node b.
           let (nameTok, b) = expect IDENTIFIER b;
               node = append_field node ''Names'' (VNode (Identifier (Value nameTok)))
           in if \<not> check COMMA b then Some ((False, node), b)
              else Some ((True, node), snd (advance b)))
        node b;
     (node, b) \<leftarrow>
       (if check ASSIGN b
        then do {
          let b = snd (advance b);
          (e, b) \<leftarrow> parseAssemblyExpression n b;
          Some (set_field node ''Expression'' (VNode e), b)
        }
        else Some (node, b));
     Some (setLocation b node startTok (previous b), b)
   }"

text \<open>\<^verbatim>\<open>names[0]\<close> panics on an empty slice; the model then gives no result.\<close>

definition parseAssemblyExpressionOrAssignment :: "nat \<Rightarrow> Builder \<Rightarrow> (Node \<times> Builder) option" where
  "parseAssemblyExpressionOrAssignment n b = do {
     let startTok = peek b;
     (names, b) \<leftarrow> loopB n
        (\<lambda>names b.
           let (nameTok, b) = expect IDENTIFIER b;
               names = names @ [Identifier (Value nameTok)]
           in if \<not> check COMMA b then Some ((False, names), b)
              else Some ((True, names), snd (advance b)))
        [] b;
     if check ASSIGN b
     then do {
       let b = snd (advance b);
       (expr, b) \<leftarrow> parseAssemblyExpression n b;
       let node = mkNode ''AssemblyAssignment''
         [(''Names'', VNodes names), (''Expression'', VNode expr)];
       Some (setLocation b node startTok (previous b), b)
     }
     else (case names of
             [] \<Rightarrow> None
           | name0 # _ \<Rightarrow>
               if length names = 1 \<and> check LPAREN b
               then parseAssemblyCall n (field_string name0 ''Name'') startTok b
               else Some (name0, b))
   }"


text \<open>\<^verbatim>\<open>parseAssemblyStatement_\<close> of the source is \<open>parseAssemblyStatement_op\<close> here (a name
  cannot end with an underscore); it returns \<^verbatim>\<open>nil\<close> for a token that starts no
  operation.\<close>

text \<open>
  The statements of an assembly block call each other; the knot is tied as for the
  expressions.
\<close>

record AsmParsers =
  parseAssemblyBlock_rec :: "Builder \<Rightarrow> (Node \<times> Builder) option"
  parseAssemblyStatement_op_rec :: "Builder \<Rightarrow> (Node option \<times> Builder) option"
  parseAssemblyIf_rec :: "Builder \<Rightarrow> (Node \<times> Builder) option"
  parseAssemblyFor_rec :: "Builder \<Rightarrow> (Node \<times> Builder) option"
  parseAssemblySwitch_rec :: "Builder \<Rightarrow> (Node \<times> Builder) option"
  parseAssemblyFunctionDefinition_rec :: "Builder \<Rightarrow> (Node \<times> Builder) option"

definition parseAssemblyBlock_body :: "AsmParsers \<Rightarrow> nat \<Rightarrow> Builder \<Rightarrow> (Node \<times> Builder) option" where
  "parseAssemblyBlock_body ps n b =
     do {
     let (startTok, b) = expect LBRACE b;
     let node = mkNode ''AssemblyBlock'' [(''Operations'', VList [])];
     (node, b) \<leftarrow> whileB n (\<lambda>b. \<not> check RBRACE b \<and> \<not> isAtEnd b)
        (\<lambda>node b. do {
           (opr, b) \<leftarrow> parseAssemblyStatement_op_rec ps b;
           Some (case opr of
                   None \<Rightarrow> node
                 | Some o1 \<Rightarrow> append_field node ''Operations'' (VNode o1), b)
         })
        node b;
     let (endTok, b) = expect RBRACE b;
     Some (setLocation b node startTok endTok, b)
   }"

definition parseAssemblyStatement_op_body :: "AsmParsers \<Rightarrow> nat \<Rightarrow> Builder \<Rightarrow> (Node option \<times> Builder) option" where
  "parseAssemblyStatement_op_body ps n b =
     (let tok = peek b; t = Type tok in
      if t = LBRACE then map_option (\<lambda>(x, b). (Some x, b)) (parseAssemblyBlock_rec ps b)
      else if t = LET then map_option (\<lambda>(x, b). (Some x, b)) (parseAssemblyLocalDefinition n b)
      else if t = IF then map_option (\<lambda>(x, b). (Some x, b)) (parseAssemblyIf_rec ps b)
      else if t = FOR then map_option (\<lambda>(x, b). (Some x, b)) (parseAssemblyFor_rec ps b)
      else if t = SWITCH then map_option (\<lambda>(x, b). (Some x, b)) (parseAssemblySwitch_rec ps b)
      else if t = FUNCTION
      then map_option (\<lambda>(x, b). (Some x, b)) (parseAssemblyFunctionDefinition_rec ps b)
      else if t = IDENTIFIER
      then map_option (\<lambda>(x, b). (Some x, b)) (parseAssemblyExpressionOrAssignment n b)
      else if t = RBRACE then Some (None, b)
      else Some (None, snd (advance b)))"

definition parseAssemblyIf_body :: "AsmParsers \<Rightarrow> nat \<Rightarrow> Builder \<Rightarrow> (Node \<times> Builder) option" where
  "parseAssemblyIf_body ps n b =
     do {
     let (startTok, b) = advance b;
     (condition, b) \<leftarrow> parseAssemblyExpression n b;
     (body, b) \<leftarrow> parseAssemblyBlock_rec ps b;
     let node = mkNode ''AssemblyIf'' [(''Condition'', VNode condition), (''Body'', VNode body)];
     Some (setLocation b node startTok (previous b), b)
   }"

definition parseAssemblyFor_body :: "AsmParsers \<Rightarrow> nat \<Rightarrow> Builder \<Rightarrow> (Node \<times> Builder) option" where
  "parseAssemblyFor_body ps n b =
     do {
     let (startTok, b) = advance b;
     (pre, b) \<leftarrow> parseAssemblyBlock_rec ps b;
     (condition, b) \<leftarrow> parseAssemblyExpression n b;
     (post, b) \<leftarrow> parseAssemblyBlock_rec ps b;
     (body, b) \<leftarrow> parseAssemblyBlock_rec ps b;
     let node = mkNode ''AssemblyFor''
       [(''Pre'', VNode pre), (''Condition'', VNode condition), (''Post'', VNode post),
        (''Body'', VNode body)];
     Some (setLocation b node startTok (previous b), b)
   }"

definition parseAssemblySwitch_body :: "AsmParsers \<Rightarrow> nat \<Rightarrow> Builder \<Rightarrow> (Node \<times> Builder) option" where
  "parseAssemblySwitch_body ps n b =
     do {
     let (startTok, b) = advance b;
     (expr, b) \<leftarrow> parseAssemblyExpression n b;
     let node = mkNode ''AssemblySwitch'' [(''Expression'', VNode expr), (''Cases'', VList [])];
     (node, b) \<leftarrow> whileB n (\<lambda>b. check CASE b \<or> check DEFAULT b)
        (\<lambda>node b. do {
           let isDefault = check DEFAULT b;
           let b = snd (advance b);
           let caseNode = mkNode ''AssemblyCase'' [(''Default'', VBool isDefault)];
           let (caseNode, b) =
             (if \<not> isDefault
              then (let (lit, b) = parseAssemblyLiteral b in
                    (set_field caseNode ''Value'' (VNode lit), b))
              else (caseNode, b));
           (body, b) \<leftarrow> parseAssemblyBlock_rec ps b;
           let caseNode = set_field caseNode ''Body'' (VNode body);
           Some (append_field node ''Cases'' (VNode caseNode), b)
         })
        node b;
     Some (setLocation b node startTok (previous b), b)
   }"

definition parseAssemblyFunctionDefinition_body :: "AsmParsers \<Rightarrow> nat \<Rightarrow> Builder \<Rightarrow> (Node \<times> Builder) option" where
  "parseAssemblyFunctionDefinition_body ps n b =
     do {
     let (startTok, b) = advance b;
     let (nameTok, b) = expect IDENTIFIER b;
     let node = mkNode ''AssemblyFunctionDefinition'' [(''Name'', VString (Value nameTok))];
     let b = snd (expect LPAREN b);
     (node, b) \<leftarrow> whileB n (\<lambda>b. \<not> check RPAREN b \<and> \<not> isAtEnd b)
        (\<lambda>node b.
           let (argTok, b) = expect IDENTIFIER b;
               node = append_field node ''Arguments'' (VNode (Identifier (Value argTok)));
               b = (if \<not> check RPAREN b then snd (expect COMMA b) else b)
           in Some (node, b))
        node b;
     let b = snd (expect RPAREN b);
     (node, b) \<leftarrow>
       (if check ARROW b
        then loopB n
           (\<lambda>node b.
              let (retTok, b) = expect IDENTIFIER b;
                  node = append_field node ''ReturnArguments'' (VNode (Identifier (Value retTok)))
              in if \<not> check COMMA b then Some ((False, node), b)
                 else Some ((True, node), snd (advance b)))
           node (snd (advance b))
        else Some (node, b));
     (body, b) \<leftarrow> parseAssemblyBlock_rec ps b;
     let node = set_field node ''Body'' (VNode body);
     Some (setLocation b node startTok (previous b), b)
   }"

primrec asmParsers_at :: "nat \<Rightarrow> AsmParsers" where
  "asmParsers_at 0 = \<lparr>
     parseAssemblyBlock_rec = (\<lambda>b. None),
     parseAssemblyStatement_op_rec = (\<lambda>b. None),
     parseAssemblyIf_rec = (\<lambda>b. None),
     parseAssemblyFor_rec = (\<lambda>b. None),
     parseAssemblySwitch_rec = (\<lambda>b. None),
     parseAssemblyFunctionDefinition_rec = (\<lambda>b. None)\<rparr>"
| "asmParsers_at (Suc n) = \<lparr>
     parseAssemblyBlock_rec = parseAssemblyBlock_body (asmParsers_at n) n,
     parseAssemblyStatement_op_rec = parseAssemblyStatement_op_body (asmParsers_at n) n,
     parseAssemblyIf_rec = parseAssemblyIf_body (asmParsers_at n) n,
     parseAssemblyFor_rec = parseAssemblyFor_body (asmParsers_at n) n,
     parseAssemblySwitch_rec = parseAssemblySwitch_body (asmParsers_at n) n,
     parseAssemblyFunctionDefinition_rec = parseAssemblyFunctionDefinition_body (asmParsers_at n) n\<rparr>"

declare asmParsers_at.simps [simp del]

definition parseAssemblyBlock :: "nat \<Rightarrow> Builder \<Rightarrow> (Node \<times> Builder) option" where
  "parseAssemblyBlock n = parseAssemblyBlock_rec (asmParsers_at n)"

definition parseAssemblyStatement_op :: "nat \<Rightarrow> Builder \<Rightarrow> (Node option \<times> Builder) option" where
  "parseAssemblyStatement_op n = parseAssemblyStatement_op_rec (asmParsers_at n)"

definition parseAssemblyIf :: "nat \<Rightarrow> Builder \<Rightarrow> (Node \<times> Builder) option" where
  "parseAssemblyIf n = parseAssemblyIf_rec (asmParsers_at n)"

definition parseAssemblyFor :: "nat \<Rightarrow> Builder \<Rightarrow> (Node \<times> Builder) option" where
  "parseAssemblyFor n = parseAssemblyFor_rec (asmParsers_at n)"

definition parseAssemblySwitch :: "nat \<Rightarrow> Builder \<Rightarrow> (Node \<times> Builder) option" where
  "parseAssemblySwitch n = parseAssemblySwitch_rec (asmParsers_at n)"

definition parseAssemblyFunctionDefinition :: "nat \<Rightarrow> Builder \<Rightarrow> (Node \<times> Builder) option" where
  "parseAssemblyFunctionDefinition n = parseAssemblyFunctionDefinition_rec (asmParsers_at n)"

lemma parseAssemblyBlock_0 [parse_0]: "parseAssemblyBlock 0 = (\<lambda>b. None)"
  by (simp add: parseAssemblyBlock_def asmParsers_at.simps)

lemma parseAssemblyBlock_Suc [parse_Suc]: "parseAssemblyBlock (Suc n) = parseAssemblyBlock_body (asmParsers_at n) n"
  by (simp add: parseAssemblyBlock_def asmParsers_at.simps)

lemma parseAssemblyBlock_rec [parse_rec]: "parseAssemblyBlock_rec (asmParsers_at n) = parseAssemblyBlock n"
  by (simp add: parseAssemblyBlock_def)

lemma parseAssemblyStatement_op_0 [parse_0]: "parseAssemblyStatement_op 0 = (\<lambda>b. None)"
  by (simp add: parseAssemblyStatement_op_def asmParsers_at.simps)

lemma parseAssemblyStatement_op_Suc [parse_Suc]: "parseAssemblyStatement_op (Suc n) = parseAssemblyStatement_op_body (asmParsers_at n) n"
  by (simp add: parseAssemblyStatement_op_def asmParsers_at.simps)

lemma parseAssemblyStatement_op_rec [parse_rec]: "parseAssemblyStatement_op_rec (asmParsers_at n) = parseAssemblyStatement_op n"
  by (simp add: parseAssemblyStatement_op_def)

lemma parseAssemblyIf_0 [parse_0]: "parseAssemblyIf 0 = (\<lambda>b. None)"
  by (simp add: parseAssemblyIf_def asmParsers_at.simps)

lemma parseAssemblyIf_Suc [parse_Suc]: "parseAssemblyIf (Suc n) = parseAssemblyIf_body (asmParsers_at n) n"
  by (simp add: parseAssemblyIf_def asmParsers_at.simps)

lemma parseAssemblyIf_rec [parse_rec]: "parseAssemblyIf_rec (asmParsers_at n) = parseAssemblyIf n"
  by (simp add: parseAssemblyIf_def)

lemma parseAssemblyFor_0 [parse_0]: "parseAssemblyFor 0 = (\<lambda>b. None)"
  by (simp add: parseAssemblyFor_def asmParsers_at.simps)

lemma parseAssemblyFor_Suc [parse_Suc]: "parseAssemblyFor (Suc n) = parseAssemblyFor_body (asmParsers_at n) n"
  by (simp add: parseAssemblyFor_def asmParsers_at.simps)

lemma parseAssemblyFor_rec [parse_rec]: "parseAssemblyFor_rec (asmParsers_at n) = parseAssemblyFor n"
  by (simp add: parseAssemblyFor_def)

lemma parseAssemblySwitch_0 [parse_0]: "parseAssemblySwitch 0 = (\<lambda>b. None)"
  by (simp add: parseAssemblySwitch_def asmParsers_at.simps)

lemma parseAssemblySwitch_Suc [parse_Suc]: "parseAssemblySwitch (Suc n) = parseAssemblySwitch_body (asmParsers_at n) n"
  by (simp add: parseAssemblySwitch_def asmParsers_at.simps)

lemma parseAssemblySwitch_rec [parse_rec]: "parseAssemblySwitch_rec (asmParsers_at n) = parseAssemblySwitch n"
  by (simp add: parseAssemblySwitch_def)

lemma parseAssemblyFunctionDefinition_0 [parse_0]: "parseAssemblyFunctionDefinition 0 = (\<lambda>b. None)"
  by (simp add: parseAssemblyFunctionDefinition_def asmParsers_at.simps)

lemma parseAssemblyFunctionDefinition_Suc [parse_Suc]: "parseAssemblyFunctionDefinition (Suc n) = parseAssemblyFunctionDefinition_body (asmParsers_at n) n"
  by (simp add: parseAssemblyFunctionDefinition_def asmParsers_at.simps)

lemma parseAssemblyFunctionDefinition_rec [parse_rec]: "parseAssemblyFunctionDefinition_rec (asmParsers_at n) = parseAssemblyFunctionDefinition n"
  by (simp add: parseAssemblyFunctionDefinition_def)

lemma asmParsers_at_numeral [parse_num]:
  "parseAssemblyBlock_rec (asmParsers_at (numeral k)) = parseAssemblyBlock_body (asmParsers_at (pred_numeral k)) (pred_numeral k)"
  "parseAssemblyStatement_op_rec (asmParsers_at (numeral k)) = parseAssemblyStatement_op_body (asmParsers_at (pred_numeral k)) (pred_numeral k)"
  "parseAssemblyIf_rec (asmParsers_at (numeral k)) = parseAssemblyIf_body (asmParsers_at (pred_numeral k)) (pred_numeral k)"
  "parseAssemblyFor_rec (asmParsers_at (numeral k)) = parseAssemblyFor_body (asmParsers_at (pred_numeral k)) (pred_numeral k)"
  "parseAssemblySwitch_rec (asmParsers_at (numeral k)) = parseAssemblySwitch_body (asmParsers_at (pred_numeral k)) (pred_numeral k)"
  "parseAssemblyFunctionDefinition_rec (asmParsers_at (numeral k)) = parseAssemblyFunctionDefinition_body (asmParsers_at (pred_numeral k)) (pred_numeral k)"
  by (simp_all add: numeral_eq_Suc asmParsers_at.simps)

lemmas [parse_body] =
  parseAssemblyBlock_body_def
  parseAssemblyStatement_op_body_def
  parseAssemblyIf_body_def
  parseAssemblyFor_body_def
  parseAssemblySwitch_body_def
  parseAssemblyFunctionDefinition_body_def

lemmas [parse_top] =
  parseAssemblyBlock_def
  parseAssemblyStatement_op_def
  parseAssemblyIf_def
  parseAssemblyFor_def
  parseAssemblySwitch_def
  parseAssemblyFunctionDefinition_def

definition parseAssemblyStatement :: "nat \<Rightarrow> Builder \<Rightarrow> (Node \<times> Builder) option" where
  "parseAssemblyStatement n b = do {
     let (startTok, b) = advance b;
     let node = mkNode ''InlineAssembly'' [];
     let (node, b) =
       (if check STRING b
        then (let (langTok, b) = advance b in
              (set_field node ''Language'' (VString (Value langTok)), b))
        else (node, b));
     (body, b) \<leftarrow> parseAssemblyBlock n b;
     let node = set_field node ''Body'' (VNode body);
     Some (setLocation b node startTok (previous b), b)
   }"


subsection \<open>Blocks and compound statements\<close>

text \<open>
  A block, a statement and the compound statements call each other; the knot is tied as
  for the expressions.
\<close>

record StmtParsers =
  parseBlock_rec :: "Builder \<Rightarrow> (Node \<times> Builder) option"
  parseStatement_rec :: "Builder \<Rightarrow> (Node \<times> Builder) option"
  parseIfStatement_rec :: "Builder \<Rightarrow> (Node \<times> Builder) option"
  parseForStatement_rec :: "Builder \<Rightarrow> (Node \<times> Builder) option"
  parseWhileStatement_rec :: "Builder \<Rightarrow> (Node \<times> Builder) option"
  parseDoWhileStatement_rec :: "Builder \<Rightarrow> (Node \<times> Builder) option"
  parseTryStatement_rec :: "Builder \<Rightarrow> (Node \<times> Builder) option"
  parseCatchClause_rec :: "Builder \<Rightarrow> (Node \<times> Builder) option"
  parseUncheckedBlock_rec :: "Builder \<Rightarrow> (Node \<times> Builder) option"

definition parseBlock_body :: "StmtParsers \<Rightarrow> nat \<Rightarrow> Builder \<Rightarrow> (Node \<times> Builder) option" where
  "parseBlock_body ps n b =
     do {
     let (startTok, b) = expect LBRACE b;
     let node = mkNode ''Block'' [(''Statements'', VList [])];
     (node, b) \<leftarrow> whileB n (\<lambda>b. \<not> check RBRACE b \<and> \<not> isAtEnd b)
        (\<lambda>node b. do {
           (stmt, b) \<leftarrow> parseStatement_rec ps b;
           Some (append_field node ''Statements'' (VNode stmt), b)
         })
        node b;
     let (endTok, b) = expect RBRACE b;
     Some (setLocation b node startTok endTok, b)
   }"

definition parseStatement_body :: "StmtParsers \<Rightarrow> nat \<Rightarrow> Builder \<Rightarrow> (Node \<times> Builder) option" where
  "parseStatement_body ps n b =
     (let tok = peek b; t = Type tok in
      if t = LBRACE then parseBlock_rec ps b
      else if t = IF then parseIfStatement_rec ps b
      else if t = FOR then parseForStatement_rec ps b
      else if t = WHILE then parseWhileStatement_rec ps b
      else if t = DO then parseDoWhileStatement_rec ps b
      else if t = CONTINUE then Some (parseContinueStatement b)
      else if t = BREAK then Some (parseBreakStatement b)
      else if t = RETURN then parseReturnStatement n b
      else if t = EMIT then parseEmitStatement n b
      else if t = REVERT then parseRevertStatement n b
      else if t = TRY then parseTryStatement_rec ps b
      else if t = ASSEMBLY then parseAssemblyStatement n b
      else if t = UNCHECKED then parseUncheckedBlock_rec ps b
      else do {
        looksLike \<leftarrow> looksLikeVariableDeclaration n b;
        if looksLike then parseVariableDeclarationStatement n b
        else if check LPAREN b then parseTupleVariableDeclarationOrExpression n b
        else parseExpressionStatement n b
      })"

definition parseIfStatement_body :: "StmtParsers \<Rightarrow> nat \<Rightarrow> Builder \<Rightarrow> (Node \<times> Builder) option" where
  "parseIfStatement_body ps n b =
     do {
     let (startTok, b) = advance b;
     let b = snd (expect LPAREN b);
     (condition, b) \<leftarrow> parseExpression n b;
     let b = snd (expect RPAREN b);
     (trueBody, b) \<leftarrow> parseStatement_rec ps b;
     let node = mkNode ''IfStatement'' [(''Condition'', VNode condition), (''TrueBody'', VNode trueBody)];
     (node, b) \<leftarrow>
       (if check ELSE b
        then do {
          let b = snd (advance b);
          (falseBody, b) \<leftarrow> parseStatement_rec ps b;
          Some (set_field node ''FalseBody'' (VNode falseBody), b)
        }
        else Some (node, b));
     Some (setLocation b node startTok (previous b), b)
   }"

definition parseForStatement_body :: "StmtParsers \<Rightarrow> nat \<Rightarrow> Builder \<Rightarrow> (Node \<times> Builder) option" where
  "parseForStatement_body ps n b =
     do {
     let (startTok, b) = advance b;
     let b = snd (expect LPAREN b);
     let node = mkNode ''ForStatement'' [];
     (node, b) \<leftarrow>
       (if \<not> check SEMICOLON b
        then (if isTypeName b
              then do {
                (init, b) \<leftarrow> parseVariableDeclarationStatement n b;
                Some (set_field node ''InitExpression'' (VNode init), b)
              }
              else do {
                (init, b) \<leftarrow> parseExpressionStatement n b;
                Some (set_field node ''InitExpression'' (VNode init), b)
              })
        else Some (node, snd (advance b)));
     (node, b) \<leftarrow>
       (if \<not> check SEMICOLON b
        then do {
          (e, b) \<leftarrow> parseExpression n b;
          Some (set_field node ''ConditionExpression'' (VNode e), b)
        }
        else Some (node, b));
     let b = snd (expect SEMICOLON b);
     (node, b) \<leftarrow>
       (if \<not> check RPAREN b
        then do {
          (e, b) \<leftarrow> parseExpression n b;
          Some (set_field node ''LoopExpression'' (VNode e), b)
        }
        else Some (node, b));
     let b = snd (expect RPAREN b);
     (body, b) \<leftarrow> parseStatement_rec ps b;
     let node = set_field node ''Body'' (VNode body);
     Some (setLocation b node startTok (previous b), b)
   }"

definition parseWhileStatement_body :: "StmtParsers \<Rightarrow> nat \<Rightarrow> Builder \<Rightarrow> (Node \<times> Builder) option" where
  "parseWhileStatement_body ps n b =
     do {
     let (startTok, b) = advance b;
     let b = snd (expect LPAREN b);
     (condition, b) \<leftarrow> parseExpression n b;
     let b = snd (expect RPAREN b);
     (body, b) \<leftarrow> parseStatement_rec ps b;
     let node = mkNode ''WhileStatement'' [(''Condition'', VNode condition), (''Body'', VNode body)];
     Some (setLocation b node startTok (previous b), b)
   }"

definition parseDoWhileStatement_body :: "StmtParsers \<Rightarrow> nat \<Rightarrow> Builder \<Rightarrow> (Node \<times> Builder) option" where
  "parseDoWhileStatement_body ps n b =
     do {
     let (startTok, b) = advance b;
     (body, b) \<leftarrow> parseStatement_rec ps b;
     let b = snd (expect WHILE b);
     let b = snd (expect LPAREN b);
     (condition, b) \<leftarrow> parseExpression n b;
     let b = snd (expect RPAREN b);
     let b = snd (expect SEMICOLON b);
     let node = mkNode ''DoWhileStatement'' [(''Condition'', VNode condition), (''Body'', VNode body)];
     Some (setLocation b node startTok (previous b), b)
   }"

definition parseTryStatement_body :: "StmtParsers \<Rightarrow> nat \<Rightarrow> Builder \<Rightarrow> (Node \<times> Builder) option" where
  "parseTryStatement_body ps n b =
     do {
     let (startTok, b) = advance b;
     (expr, b) \<leftarrow> parseTryExpression n b;
     let node = mkNode ''TryStatement'' [(''Expression'', VNode expr)];
     (node, b) \<leftarrow>
       (if check RETURNS b
        then do {
          let b = snd (advance b);
          (rets, b) \<leftarrow> parseParameterList n b;
          Some (set_field node ''ReturnParameters'' (VNodes rets), b)
        }
        else Some (node, b));
     (body, b) \<leftarrow> parseBlock_rec ps b;
     let node = set_field node ''Body'' (VNode body);
     (node, b) \<leftarrow> whileB n (check CATCH)
        (\<lambda>node b. do {
           (clause, b) \<leftarrow> parseCatchClause_rec ps b;
           Some (append_field node ''CatchClauses'' (VNode clause), b)
         })
        node b;
     Some (setLocation b node startTok (previous b), b)
   }"

definition parseCatchClause_body :: "StmtParsers \<Rightarrow> nat \<Rightarrow> Builder \<Rightarrow> (Node \<times> Builder) option" where
  "parseCatchClause_body ps n b =
     do {
     let (startTok, b) = advance b;
     let node = mkNode ''CatchClause'' [];
     let (node, b) =
       (if check IDENTIFIER b
        then (let (kindTok, b) = advance b;
                  node = set_field node ''Kind'' (VString (Value kindTok));
                  node = (if Value kindTok = ''Error''
                          then set_field node ''IsReasonStringType'' (VBool True) else node)
              in (node, b))
        else (node, b));
     (node, b) \<leftarrow>
       (if check LPAREN b
        then do {
          (params, b) \<leftarrow> parseParameterList n b;
          Some (set_field node ''Parameters'' (VNodes params), b)
        }
        else Some (node, b));
     (body, b) \<leftarrow> parseBlock_rec ps b;
     let node = set_field node ''Body'' (VNode body);
     Some (setLocation b node startTok (previous b), b)
   }"

definition parseUncheckedBlock_body :: "StmtParsers \<Rightarrow> nat \<Rightarrow> Builder \<Rightarrow> (Node \<times> Builder) option" where
  "parseUncheckedBlock_body ps n b =
     do {
     let (startTok, b) = advance b;
     (body, b) \<leftarrow> parseBlock_rec ps b;
     let node = mkNode ''UncheckedBlock'' [(''Body'', VNode body)];
     Some (setLocation b node startTok (previous b), b)
   }"

primrec stmtParsers_at :: "nat \<Rightarrow> StmtParsers" where
  "stmtParsers_at 0 = \<lparr>
     parseBlock_rec = (\<lambda>b. None),
     parseStatement_rec = (\<lambda>b. None),
     parseIfStatement_rec = (\<lambda>b. None),
     parseForStatement_rec = (\<lambda>b. None),
     parseWhileStatement_rec = (\<lambda>b. None),
     parseDoWhileStatement_rec = (\<lambda>b. None),
     parseTryStatement_rec = (\<lambda>b. None),
     parseCatchClause_rec = (\<lambda>b. None),
     parseUncheckedBlock_rec = (\<lambda>b. None)\<rparr>"
| "stmtParsers_at (Suc n) = \<lparr>
     parseBlock_rec = parseBlock_body (stmtParsers_at n) n,
     parseStatement_rec = parseStatement_body (stmtParsers_at n) n,
     parseIfStatement_rec = parseIfStatement_body (stmtParsers_at n) n,
     parseForStatement_rec = parseForStatement_body (stmtParsers_at n) n,
     parseWhileStatement_rec = parseWhileStatement_body (stmtParsers_at n) n,
     parseDoWhileStatement_rec = parseDoWhileStatement_body (stmtParsers_at n) n,
     parseTryStatement_rec = parseTryStatement_body (stmtParsers_at n) n,
     parseCatchClause_rec = parseCatchClause_body (stmtParsers_at n) n,
     parseUncheckedBlock_rec = parseUncheckedBlock_body (stmtParsers_at n) n\<rparr>"

declare stmtParsers_at.simps [simp del]

definition parseBlock :: "nat \<Rightarrow> Builder \<Rightarrow> (Node \<times> Builder) option" where
  "parseBlock n = parseBlock_rec (stmtParsers_at n)"

definition parseStatement :: "nat \<Rightarrow> Builder \<Rightarrow> (Node \<times> Builder) option" where
  "parseStatement n = parseStatement_rec (stmtParsers_at n)"

definition parseIfStatement :: "nat \<Rightarrow> Builder \<Rightarrow> (Node \<times> Builder) option" where
  "parseIfStatement n = parseIfStatement_rec (stmtParsers_at n)"

definition parseForStatement :: "nat \<Rightarrow> Builder \<Rightarrow> (Node \<times> Builder) option" where
  "parseForStatement n = parseForStatement_rec (stmtParsers_at n)"

definition parseWhileStatement :: "nat \<Rightarrow> Builder \<Rightarrow> (Node \<times> Builder) option" where
  "parseWhileStatement n = parseWhileStatement_rec (stmtParsers_at n)"

definition parseDoWhileStatement :: "nat \<Rightarrow> Builder \<Rightarrow> (Node \<times> Builder) option" where
  "parseDoWhileStatement n = parseDoWhileStatement_rec (stmtParsers_at n)"

definition parseTryStatement :: "nat \<Rightarrow> Builder \<Rightarrow> (Node \<times> Builder) option" where
  "parseTryStatement n = parseTryStatement_rec (stmtParsers_at n)"

definition parseCatchClause :: "nat \<Rightarrow> Builder \<Rightarrow> (Node \<times> Builder) option" where
  "parseCatchClause n = parseCatchClause_rec (stmtParsers_at n)"

definition parseUncheckedBlock :: "nat \<Rightarrow> Builder \<Rightarrow> (Node \<times> Builder) option" where
  "parseUncheckedBlock n = parseUncheckedBlock_rec (stmtParsers_at n)"

lemma parseBlock_0 [parse_0]: "parseBlock 0 = (\<lambda>b. None)"
  by (simp add: parseBlock_def stmtParsers_at.simps)

lemma parseBlock_Suc [parse_Suc]: "parseBlock (Suc n) = parseBlock_body (stmtParsers_at n) n"
  by (simp add: parseBlock_def stmtParsers_at.simps)

lemma parseBlock_rec [parse_rec]: "parseBlock_rec (stmtParsers_at n) = parseBlock n"
  by (simp add: parseBlock_def)

lemma parseStatement_0 [parse_0]: "parseStatement 0 = (\<lambda>b. None)"
  by (simp add: parseStatement_def stmtParsers_at.simps)

lemma parseStatement_Suc [parse_Suc]: "parseStatement (Suc n) = parseStatement_body (stmtParsers_at n) n"
  by (simp add: parseStatement_def stmtParsers_at.simps)

lemma parseStatement_rec [parse_rec]: "parseStatement_rec (stmtParsers_at n) = parseStatement n"
  by (simp add: parseStatement_def)

lemma parseIfStatement_0 [parse_0]: "parseIfStatement 0 = (\<lambda>b. None)"
  by (simp add: parseIfStatement_def stmtParsers_at.simps)

lemma parseIfStatement_Suc [parse_Suc]: "parseIfStatement (Suc n) = parseIfStatement_body (stmtParsers_at n) n"
  by (simp add: parseIfStatement_def stmtParsers_at.simps)

lemma parseIfStatement_rec [parse_rec]: "parseIfStatement_rec (stmtParsers_at n) = parseIfStatement n"
  by (simp add: parseIfStatement_def)

lemma parseForStatement_0 [parse_0]: "parseForStatement 0 = (\<lambda>b. None)"
  by (simp add: parseForStatement_def stmtParsers_at.simps)

lemma parseForStatement_Suc [parse_Suc]: "parseForStatement (Suc n) = parseForStatement_body (stmtParsers_at n) n"
  by (simp add: parseForStatement_def stmtParsers_at.simps)

lemma parseForStatement_rec [parse_rec]: "parseForStatement_rec (stmtParsers_at n) = parseForStatement n"
  by (simp add: parseForStatement_def)

lemma parseWhileStatement_0 [parse_0]: "parseWhileStatement 0 = (\<lambda>b. None)"
  by (simp add: parseWhileStatement_def stmtParsers_at.simps)

lemma parseWhileStatement_Suc [parse_Suc]: "parseWhileStatement (Suc n) = parseWhileStatement_body (stmtParsers_at n) n"
  by (simp add: parseWhileStatement_def stmtParsers_at.simps)

lemma parseWhileStatement_rec [parse_rec]: "parseWhileStatement_rec (stmtParsers_at n) = parseWhileStatement n"
  by (simp add: parseWhileStatement_def)

lemma parseDoWhileStatement_0 [parse_0]: "parseDoWhileStatement 0 = (\<lambda>b. None)"
  by (simp add: parseDoWhileStatement_def stmtParsers_at.simps)

lemma parseDoWhileStatement_Suc [parse_Suc]: "parseDoWhileStatement (Suc n) = parseDoWhileStatement_body (stmtParsers_at n) n"
  by (simp add: parseDoWhileStatement_def stmtParsers_at.simps)

lemma parseDoWhileStatement_rec [parse_rec]: "parseDoWhileStatement_rec (stmtParsers_at n) = parseDoWhileStatement n"
  by (simp add: parseDoWhileStatement_def)

lemma parseTryStatement_0 [parse_0]: "parseTryStatement 0 = (\<lambda>b. None)"
  by (simp add: parseTryStatement_def stmtParsers_at.simps)

lemma parseTryStatement_Suc [parse_Suc]: "parseTryStatement (Suc n) = parseTryStatement_body (stmtParsers_at n) n"
  by (simp add: parseTryStatement_def stmtParsers_at.simps)

lemma parseTryStatement_rec [parse_rec]: "parseTryStatement_rec (stmtParsers_at n) = parseTryStatement n"
  by (simp add: parseTryStatement_def)

lemma parseCatchClause_0 [parse_0]: "parseCatchClause 0 = (\<lambda>b. None)"
  by (simp add: parseCatchClause_def stmtParsers_at.simps)

lemma parseCatchClause_Suc [parse_Suc]: "parseCatchClause (Suc n) = parseCatchClause_body (stmtParsers_at n) n"
  by (simp add: parseCatchClause_def stmtParsers_at.simps)

lemma parseCatchClause_rec [parse_rec]: "parseCatchClause_rec (stmtParsers_at n) = parseCatchClause n"
  by (simp add: parseCatchClause_def)

lemma parseUncheckedBlock_0 [parse_0]: "parseUncheckedBlock 0 = (\<lambda>b. None)"
  by (simp add: parseUncheckedBlock_def stmtParsers_at.simps)

lemma parseUncheckedBlock_Suc [parse_Suc]: "parseUncheckedBlock (Suc n) = parseUncheckedBlock_body (stmtParsers_at n) n"
  by (simp add: parseUncheckedBlock_def stmtParsers_at.simps)

lemma parseUncheckedBlock_rec [parse_rec]: "parseUncheckedBlock_rec (stmtParsers_at n) = parseUncheckedBlock n"
  by (simp add: parseUncheckedBlock_def)

lemma stmtParsers_at_numeral [parse_num]:
  "parseBlock_rec (stmtParsers_at (numeral k)) = parseBlock_body (stmtParsers_at (pred_numeral k)) (pred_numeral k)"
  "parseStatement_rec (stmtParsers_at (numeral k)) = parseStatement_body (stmtParsers_at (pred_numeral k)) (pred_numeral k)"
  "parseIfStatement_rec (stmtParsers_at (numeral k)) = parseIfStatement_body (stmtParsers_at (pred_numeral k)) (pred_numeral k)"
  "parseForStatement_rec (stmtParsers_at (numeral k)) = parseForStatement_body (stmtParsers_at (pred_numeral k)) (pred_numeral k)"
  "parseWhileStatement_rec (stmtParsers_at (numeral k)) = parseWhileStatement_body (stmtParsers_at (pred_numeral k)) (pred_numeral k)"
  "parseDoWhileStatement_rec (stmtParsers_at (numeral k)) = parseDoWhileStatement_body (stmtParsers_at (pred_numeral k)) (pred_numeral k)"
  "parseTryStatement_rec (stmtParsers_at (numeral k)) = parseTryStatement_body (stmtParsers_at (pred_numeral k)) (pred_numeral k)"
  "parseCatchClause_rec (stmtParsers_at (numeral k)) = parseCatchClause_body (stmtParsers_at (pred_numeral k)) (pred_numeral k)"
  "parseUncheckedBlock_rec (stmtParsers_at (numeral k)) = parseUncheckedBlock_body (stmtParsers_at (pred_numeral k)) (pred_numeral k)"
  by (simp_all add: numeral_eq_Suc stmtParsers_at.simps)

lemmas [parse_body] =
  parseBlock_body_def
  parseStatement_body_def
  parseIfStatement_body_def
  parseForStatement_body_def
  parseWhileStatement_body_def
  parseDoWhileStatement_body_def
  parseTryStatement_body_def
  parseCatchClause_body_def
  parseUncheckedBlock_body_def

lemmas [parse_top] =
  parseBlock_def
  parseStatement_def
  parseIfStatement_def
  parseForStatement_def
  parseWhileStatement_def
  parseDoWhileStatement_def
  parseTryStatement_def
  parseCatchClause_def
  parseUncheckedBlock_def

subsection \<open>Declarations: \<^verbatim>\<open>builder.go\<close>, \<^verbatim>\<open>types.go\<close>\<close>

definition parsePragmaDirective :: "nat \<Rightarrow> Builder \<Rightarrow> (Node \<times> Builder) option" where
  "parsePragmaDirective n b = do {
     let (startTok, b) = advance b;
     let (nameTok, b) = advance b;
     let name = Value nameTok;
     (valueParts, b) \<leftarrow> whileB n (\<lambda>b. \<not> check SEMICOLON b \<and> \<not> isAtEnd b)
        (\<lambda>valueParts b. let (tok, b) = advance b in Some (valueParts @ [Value tok], b))
        [] b;
     let v = Join valueParts '' '';
     let (endTok, b) = expect SEMICOLON b;
     let node = mkNode ''PragmaDirective'' [(''Name'', VString name), (''Value'', VString v)];
     Some (setLocation b node startTok endTok, b)
   }"

definition parseImportDirective :: "nat \<Rightarrow> Builder \<Rightarrow> (Node \<times> Builder) option" where
  "parseImportDirective n b = do {
     let (startTok, b) = advance b;
     let node = mkNode ''ImportDirective'' [];
     (node, b) \<leftarrow>
       (if check STRING b then
          (let (pathTok, b) = advance b;
               node = set_field node ''Path'' (VString (Value pathTok))
           in if check AS b
              then (let b = snd (advance b);
                        (aliasTok, b) = expect IDENTIFIER b
                    in Some (set_field node ''UnitAlias'' (VString (Value aliasTok)), b))
              else Some (node, b))
        else if check MUL b then
          (let b = snd (advance b);
               b = snd (expect AS b);
               (aliasTok, b) = expect IDENTIFIER b;
               node = set_field node ''UnitAlias'' (VString (Value aliasTok));
               b = snd (expectKeyword ''from'' b);
               (pathTok, b) = expect STRING b
           in Some (set_field node ''Path'' (VString (Value pathTok)), b))
        else if check LBRACE b then do {
          let b = snd (advance b);
          let node = set_field node ''SymbolAliases'' (VList []);
          (node, b) \<leftarrow> whileB n (\<lambda>b. \<not> check RBRACE b \<and> \<not> isAtEnd b)
             (\<lambda>node b.
                let (symTok, b) = expect IDENTIFIER b;
                    (alias, b) = (if check AS b
                                  then (let b = snd (advance b);
                                            (aliasTok, b) = expect IDENTIFIER b
                                        in (Value aliasTok, b))
                                  else ([], b));
                    node = append_field node ''SymbolAliases'' (VImportSymbol (Value symTok) alias);
                    b = (if \<not> check RBRACE b then snd (expect COMMA b) else b)
                in Some (node, b))
             node b;
          let b = snd (expect RBRACE b);
          let b = snd (expectKeyword ''from'' b);
          let (pathTok, b) = expect STRING b;
          Some (set_field node ''Path'' (VString (Value pathTok)), b)
        }
        else if check IDENTIFIER b then
          (let (nameTok, b) = advance b;
               node = set_field node ''UnitAlias'' (VString (Value nameTok));
               b = snd (expectKeyword ''from'' b);
               (pathTok, b) = expect STRING b
           in Some (set_field node ''Path'' (VString (Value pathTok)), b))
        else Some (node, b));
     let (endTok, b) = expect SEMICOLON b;
     Some (setLocation b node startTok endTok, b)
   }"

definition parseInheritanceSpecifier :: "nat \<Rightarrow> Builder \<Rightarrow> (Node \<times> Builder) option" where
  "parseInheritanceSpecifier n b = do {
     let startTok = peek b;
     (baseName, b) \<leftarrow> parseUserDefinedTypeName n b;
     let node = mkNode ''InheritanceSpecifier'' [(''BaseName'', VNode baseName)];
     (node, b) \<leftarrow>
       (if check LPAREN b
        then do {
          let b = snd (advance b);
          (args, b) \<leftarrow> parseExpressionList n b;
          let b = snd (expect RPAREN b);
          Some (set_field node ''Arguments'' (VNodes args), b)
        }
        else Some (node, b));
     Some (setLocation b node startTok (previous b), b)
   }"

definition parseModifierInvocation :: "nat \<Rightarrow> Builder \<Rightarrow> (Node \<times> Builder) option" where
  "parseModifierInvocation n b = do {
     let (startTok, b) = advance b;
     let node = mkNode ''ModifierInvocation'' [(''Name'', VString (Value startTok))];
     (node, b) \<leftarrow>
       (if check LPAREN b
        then do {
          let b = snd (advance b);
          (args, b) \<leftarrow> parseExpressionList n b;
          let b = snd (expect RPAREN b);
          Some (set_field node ''Arguments'' (VNodes args), b)
        }
        else Some (node, b));
     Some (setLocation b node startTok (previous b), b)
   }"

text \<open>The code after \<^verbatim>\<open>override\<close>, which the source repeats for functions, modifiers and
  state variables: the keyword, then an optional parenthesised list of type names
  appended to the node's \<^verbatim>\<open>Override\<close>.\<close>

definition parseOverride :: "nat \<Rightarrow> Node \<Rightarrow> Builder \<Rightarrow> (Node \<times> Builder) option" where
  "parseOverride n node b = do {
     let b = snd (advance b);
     if check LPAREN b
     then do {
       let b = snd (advance b);
       (node, b) \<leftarrow> whileB n (\<lambda>b. \<not> check RPAREN b \<and> \<not> isAtEnd b)
          (\<lambda>node b. do {
             (typeName, b) \<leftarrow> parseUserDefinedTypeName n b;
             let node = append_field node ''Override'' (VNode typeName);
             let b = (if \<not> check RPAREN b then snd (expect COMMA b) else b);
             Some (node, b)
           })
          node b;
       let b = snd (expect RPAREN b);
       Some (node, b)
     }
     else Some (node, b)
   }"

definition parseFunctionModifiers :: "nat \<Rightarrow> Node \<Rightarrow> Builder \<Rightarrow> (Node \<times> Builder) option" where
  "parseFunctionModifiers n node b =
     loopB n
       (\<lambda>node b.
          let t = Type (peek b) in
          if t = PUBLIC
          then Some ((True, set_field node ''Visibility'' (VString ''public'')), snd (advance b))
          else if t = PRIVATE
          then Some ((True, set_field node ''Visibility'' (VString ''private'')), snd (advance b))
          else if t = INTERNAL
          then Some ((True, set_field node ''Visibility'' (VString ''internal'')), snd (advance b))
          else if t = EXTERNAL
          then Some ((True, set_field node ''Visibility'' (VString ''external'')), snd (advance b))
          else if t = PURE
          then Some ((True, set_field node ''StateMutability'' (VString ''pure'')), snd (advance b))
          else if t = VIEW
          then Some ((True, set_field node ''StateMutability'' (VString ''view'')), snd (advance b))
          else if t = PAYABLE
          then Some ((True, set_field node ''StateMutability'' (VString ''payable'')), snd (advance b))
          else if t = VIRTUAL
          then Some ((True, set_field node ''IsVirtual'' (VBool True)), snd (advance b))
          else if t = OVERRIDE
          then do { (node, b) \<leftarrow> parseOverride n node b; Some ((True, node), b) }
          else if t = IDENTIFIER
          then do {
            (m, b) \<leftarrow> parseModifierInvocation n b;
            Some ((True, append_field node ''Modifiers'' (VNode m)), b)
          }
          else Some ((False, node), b))
       node b"

text \<open>The end of a function, fallback, receive or modifier definition: a body if the next
  token is \<^verbatim>\<open>{\<close>, else a semicolon.\<close>

definition parseBodyOrSemicolon :: "nat \<Rightarrow> Node \<Rightarrow> Builder \<Rightarrow> (Node \<times> Builder) option" where
  "parseBodyOrSemicolon n node b =
     (if check LBRACE b
      then do {
        (body, b) \<leftarrow> parseBlock n b;
        Some (set_field node ''Body'' (VNode body), b)
      }
      else Some (node, snd (expect SEMICOLON b)))"

definition parseFunctionDefinition :: "nat \<Rightarrow> Builder \<Rightarrow> (Node \<times> Builder) option" where
  "parseFunctionDefinition n b = do {
     let (startTok, b) = advance b;
     let node = mkNode ''FunctionDefinition'' [(''Parameters'', VList []), (''Modifiers'', VList [])];
     let (node, b) =
       (if check IDENTIFIER b \<or> check FALLBACK b \<or> check RECEIVE b
        then (let (nameTok, b) = advance b;
                  node = set_field node ''Name'' (VString (Value nameTok));
                  node = (if Type nameTok = FALLBACK then set_field node ''IsFallback'' (VBool True)
                          else if Type nameTok = RECEIVE
                          then set_field node ''IsReceiveEther'' (VBool True)
                          else node)
              in (node, b))
        else (node, b));
     (params, b) \<leftarrow> parseParameterList n b;
     let node = set_field node ''Parameters'' (VNodes params);
     (node, b) \<leftarrow> parseFunctionModifiers n node b;
     (node, b) \<leftarrow>
       (if check RETURNS b
        then do {
          let b = snd (advance b);
          (rets, b) \<leftarrow> parseParameterList n b;
          Some (set_field node ''ReturnParameters'' (VNodes rets), b)
        }
        else Some (node, b));
     (node, b) \<leftarrow> parseBodyOrSemicolon n node b;
     Some (setLocation b node startTok (previous b), b)
   }"

definition parseConstructorDefinition :: "nat \<Rightarrow> Builder \<Rightarrow> (Node \<times> Builder) option" where
  "parseConstructorDefinition n b = do {
     let (startTok, b) = advance b;
     let node = mkNode ''FunctionDefinition''
       [(''IsConstructor'', VBool True), (''Parameters'', VList []), (''Modifiers'', VList [])];
     (params, b) \<leftarrow> parseParameterList n b;
     let node = set_field node ''Parameters'' (VNodes params);
     (node, b) \<leftarrow> parseFunctionModifiers n node b;
     (body, b) \<leftarrow> parseBlock n b;
     let node = set_field node ''Body'' (VNode body);
     Some (setLocation b node startTok (previous b), b)
   }"

definition parseFallbackDefinition :: "nat \<Rightarrow> Builder \<Rightarrow> (Node \<times> Builder) option" where
  "parseFallbackDefinition n b = do {
     let (startTok, b) = advance b;
     let node = mkNode ''FunctionDefinition''
       [(''IsFallback'', VBool True), (''Parameters'', VList []), (''Modifiers'', VList [])];
     (params, b) \<leftarrow> parseParameterList n b;
     let node = set_field node ''Parameters'' (VNodes params);
     (node, b) \<leftarrow> parseFunctionModifiers n node b;
     (node, b) \<leftarrow>
       (if check RETURNS b
        then do {
          let b = snd (advance b);
          (rets, b) \<leftarrow> parseParameterList n b;
          Some (set_field node ''ReturnParameters'' (VNodes rets), b)
        }
        else Some (node, b));
     (node, b) \<leftarrow> parseBodyOrSemicolon n node b;
     Some (setLocation b node startTok (previous b), b)
   }"

definition parseReceiveDefinition :: "nat \<Rightarrow> Builder \<Rightarrow> (Node \<times> Builder) option" where
  "parseReceiveDefinition n b = do {
     let (startTok, b) = advance b;
     let node = mkNode ''FunctionDefinition''
       [(''IsReceiveEther'', VBool True), (''Parameters'', VList []), (''Modifiers'', VList [])];
     (params, b) \<leftarrow> parseParameterList n b;
     let node = set_field node ''Parameters'' (VNodes params);
     (node, b) \<leftarrow> parseFunctionModifiers n node b;
     (node, b) \<leftarrow> parseBodyOrSemicolon n node b;
     Some (setLocation b node startTok (previous b), b)
   }"

definition parseModifierDefinition :: "nat \<Rightarrow> Builder \<Rightarrow> (Node \<times> Builder) option" where
  "parseModifierDefinition n b = do {
     let (startTok, b) = advance b;
     let (nameTok, b) = expect IDENTIFIER b;
     let node = mkNode ''ModifierDefinition'' [(''Name'', VString (Value nameTok))];
     (node, b) \<leftarrow>
       (if check LPAREN b
        then do {
          (params, b) \<leftarrow> parseParameterList n b;
          Some (set_field node ''Parameters'' (VNodes params), b)
        }
        else Some (node, b));
     (node, b) \<leftarrow> loopB n
        (\<lambda>node b.
           if check VIRTUAL b
           then Some ((True, set_field node ''IsVirtual'' (VBool True)), snd (advance b))
           else if check OVERRIDE b
           then do { (node, b) \<leftarrow> parseOverride n node b; Some ((True, node), b) }
           else Some ((False, node), b))
        node b;
     (node, b) \<leftarrow> parseBodyOrSemicolon n node b;
     Some (setLocation b node startTok (previous b), b)
   }"

text \<open>
  \<^verbatim>\<open>parseStateVariableDeclaration\<close>. The source sets the location of \<^verbatim>\<open>varDecl\<close> after it
  has stored the pointer in \<^verbatim>\<open>node.Variables\<close>; the tree sees the update, so the model
  sets it before it builds the list.
\<close>

definition parseStateVariableDeclaration :: "nat \<Rightarrow> Builder \<Rightarrow> (Node \<times> Builder) option" where
  "parseStateVariableDeclaration n b = do {
     let startTok = peek b;
     (typeName, b) \<leftarrow> parseTypeName n b;
     let varDecl = mkNode ''VariableDeclaration''
       [(''TypeName'', VNode typeName), (''IsStateVar'', VBool True)];
     (varDecl, b) \<leftarrow> loopB n
        (\<lambda>varDecl b.
           if check PUBLIC b
           then Some ((True, set_field varDecl ''Visibility'' (VString ''public'')), snd (advance b))
           else if check PRIVATE b
           then Some ((True, set_field varDecl ''Visibility'' (VString ''private'')), snd (advance b))
           else if check INTERNAL b
           then Some ((True, set_field varDecl ''Visibility'' (VString ''internal'')), snd (advance b))
           else if check CONSTANT b
           then Some ((True, set_field varDecl ''IsDeclaredConst'' (VBool True)), snd (advance b))
           else if check IMMUTABLE b
           then Some ((True, set_field varDecl ''IsImmutable'' (VBool True)), snd (advance b))
           else if check TRANSIENT b
           then Some ((True, set_field varDecl ''StorageLocation'' (VString ''transient'')),
                      snd (advance b))
           else if check OVERRIDE b
           then do { (varDecl, b) \<leftarrow> parseOverride n varDecl b; Some ((True, varDecl), b) }
           else Some ((False, varDecl), b))
        varDecl b;
     let (nameTok, b) = expect IDENTIFIER b;
     let varDecl = set_field varDecl ''Name'' (VString (Value nameTok));
     let varDecl = set_field varDecl ''Identifier'' (VNode (Identifier (Value nameTok)));
     (initialValue, b) \<leftarrow>
       (if check ASSIGN b
        then do {
          let b = snd (advance b);
          (e, b) \<leftarrow> parseExpression n b;
          Some (Some e, b)
        }
        else Some (None, b));
     let (endTok, b) = expect SEMICOLON b;
     let varDecl = setLocation b varDecl startTok endTok;
     let node = mkNode ''StateVariableDeclaration'' [(''Variables'', VList [VNode varDecl])];
     let node = (case initialValue of
                   None \<Rightarrow> node
                 | Some e \<Rightarrow> set_field node ''InitialValue'' (VNode e));
     Some (setLocation b node startTok endTok, b)
   }"

definition parseConstantVariableDeclaration :: "nat \<Rightarrow> Builder \<Rightarrow> (Node \<times> Builder) option" where
  "parseConstantVariableDeclaration n b = parseStateVariableDeclaration n b"

definition parseStructDefinition :: "nat \<Rightarrow> Builder \<Rightarrow> (Node \<times> Builder) option" where
  "parseStructDefinition n b = do {
     let (startTok, b) = advance b;
     let (nameTok, b) = expect IDENTIFIER b;
     let node = mkNode ''StructDefinition'' [(''Name'', VString (Value nameTok)), (''Members'', VList [])];
     let b = snd (expect LBRACE b);
     (node, b) \<leftarrow> whileB n (\<lambda>b. \<not> check RBRACE b \<and> \<not> isAtEnd b)
        (\<lambda>node b. do {
           (typeName, b) \<leftarrow> parseTypeName n b;
           let (memberNameTok, b) = expect IDENTIFIER b;
           let b = snd (expect SEMICOLON b);
           let member = mkNode ''VariableDeclaration''
             [(''TypeName'', VNode typeName), (''Name'', VString (Value memberNameTok)),
              (''Identifier'', VNode (Identifier (Value memberNameTok)))];
           Some (append_field node ''Members'' (VNode member), b)
         })
        node b;
     let (endTok, b) = expect RBRACE b;
     Some (setLocation b node startTok endTok, b)
   }"

definition parseEnumDefinition :: "nat \<Rightarrow> Builder \<Rightarrow> (Node \<times> Builder) option" where
  "parseEnumDefinition n b = do {
     let (startTok, b) = advance b;
     let (nameTok, b) = expect IDENTIFIER b;
     let node = mkNode ''EnumDefinition'' [(''Name'', VString (Value nameTok)), (''Members'', VList [])];
     let b = snd (expect LBRACE b);
     (node, b) \<leftarrow> whileB n (\<lambda>b. \<not> check RBRACE b \<and> \<not> isAtEnd b)
        (\<lambda>node b.
           let (valueTok, b) = expect IDENTIFIER b;
               member = mkNode ''EnumValue'' [(''Name'', VString (Value valueTok))];
               node = append_field node ''Members'' (VNode member);
               b = (if \<not> check RBRACE b then snd (expect COMMA b) else b)
           in Some (node, b))
        node b;
     let (endTok, b) = expect RBRACE b;
     Some (setLocation b node startTok endTok, b)
   }"

definition parseEventDefinition :: "nat \<Rightarrow> Builder \<Rightarrow> (Node \<times> Builder) option" where
  "parseEventDefinition n b = do {
     let (startTok, b) = advance b;
     let (nameTok, b) = expect IDENTIFIER b;
     let node = mkNode ''EventDefinition'' [(''Name'', VString (Value nameTok)), (''Parameters'', VList [])];
     let b = snd (expect LPAREN b);
     (node, b) \<leftarrow> whileB n (\<lambda>b. \<not> check RPAREN b \<and> \<not> isAtEnd b)
        (\<lambda>node b. do {
           (typeName, b) \<leftarrow> parseTypeName n b;
           let param = mkNode ''VariableDeclaration'' [(''TypeName'', VNode typeName)];
           let (param, b) =
             (if check INDEXED b
              then (set_field param ''IsIndexed'' (VBool True), snd (advance b))
              else (param, b));
           let (param, b) =
             (if check IDENTIFIER b \<or> isContextualKeyword b
              then (let (paramNameTok, b) = advance b in
                    (set_field (set_field param ''Name'' (VString (Value paramNameTok)))
                       ''Identifier'' (VNode (Identifier (Value paramNameTok))), b))
              else (param, b));
           let node = append_field node ''Parameters'' (VNode param);
           let b = (if check COMMA b then snd (advance b)
                    else if \<not> check RPAREN b then snd (advance b)
                    else b);
           Some (node, b)
         })
        node b;
     let b = snd (expect RPAREN b);
     let (node, b) =
       (if check ANONYMOUS b
        then (set_field node ''IsAnonymous'' (VBool True), snd (advance b))
        else (node, b));
     let (endTok, b) = expect SEMICOLON b;
     Some (setLocation b node startTok endTok, b)
   }"

definition parseErrorDefinition :: "nat \<Rightarrow> Builder \<Rightarrow> (Node \<times> Builder) option" where
  "parseErrorDefinition n b = do {
     let (startTok, b) = advance b;
     let (nameTok, b) = expect IDENTIFIER b;
     let node = mkNode ''ErrorDefinition'' [(''Name'', VString (Value nameTok)), (''Parameters'', VList [])];
     let b = snd (expect LPAREN b);
     (node, b) \<leftarrow> whileB n (\<lambda>b. \<not> check RPAREN b \<and> \<not> isAtEnd b)
        (\<lambda>node b. do {
           (typeName, b) \<leftarrow> parseTypeName n b;
           let param = mkNode ''VariableDeclaration'' [(''TypeName'', VNode typeName)];
           let (param, b) =
             (if check IDENTIFIER b
              then (let (paramNameTok, b) = advance b in
                    (set_field (set_field param ''Name'' (VString (Value paramNameTok)))
                       ''Identifier'' (VNode (Identifier (Value paramNameTok))), b))
              else (param, b));
           let node = append_field node ''Parameters'' (VNode param);
           let b = (if \<not> check RPAREN b then snd (expect COMMA b) else b);
           Some (node, b)
         })
        node b;
     let b = snd (expect RPAREN b);
     let (endTok, b) = expect SEMICOLON b;
     Some (setLocation b node startTok endTok, b)
   }"

definition parseUsingDirective :: "nat \<Rightarrow> Builder \<Rightarrow> (Node \<times> Builder) option" where
  "parseUsingDirective n b = do {
     let (startTok, b) = advance b;
     let node = mkNode ''UsingForDeclaration'' [];
     (node, b) \<leftarrow>
       (if check LBRACE b
        then do {
          let b = snd (advance b);
          (node, b) \<leftarrow> whileB n (\<lambda>b. \<not> check RBRACE b \<and> \<not> isAtEnd b)
             (\<lambda>node b.
                let (funcTok, b) = expect IDENTIFIER b;
                    node = append_field node ''Functions'' (VString (Value funcTok));
                    (node, b) = (if check AS b
                                 then (let b = snd (advance b);
                                           (opTok, b) = advance b
                                       in (append_field node ''Operators'' (VString (Value opTok)), b))
                                 else (node, b));
                    b = (if \<not> check RBRACE b then snd (expect COMMA b) else b)
                in Some (node, b))
             node b;
          Some (node, snd (expect RBRACE b))
        }
        else do {
          (libName, b) \<leftarrow> parseUserDefinedTypeName n b;
          Some (set_field node ''LibraryName'' (VString (field_string libName ''NamePath'')), b)
        });
     let b = snd (expectKeyword ''for'' b);
     (node, b) \<leftarrow>
       (if check MUL b then Some (node, snd (advance b))
        else do {
          (typeName, b) \<leftarrow> parseTypeName n b;
          Some (set_field node ''TypeName'' (VNode typeName), b)
        });
     let (node, b) =
       (if check GLOBAL b
        then (set_field node ''IsGlobal'' (VBool True), snd (advance b))
        else (node, b));
     let (endTok, b) = expect SEMICOLON b;
     Some (setLocation b node startTok endTok, b)
   }"

definition parseUserDefinedValueTypeDefinition :: "Builder \<Rightarrow> Node \<times> Builder" where
  "parseUserDefinedValueTypeDefinition b =
     (let (startTok, b) = advance b;
          (nameTok, b) = expect IDENTIFIER b;
          b = snd (expect IS b);
          (underlyingType, b) = parseElementaryTypeName b;
          (endTok, b) = expect SEMICOLON b;
          node = mkNode ''UserDefinedValueTypeDefinition''
            [(''Name'', VString (Value nameTok)), (''UnderlyingType'', VNode underlyingType)]
      in (setLocation b node startTok endTok, b))"

definition parseContractBodyElement :: "nat \<Rightarrow> Builder \<Rightarrow> (Node option \<times> Builder) option" where
  "parseContractBodyElement n b =
     (let tok = peek b; t = Type tok in
      if t = FUNCTION then map_option (\<lambda>(x, b). (Some x, b)) (parseFunctionDefinition n b)
      else if t = CONSTRUCTOR then map_option (\<lambda>(x, b). (Some x, b)) (parseConstructorDefinition n b)
      else if t = MODIFIER then map_option (\<lambda>(x, b). (Some x, b)) (parseModifierDefinition n b)
      else if t = FALLBACK then map_option (\<lambda>(x, b). (Some x, b)) (parseFallbackDefinition n b)
      else if t = RECEIVE then map_option (\<lambda>(x, b). (Some x, b)) (parseReceiveDefinition n b)
      else if t = STRUCT then map_option (\<lambda>(x, b). (Some x, b)) (parseStructDefinition n b)
      else if t = ENUM then map_option (\<lambda>(x, b). (Some x, b)) (parseEnumDefinition n b)
      else if t = EVENT then map_option (\<lambda>(x, b). (Some x, b)) (parseEventDefinition n b)
      else if t = ERROR then map_option (\<lambda>(x, b). (Some x, b)) (parseErrorDefinition n b)
      else if t = USING then map_option (\<lambda>(x, b). (Some x, b)) (parseUsingDirective n b)
      else if t = TYPE_KW
      then (let (x, b) = parseUserDefinedValueTypeDefinition b in Some (Some x, b))
      else if isTypeName b
      then map_option (\<lambda>(x, b). (Some x, b)) (parseStateVariableDeclaration n b)
      else (let b = addError (''unexpected token in contract body: '' @ Value tok) b;
                b = snd (advance b)
            in Some (None, b)))"

definition parseContractDefinition :: "nat \<Rightarrow> string \<Rightarrow> Builder \<Rightarrow> (Node \<times> Builder) option" where
  "parseContractDefinition n kind b = do {
     let (startTok, b) =
       (if kind = ''abstract'' then (previous b, snd (advance b)) else advance b);
     let (nameTok, b) = expect IDENTIFIER b;
     let node = mkNode ''ContractDefinition''
       [(''Name'', VString (Value nameTok)), (''Kind'', VString kind),
        (''BaseContracts'', VList []), (''SubNodes'', VList [])];
     b \<leftarrow>
       (if check LAYOUT b
        then do {
          let b = snd (advance b);
          let b = snd (expect AT b);
          (layout, b) \<leftarrow> parsePrimary n b;
          Some b
        }
        else Some b);
     (node, b) \<leftarrow>
       (if check IS b
        then loopB n
           (\<lambda>node b. do {
              (base, b) \<leftarrow> parseInheritanceSpecifier n b;
              let node = append_field node ''BaseContracts'' (VNode base);
              if \<not> check COMMA b then Some ((False, node), b)
              else Some ((True, node), snd (advance b))
            })
           node (snd (advance b))
        else Some (node, b));
     let b = snd (expect LBRACE b);
     (node, b) \<leftarrow> whileB n (\<lambda>b. \<not> check RBRACE b \<and> \<not> isAtEnd b)
        (\<lambda>node b. do {
           (subNode, b) \<leftarrow> parseContractBodyElement n b;
           Some (case subNode of
                   None \<Rightarrow> node
                 | Some s \<Rightarrow> append_field node ''SubNodes'' (VNode s), b)
         })
        node b;
     let (endTok, b) = expect RBRACE b;
     Some (setLocation b node startTok endTok, b)
   }"

definition parseSourceUnitElement :: "nat \<Rightarrow> Builder \<Rightarrow> (Node option \<times> Builder) option" where
  "parseSourceUnitElement n b =
     (let tok = peek b; t = Type tok in
      if t = PRAGMA then map_option (\<lambda>(x, b). (Some x, b)) (parsePragmaDirective n b)
      else if t = IMPORT then map_option (\<lambda>(x, b). (Some x, b)) (parseImportDirective n b)
      else if t = CONTRACT
      then map_option (\<lambda>(x, b). (Some x, b)) (parseContractDefinition n ''contract'' b)
      else if t = ABSTRACT
      then (let b = snd (advance b) in
            if check CONTRACT b
            then map_option (\<lambda>(x, b). (Some x, b)) (parseContractDefinition n ''abstract'' b)
            else Some (None, addError (''expected '' @ [CHR 0x27] @ ''contract'' @ [CHR 0x27] @
                                       '' after '' @ [CHR 0x27] @ ''abstract'' @ [CHR 0x27]) b))
      else if t = INTERFACE
      then map_option (\<lambda>(x, b). (Some x, b)) (parseContractDefinition n ''interface'' b)
      else if t = LIBRARY
      then map_option (\<lambda>(x, b). (Some x, b)) (parseContractDefinition n ''library'' b)
      else if t = STRUCT then map_option (\<lambda>(x, b). (Some x, b)) (parseStructDefinition n b)
      else if t = ENUM then map_option (\<lambda>(x, b). (Some x, b)) (parseEnumDefinition n b)
      else if t = FUNCTION then map_option (\<lambda>(x, b). (Some x, b)) (parseFunctionDefinition n b)
      else if t = EVENT then map_option (\<lambda>(x, b). (Some x, b)) (parseEventDefinition n b)
      else if t = ERROR then map_option (\<lambda>(x, b). (Some x, b)) (parseErrorDefinition n b)
      else if t = USING then map_option (\<lambda>(x, b). (Some x, b)) (parseUsingDirective n b)
      else if t = TYPE_KW
      then (let (x, b) = parseUserDefinedValueTypeDefinition b in Some (Some x, b))
      else if t = EOF then Some (None, b)
      else if isTypeName b
      then map_option (\<lambda>(x, b). (Some x, b)) (parseConstantVariableDeclaration n b)
      else (let b = addError (''unexpected token: '' @ Value tok) b;
                b = snd (advance b)
            in Some (None, b)))"

subsection \<open>\<^verbatim>\<open>Build\<close> and \<^verbatim>\<open>Errors\<close>\<close>

text \<open>
  \<^verbatim>\<open>Build\<close> returns the pair \<^verbatim>\<open>(*ast.SourceUnit, error)\<close>; the builder it leaves behind
  is the third component, for \<^verbatim>\<open>Errors\<close>. The loop variables are
  \<^verbatim>\<open>sourceUnit.Children\<close> and the error of the early \<^verbatim>\<open>return nil, b.errors[0]\<close>.
\<close>

definition Build :: "nat \<Rightarrow> Builder \<Rightarrow> ((Node option \<times> Error option) \<times> Builder) option" where
  "Build n b = do {
     ((children, early), b) \<leftarrow> loopB n
        (\<lambda>(children, early) b.
           if isAtEnd b then Some ((False, (children, None)), b)
           else do {
             (node, b) \<leftarrow> parseSourceUnitElement n b;
             let children = (case node of None \<Rightarrow> children | Some x \<Rightarrow> children @ [x]);
             (case errors b of
                e # _ \<Rightarrow>
                  if \<not> Tolerant (options b) then Some ((False, (children, Some e)), b)
                  else Some ((True, (children, None)), b)
              | [] \<Rightarrow> Some ((True, (children, None)), b))
           })
        ([], None) b;
     (case early of
        Some e \<Rightarrow> Some ((None, Some e), b)
      | None \<Rightarrow>
          (let sourceUnit = mkNode ''SourceUnit'' [(''Children'', VNodes children)];
               sourceUnit =
                 (if Loc (options b) \<and> length children > 0
                  then (case (GetLocation (hd children), GetLocation (last children)) of
                          (Some (Location fs fe), Some (Location ls le)) \<Rightarrow>
                            Node ''SourceUnit'' (Some (Location fs le)) None
                              [(''Children'', VNodes children)]
                        | _ \<Rightarrow> sourceUnit)
                  else sourceUnit)
           in Some ((Some sourceUnit, None), b)))
   }"

definition Errors :: "Builder \<Rightarrow> Error list" where
  "Errors b = errors b"


section \<open>Evaluating the scanner and the builder on concrete inputs\<close>

text \<open>
  Concrete runs are computed by rewriting with the definitions. The input of a run is a
  named constant whose characters are looked up through lemmas, so that the terms stay
  small; the budget is a numeral, unfolded one unit at a time.
\<close>

lemma slice_Cons: "slice (c # cs) i j = take (j - i) (drop i (c # cs))"
  by (simp add: slice_def)

lemma take_1_Cons: "take 1 (c # cs) = [c]"
  by simp

lemma drop_1_Cons: "drop 1 (c # cs) = cs"
  by simp

lemmas lex_eval = take_1_Cons drop_1_Cons
  Tokenize.simps NextToken_def skipWhitespaceAndComments.simps skipBlockComment.simps
  advanceWhile.simps readIdentifier_def readNumber_def readHexNumber_def readString_def
  readString_loop.simps readOperator_def lex_peek_def lex_peekAt_def lex_advance_def
  lex_New_def isDigit_def isIdentifierStart_def isIdentifierPart_def isHexDigit_def
  less_eq_char_def Let_def split_beta slice_Cons
  keywords_map_def keywords_table_def HasPrefix_def isIntType_def isUintType_def
  isBytesNType_def isFixedNType_def isUfixedNType_def isValidIntSize_def isValidFixedSuffix_def
  Index_x_def string_of_byte_def two_char_operators_def one_char_operators_def unescape_def

lemma whileB_numeral:
  "whileB (numeral k) c body a b =
     (if c b then (case body a b of None \<Rightarrow> None | Some (a', b') \<Rightarrow> whileB (pred_numeral k) c body a' b')
      else Some (a, b))"
  by (simp add: numeral_eq_Suc)

lemma loopB_numeral:
  "loopB (numeral k) body a b =
     (case body a b of
        None \<Rightarrow> None
      | Some ((go_on, a'), b') \<Rightarrow> if go_on then loopB (pred_numeral k) body a' b' else Some (a', b'))"
  by (simp add: numeral_eq_Suc)

lemma bind_weak_cong: "m = m' \<Longrightarrow> Option.bind m f = Option.bind m' f"
  by simp

lemmas prim_eval =
  peek_def previous_def isAtEnd_def advance_def check_def expect_def expectKeyword_def
  addError_def synchronize_def synchronize_loop.simps sync_kinds_def
  isElementaryTypeName_def isTypeName_def isContextualKeyword_def isAssignmentOperator_def
  checkNumberUnit_def setLocation_def setLocation_kinds_def EOF_token_def
  TokenType_String_def tokenNames_def
  mkNode_def append_field_def field_list_def field_string_def get_field_def
  VOpt_def VNodes_def VOpts_def VStrings_def Identifier_def BinaryOperation_def

lemmas parse_eval =
  parseElementaryTypeName_def parseUserDefinedTypeName_def parseNumberLiteral_def
  parseStringLiteral_def parseLocationAndName_def parseVariableDeclaration_def
  parseExpressionStatement_def parseVariableDeclarationStatement_def
  parseTupleVariableDeclarationOrExpression_def looksLikeVariableDeclaration_def
  parseContinueStatement_def parseBreakStatement_def parseReturnStatement_def
  parseEmitStatement_def parseRevertStatement_def parseTryCallMemberIndex_def
  parseTryExpression_def parseAssemblyLiteral_def parseAssemblyLocalDefinition_def
  parseAssemblyExpressionOrAssignment_def parseAssemblyStatement_def parsePragmaDirective_def
  parseImportDirective_def parseInheritanceSpecifier_def parseModifierInvocation_def
  parseOverride_def parseFunctionModifiers_def parseBodyOrSemicolon_def
  parseFunctionDefinition_def parseConstructorDefinition_def parseFallbackDefinition_def
  parseReceiveDefinition_def parseModifierDefinition_def parseStateVariableDeclaration_def
  parseConstantVariableDeclaration_def parseStructDefinition_def parseEnumDefinition_def
  parseEventDefinition_def parseErrorDefinition_def parseUsingDirective_def
  parseUserDefinedValueTypeDefinition_def parseContractBodyElement_def
  parseContractDefinition_def parseSourceUnitElement_def Build_def parse_top parse_body
  parse_num whileB_numeral loopB_numeral

section \<open>Operator precedence\<close>

text \<open>
  The table of the specification, for the binary operators: the level of a token kind, from
  1 (the assignments) to 13 (\<^verbatim>\<open>**\<close>), and 0 for a token that is no binary operator. Level 2
  is the conditional and levels 14 to 16 are the unary and postfix forms. The levels 1 and
  13 associate to the right, the levels 3 to 12 to the left.
\<close>

definition table_level :: "TokenType \<Rightarrow> nat" where
  "table_level t =
     (if t \<in> set [ASSIGN, ASSIGN_ADD, ASSIGN_SUB, ASSIGN_MUL, ASSIGN_DIV, ASSIGN_MOD, ASSIGN_AND,
                   ASSIGN_OR, ASSIGN_XOR, ASSIGN_SHL, ASSIGN_SHR, ASSIGN_SAR] then 1
      else if t = OR then 3
      else if t = AND then 4
      else if t \<in> set [EQ, NEQ] then 5
      else if t \<in> set [LT, LTE, GT, GTE] then 6
      else if t = BIT_OR then 7
      else if t = BIT_XOR then 8
      else if t = BIT_AND then 9
      else if t \<in> set [SHL, SHR, SAR] then 10
      else if t \<in> set [ADD, SUB] then 11
      else if t \<in> set [MUL, DIV, MOD] then 12
      else if t = EXP then 13
      else 0)"

definition table_right_assoc :: "nat \<Rightarrow> bool" where
  "table_right_assoc k \<longleftrightarrow> k = 1 \<or> k = 13"

text \<open>
  \<open>groups_right o1 o2\<close>: by the table, \<open>a o1 b o2 c\<close> is \<open>a o1 (b o2 c)\<close>, because \<open>o2\<close> binds
  tighter than \<open>o1\<close> or both are of one level that associates to the right; otherwise it is
  \<open>(a o1 b) o2 c\<close>.
\<close>

definition groups_right :: "TokenType \<Rightarrow> TokenType \<Rightarrow> bool" where
  "groups_right o1 o2 \<longleftrightarrow>
     table_level o1 < table_level o2 \<or>
     (table_level o1 = table_level o2 \<and> table_right_assoc (table_level o1))"

text \<open>The tree that the table gives to \<open>a o1 b o2 c\<close>.\<close>

definition table_tree :: "Token \<Rightarrow> Token \<Rightarrow> Token \<Rightarrow> Token \<Rightarrow> Token \<Rightarrow> Node" where
  "table_tree a o1 b o2 c =
     (if groups_right (Type o1) (Type o2)
      then BinaryOperation (Value o1) (Identifier (Value a))
             (BinaryOperation (Value o2) (Identifier (Value b)) (Identifier (Value c)))
      else BinaryOperation (Value o2)
             (BinaryOperation (Value o1) (Identifier (Value a)) (Identifier (Value b)))
             (Identifier (Value c)))"

text \<open>
  For the proof, the functions of the levels 3 to 13 are indexed by their level, and the
  ten left-associative ones are instances of one loop.
\<close>

definition opAt :: "nat \<Rightarrow> Builder \<Rightarrow> bool" where
  "opAt k b \<longleftrightarrow> \<not> isAtEnd b \<and> table_level (Type (peek b)) = k"

definition stop_token :: "TokenType \<Rightarrow> bool" where
  "stop_token t \<longleftrightarrow> t = EOF \<or> table_level t \<noteq> 0"

definition leftLevel ::
    "(Builder \<Rightarrow> bool) \<Rightarrow> (nat \<Rightarrow> Builder \<Rightarrow> (Node \<times> Builder) option) \<Rightarrow>
     nat \<Rightarrow> Builder \<Rightarrow> (Node \<times> Builder) option" where
  "leftLevel c sub n b = do {
     (left, b) \<leftarrow> sub n b;
     whileB n c
       (\<lambda>left b. do {
          let (opTok, b) = advance b;
          (right, b) \<leftarrow> sub n b;
          Some (BinaryOperation (Value opTok) left right, b)
        })
       left b
   }"

definition level_parser :: "nat \<Rightarrow> nat \<Rightarrow> Builder \<Rightarrow> (Node \<times> Builder) option" where
  "level_parser k =
     (if k = 3 then parseLogicalOr else if k = 4 then parseLogicalAnd
      else if k = 5 then parseEquality else if k = 6 then parseRelational
      else if k = 7 then parseBitwiseOr else if k = 8 then parseBitwiseXor
      else if k = 9 then parseBitwiseAnd else if k = 10 then parseShift
      else if k = 11 then parseAdditive else if k = 12 then parseMultiplicative
      else if k = 13 then parseExponentiation else parseUnary)"

lemma opAt_conds:
  "check OR b = opAt 3 b"
  "check AND b = opAt 4 b"
  "(check EQ b \<or> check NEQ b) = opAt 5 b"
  "(check LT b \<or> check GT b \<or> check LTE b \<or> check GTE b) = opAt 6 b"
  "check BIT_OR b = opAt 7 b"
  "check BIT_XOR b = opAt 8 b"
  "check BIT_AND b = opAt 9 b"
  "(check SHL b \<or> check SHR b \<or> check SAR b) = opAt 10 b"
  "(check ADD b \<or> check SUB b) = opAt 11 b"
  "(check MUL b \<or> check DIV b \<or> check MOD b) = opAt 12 b"
  "check EXP b = opAt 13 b"
  "isAssignmentOperator b = opAt 1 b"
  by (auto simp: opAt_def check_def isAssignmentOperator_def table_level_def tokdefs)

lemma opAt_funs:
  "check OR = opAt 3" "check AND = opAt 4" "check BIT_OR = opAt 7" "check BIT_XOR = opAt 8"
  "check BIT_AND = opAt 9"
  by (simp_all add: fun_eq_iff opAt_conds)

lemma stop_token_not:
  assumes "stop_token t"
  shows "t \<noteq> INC" "t \<noteq> DEC" "t \<noteq> PERIOD" "t \<noteq> LBRACK" "t \<noteq> LPAREN" "t \<noteq> LBRACE"
    "t \<noteq> QUESTION"
  using assms by (auto simp: stop_token_def table_level_def tokdefs split: if_splits)

lemma leftLevel_0:
  assumes "sub (Suc n) b = Some (x, b1)" and "\<not> c b1"
  shows "leftLevel c sub (Suc n) b = Some (x, b1)"
  using assms by (simp add: leftLevel_def)

lemma leftLevel_1:
  assumes "sub (Suc (Suc n)) b = Some (x, b1)" and "c b1"
    and "sub (Suc (Suc n)) (snd (advance b1)) = Some (y, b2)" and "\<not> c b2"
  shows "leftLevel c sub (Suc (Suc n)) b =
           Some (BinaryOperation (Value (fst (advance b1))) x y, b2)"
  using assms by (simp add: leftLevel_def split_beta)

lemma leftLevel_2:
  assumes "sub (Suc (Suc (Suc n))) b = Some (x, b1)" and "c b1"
    and "sub (Suc (Suc (Suc n))) (snd (advance b1)) = Some (y, b2)" and "c b2"
    and "sub (Suc (Suc (Suc n))) (snd (advance b2)) = Some (z, b3)" and "\<not> c b3"
  shows "leftLevel c sub (Suc (Suc (Suc n))) b =
           Some (BinaryOperation (Value (fst (advance b2)))
                   (BinaryOperation (Value (fst (advance b1))) x y) z, b3)"
  using assms by (simp add: leftLevel_def split_beta)

lemma level_parser_left:
  assumes "3 \<le> k" and "k \<le> 12"
  shows "level_parser k (Suc n) = leftLevel (opAt k) (level_parser (Suc k)) n"
proof -
  from assms have "k = 3 \<or> k = 4 \<or> k = 5 \<or> k = 6 \<or> k = 7 \<or> k = 8 \<or> k = 9 \<or> k = 10 \<or>
      k = 11 \<or> k = 12"
    by presburger
  then show ?thesis
    by (elim disjE)
      (simp_all add: level_parser_def leftLevel_def fun_eq_iff parse_Suc parse_rec
         parseLogicalOr_body_def parseLogicalAnd_body_def parseEquality_body_def
         parseRelational_body_def parseBitwiseOr_body_def parseBitwiseXor_body_def
         parseBitwiseAnd_body_def parseShift_body_def parseAdditive_body_def
         parseMultiplicative_body_def opAt_conds opAt_funs)
qed

lemma level_parser_13:
  "level_parser 13 (Suc n) b = do {
     (left, b) \<leftarrow> level_parser 14 n b;
     if opAt 13 b
     then do {
       let (opTok, b) = advance b;
       (right, b) \<leftarrow> level_parser 13 n b;
       Some (BinaryOperation (Value opTok) left right, b)
     }
     else Some (left, b)
   }"
  by (simp add: level_parser_def parse_Suc parse_rec parseExponentiation_body_def opAt_conds
        cong: if_cong)

text \<open>The builder with its cursor at a given token.\<close>

lemma at_pos:
  assumes "p < length (tokens b)"
  shows "peek (b\<lparr>pos := p\<rparr>) = tokens b ! p"
    and "isAtEnd (b\<lparr>pos := p\<rparr>) \<longleftrightarrow> Type (tokens b ! p) = EOF"
    and "check t (b\<lparr>pos := p\<rparr>) \<longleftrightarrow> Type (tokens b ! p) \<noteq> EOF \<and> Type (tokens b ! p) = t"
    and "opAt k (b\<lparr>pos := p\<rparr>) \<longleftrightarrow>
           Type (tokens b ! p) \<noteq> EOF \<and> table_level (Type (tokens b ! p)) = k"
    and "Type (tokens b ! p) \<noteq> EOF \<Longrightarrow> advance (b\<lparr>pos := p\<rparr>) = (tokens b ! p, b\<lparr>pos := Suc p\<rparr>)"
  using assms
  by (simp_all add: peek_def isAtEnd_def check_def opAt_def advance_def previous_def Let_def)

lemma table_level_EOF: "table_level EOF = 0"
  by (simp add: table_level_def tokdefs)

lemma operator_not_EOF: "table_level t \<noteq> 0 \<Longrightarrow> t \<noteq> EOF"
  using table_level_EOF by auto

lemma unary_atom_Suc:
  assumes "Suc p < length (tokens b)" and "Type (tokens b ! p) = IDENTIFIER"
    and "stop_token (Type (tokens b ! Suc p))"
  shows "parseUnary (Suc (Suc (Suc (Suc m)))) (b\<lparr>pos := p\<rparr>) =
           Some (Identifier (Value (tokens b ! p)), b\<lparr>pos := Suc p\<rparr>)"
proof -
  have p: "p < length (tokens b)" using assms(1) by simp
  have ne: "Type (tokens b ! p) \<noteq> EOF" using assms(2) by (simp add: tokdefs)
  show ?thesis
    using assms(2) stop_token_not [OF assms(3)]
    by (simp add: parse_Suc parse_rec parseUnary_body_def parsePostfix_body_def
        parseCallMemberIndex_body_def parsePrimary_body_def at_pos [OF p] at_pos [OF assms(1)]
        ne Let_def tokdefs)
qed

lemma unary_atom:
  assumes "Suc p < length (tokens b)" and "Type (tokens b ! p) = IDENTIFIER"
    and "stop_token (Type (tokens b ! Suc p))" and "4 \<le> n"
  shows "parseUnary n (b\<lparr>pos := p\<rparr>) =
           Some (Identifier (Value (tokens b ! p)), b\<lparr>pos := Suc p\<rparr>)"
proof -
  from \<open>4 \<le> n\<close> have "n = Suc (Suc (Suc (Suc (n - 4))))" by simp
  then show ?thesis
    using unary_atom_Suc [OF assms(1-3), of "n - 4"] by simp
qed

lemma level_parser_14: "14 \<le> k \<Longrightarrow> level_parser k = parseUnary"
  by (simp add: level_parser_def)

lemma stop_at_atom:
  assumes cfg: "Suc p < length (tokens b)" "Type (tokens b ! p) = IDENTIFIER"
    "stop_token (Type (tokens b ! Suc p))"
  shows "table_level (Type (tokens b ! Suc p)) < k \<Longrightarrow> 3 \<le> k \<Longrightarrow> k \<le> 14 \<Longrightarrow> 18 \<le> n + k \<Longrightarrow>
         level_parser k n (b\<lparr>pos := p\<rparr>) =
           Some (Identifier (Value (tokens b ! p)), b\<lparr>pos := Suc p\<rparr>)"
proof (induction "14 - k" arbitrary: k n)
  case 0
  then have "k = 14" and "4 \<le> n" by simp_all
  then show ?case using unary_atom [OF cfg] by (simp add: level_parser_14)
next
  case (Suc d)
  then have k: "k \<le> 13" and n: "n = Suc (Suc (n - 2))" by simp_all
  have sub: "level_parser (Suc k) (Suc (n - 2)) (b\<lparr>pos := p\<rparr>) =
               Some (Identifier (Value (tokens b ! p)), b\<lparr>pos := Suc p\<rparr>)"
    using Suc.hyps(2) Suc.prems by (intro Suc.hyps(1)) simp_all
  have nc: "\<not> opAt k (b\<lparr>pos := Suc p\<rparr>)"
    using Suc.prems(1) by (simp add: at_pos [OF cfg(1)])
  show ?case
  proof (cases "k = 13")
    case True
    show ?thesis
      apply (subst n)
      unfolding True
      apply (subst level_parser_13)
      using nc unfolding True
      apply (simp add: sub [unfolded True, simplified])
      done
  next
    case False
    with k Suc.prems have "3 \<le> k" "k \<le> 12" by simp_all
    from level_parser_left [OF this]
    have "level_parser k (Suc (Suc (n - 2))) = leftLevel (opAt k) (level_parser (Suc k)) (Suc (n - 2))" .
    then show ?thesis
      apply (subst n)
      using leftLevel_0 [where sub = "level_parser (Suc k)" and c = "opAt k", OF sub nc] by simp
  qed
qed

lemma two_operands:
  assumes cfg: "Suc (Suc (Suc p)) < length (tokens b)" "Type (tokens b ! p) = IDENTIFIER"
    "Type (tokens b ! (Suc (Suc p))) = IDENTIFIER" "table_level (Type (tokens b ! Suc p)) = j"
    "stop_token (Type (tokens b ! (Suc (Suc (Suc p)))))" "j \<le> 13"
  shows "table_level (Type (tokens b ! (Suc (Suc (Suc p))))) < k \<Longrightarrow> 3 \<le> k \<Longrightarrow> k \<le> j \<Longrightarrow> 20 \<le> n + k \<Longrightarrow>
         level_parser k n (b\<lparr>pos := p\<rparr>) =
           Some (BinaryOperation (Value (tokens b ! Suc p)) (Identifier (Value (tokens b ! p)))
                   (Identifier (Value (tokens b ! (Suc (Suc p))))), b\<lparr>pos := Suc (Suc (Suc p))\<rparr>)"
proof (induction "j - k" arbitrary: k n)
  case 0
  then have kj: "k = j" and n: "n = Suc (Suc (Suc (n - 3)))" using cfg(6) by simp_all
  have j0: "table_level (Type (tokens b ! Suc p)) \<noteq> 0" using cfg(4) 0 by simp
  then have st1: "stop_token (Type (tokens b ! Suc p))" by (simp add: stop_token_def)
  have ne1: "Type (tokens b ! Suc p) \<noteq> EOF" using j0 by (rule operator_not_EOF)
  have l1: "Suc p < length (tokens b)" and l2: "Suc (Suc (Suc p)) < length (tokens b)"
    and l3: "Suc (Suc (Suc p)) < length (tokens b)" and l2': "Suc (Suc p) < length (tokens b)"
    using cfg(1) by simp_all
  have c1: "opAt j (b\<lparr>pos := Suc p\<rparr>)"
    using cfg(4) ne1 by (simp add: at_pos [OF l1])
  have adv: "advance (b\<lparr>pos := Suc p\<rparr>) = (tokens b ! Suc p, b\<lparr>pos := Suc (Suc p)\<rparr>)"
    using ne1 by (simp add: at_pos [OF l1])
  have c3: "\<not> opAt j (b\<lparr>pos := Suc (Suc (Suc p))\<rparr>)"
    using 0 kj by (simp add: at_pos [OF l3])
  have st3: "stop_token (Type (tokens b ! Suc (Suc (Suc p))))" using cfg(5) .
  have lv3: "table_level (Type (tokens b ! Suc (Suc (Suc p)))) < j"
    using 0 kj by simp
  show ?case
  proof (cases "j = 13")
    case True
    have a: "level_parser 14 (Suc (Suc (n - 3))) (b\<lparr>pos := p\<rparr>) =
               Some (Identifier (Value (tokens b ! p)), b\<lparr>pos := Suc p\<rparr>)"
      using cfg(4) True 0 by (intro stop_at_atom [OF l1 cfg(2) st1]) simp_all
    have r: "level_parser 13 (Suc (Suc (n - 3))) (b\<lparr>pos := Suc (Suc p)\<rparr>) =
               Some (Identifier (Value (tokens b ! (Suc (Suc p)))), b\<lparr>pos := Suc (Suc (Suc p))\<rparr>)"
      using lv3 True 0 kj by (intro stop_at_atom [OF l2 cfg(3) st3]) simp_all
    show ?thesis
      apply (subst n)
      unfolding kj True
      apply (subst level_parser_13)
      using c1 c3 unfolding True
      apply (simp add: a r adv)
      done
  next
    case False
    with 0 kj cfg(6) have jr: "3 \<le> j" "j \<le> 12" by simp_all
    have a: "level_parser (Suc j) (Suc (Suc (n - 3))) (b\<lparr>pos := p\<rparr>) =
               Some (Identifier (Value (tokens b ! p)), b\<lparr>pos := Suc p\<rparr>)"
      using cfg(4) jr 0 kj by (intro stop_at_atom [OF l1 cfg(2) st1]) simp_all
    have r: "level_parser (Suc j) (Suc (Suc (n - 3))) (snd (advance (b\<lparr>pos := Suc p\<rparr>))) =
               Some (Identifier (Value (tokens b ! (Suc (Suc p)))), b\<lparr>pos := Suc (Suc (Suc p))\<rparr>)"
      unfolding adv snd_conv
      using lv3 jr 0 kj by (intro stop_at_atom [OF l2 cfg(3) st3]) simp_all
    have c3': "\<not> opAt j (b\<lparr>pos := Suc (Suc (Suc p))\<rparr>)" using c3 by simp
    from leftLevel_1 [where sub = "level_parser (Suc j)" and c = "opAt j", OF a c1 r c3']
    show ?thesis
      apply (subst n)
      unfolding kj level_parser_left [OF jr] adv by simp
  qed
next
  case (Suc d)
  then have k: "3 \<le> k" "k \<le> 12" and n: "n = Suc (Suc (n - 2))" using cfg(6) by simp_all
  have sub: "level_parser (Suc k) (Suc (n - 2)) (b\<lparr>pos := p\<rparr>) =
           Some (BinaryOperation (Value (tokens b ! Suc p)) (Identifier (Value (tokens b ! p)))
                   (Identifier (Value (tokens b ! (Suc (Suc p))))), b\<lparr>pos := Suc (Suc (Suc p))\<rparr>)"
    using Suc.hyps(2) Suc.prems by (intro Suc.hyps(1)) simp_all
  have nc: "\<not> opAt k (b\<lparr>pos := Suc (Suc (Suc p))\<rparr>)"
    using Suc.prems(1) by (simp add: at_pos [OF cfg(1)])
  show ?case
    apply (subst n)
    unfolding level_parser_left [OF k]
    using leftLevel_0 [where sub = "level_parser (Suc k)" and c = "opAt k", OF sub nc] by simp
qed

lemma pass_up:
  assumes res: "\<And>n. 22 \<le> n + j \<Longrightarrow> level_parser j n b0 = Some (x, b1)"
    and "isAtEnd b1" and "j \<le> 13"
  shows "3 \<le> k \<Longrightarrow> k \<le> j \<Longrightarrow> 22 \<le> n + k \<Longrightarrow> level_parser k n b0 = Some (x, b1)"
proof (induction "j - k" arbitrary: k n)
  case 0
  then show ?case using res by simp
next
  case (Suc d)
  then have k: "3 \<le> k" "k \<le> 12" and n: "n = Suc (Suc (n - 2))" using assms(3) by simp_all
  have sub: "level_parser (Suc k) (Suc (n - 2)) b0 = Some (x, b1)"
    using Suc.hyps(2) Suc.prems by (intro Suc.hyps(1)) simp_all
  have nc: "\<not> opAt k b1" using assms(2) by (simp add: opAt_def)
  show ?case
    apply (subst n)
    unfolding level_parser_left [OF k]
    using leftLevel_0 [where sub = "level_parser (Suc k)" and c = "opAt k", OF sub nc] by simp
qed

lemma table_level_le: "table_level t \<le> 13"
  by (simp add: table_level_def)

lemma stop_token_EOF: "stop_token EOF"
  by (simp add: stop_token_def)

lemma ternary_pass:
  assumes "parseLogicalOr n b0 = Some (x, b1)" and "\<not> check QUESTION b1"
  shows "parseTernary (Suc n) b0 = Some (x, b1)"
  using assms by (simp add: parse_Suc parse_rec parseTernary_body_def)

lemma assign_pass:
  assumes "parseTernary n b0 = Some (x, b1)" and "\<not> opAt 1 b1"
  shows "parseAssignment (Suc n) b0 = Some (x, b1)"
  using assms by (simp add: parse_Suc parse_rec parseAssignment_body_def opAt_conds)

lemma assign_step:
  assumes "parseTernary n b0 = Some (x, b1)" and "opAt 1 b1"
    and "parseAssignment n (snd (advance b1)) = Some (y, b2)"
  shows "parseAssignment (Suc n) b0 = Some (BinaryOperation (Value (fst (advance b1))) x y, b2)"
  using assms
  by (simp add: parse_Suc parse_rec parseAssignment_body_def opAt_conds split_beta)

lemma parseExpression_Suc': "parseExpression (Suc n) = parseAssignment n"
  by (simp add: fun_eq_iff parse_Suc parse_rec parseExpression_body_def)

lemma ternary_atom:
  assumes cfg: "Suc p < length (tokens b)" "Type (tokens b ! p) = IDENTIFIER"
    "stop_token (Type (tokens b ! Suc p))" "table_level (Type (tokens b ! Suc p)) < 3"
    and n: "16 \<le> n"
  shows "parseTernary n (b\<lparr>pos := p\<rparr>) =
           Some (Identifier (Value (tokens b ! p)), b\<lparr>pos := Suc p\<rparr>)"
proof -
  from n have n': "n = Suc (n - 1)" by simp
  have "level_parser 3 (n - 1) (b\<lparr>pos := p\<rparr>) =
           Some (Identifier (Value (tokens b ! p)), b\<lparr>pos := Suc p\<rparr>)"
    using n cfg(4) by (intro stop_at_atom [OF cfg(1-3)]) simp_all
  then have lo: "parseLogicalOr (n - 1) (b\<lparr>pos := p\<rparr>) =
           Some (Identifier (Value (tokens b ! p)), b\<lparr>pos := Suc p\<rparr>)"
    by (simp add: level_parser_def)
  have nq: "\<not> check QUESTION (b\<lparr>pos := Suc p\<rparr>)"
    using stop_token_not(7) [OF cfg(3)] by (simp add: at_pos [OF cfg(1)])
  show ?thesis
    by (subst n') (rule ternary_pass [OF lo nq])
qed

lemma ternary_two:
  assumes cfg: "Suc (Suc (Suc p)) < length (tokens b)" "Type (tokens b ! p) = IDENTIFIER"
    "Type (tokens b ! Suc (Suc p)) = IDENTIFIER" "table_level (Type (tokens b ! Suc p)) = j"
    "stop_token (Type (tokens b ! Suc (Suc (Suc p))))"
    "table_level (Type (tokens b ! Suc (Suc (Suc p)))) < 3" "3 \<le> j"
    and n: "18 \<le> n"
  shows "parseTernary n (b\<lparr>pos := p\<rparr>) =
           Some (BinaryOperation (Value (tokens b ! Suc p)) (Identifier (Value (tokens b ! p)))
                   (Identifier (Value (tokens b ! Suc (Suc p)))), b\<lparr>pos := Suc (Suc (Suc p))\<rparr>)"
proof -
  from n have n': "n = Suc (n - 1)" by simp
  have j: "j \<le> 13" using cfg(4) table_level_le by auto
  have "level_parser 3 (n - 1) (b\<lparr>pos := p\<rparr>) =
           Some (BinaryOperation (Value (tokens b ! Suc p)) (Identifier (Value (tokens b ! p)))
                   (Identifier (Value (tokens b ! Suc (Suc p)))), b\<lparr>pos := Suc (Suc (Suc p))\<rparr>)"
    using n cfg(6,7) by (intro two_operands [OF cfg(1-5) j]) simp_all
  then have lo: "parseLogicalOr (n - 1) (b\<lparr>pos := p\<rparr>) =
           Some (BinaryOperation (Value (tokens b ! Suc p)) (Identifier (Value (tokens b ! p)))
                   (Identifier (Value (tokens b ! Suc (Suc p)))), b\<lparr>pos := Suc (Suc (Suc p))\<rparr>)"
    by (simp add: level_parser_def)
  have nq: "\<not> check QUESTION (b\<lparr>pos := Suc (Suc (Suc p))\<rparr>)"
    using stop_token_not(7) [OF cfg(5)] by (simp add: at_pos [OF cfg(1)])
  show ?thesis
    by (subst n') (rule ternary_pass [OF lo nq])
qed

text \<open>Three identifiers with two binary operators between them, and the end of the tokens.\<close>

definition three_operands :: "Builder \<Rightarrow> Token \<Rightarrow> Token \<Rightarrow> Token \<Rightarrow> Token \<Rightarrow> Token \<Rightarrow> Token \<Rightarrow> bool" where
  "three_operands b a o1 x o2 c e \<longleftrightarrow>
     tokens b = [a, o1, x, o2, c, e] \<and> Type a = IDENTIFIER \<and> Type x = IDENTIFIER \<and>
     Type c = IDENTIFIER \<and> table_level (Type o1) \<noteq> 0 \<and> table_level (Type o2) \<noteq> 0 \<and>
     Type e = EOF"

lemma three_operands_tokens:
  assumes "three_operands b a o1 x o2 c e"
  shows "tokens b ! 0 = a" "tokens b ! Suc 0 = o1" "tokens b ! Suc (Suc 0) = x"
    "tokens b ! Suc (Suc (Suc 0)) = o2" "tokens b ! Suc (Suc (Suc (Suc 0))) = c"
    "tokens b ! Suc (Suc (Suc (Suc (Suc 0)))) = e"
    "length (tokens b) = Suc (Suc (Suc (Suc (Suc (Suc 0)))))"
  using assms by (simp_all add: three_operands_def)

lemma three_operands_kinds:
  assumes "three_operands b a o1 x o2 c e"
  shows "Type a = IDENTIFIER" "Type x = IDENTIFIER" "Type c = IDENTIFIER"
    "stop_token (Type o1)" "stop_token (Type o2)" "stop_token (Type e)"
    "Type o1 \<noteq> EOF" "Type o2 \<noteq> EOF" "Type e = EOF" "table_level (Type e) = 0"
    "table_level (Type o1) \<le> 13" "table_level (Type o2) \<le> 13"
  using assms
  by (auto simp: three_operands_def stop_token_def table_level_EOF table_level_le
      dest: operator_not_EOF)

lemma three_at_end:
  assumes "three_operands b a o1 x o2 c e"
  shows "isAtEnd (b\<lparr>pos := Suc (Suc (Suc (Suc (Suc 0))))\<rparr>)"
    "\<not> opAt k (b\<lparr>pos := Suc (Suc (Suc (Suc (Suc 0))))\<rparr>)"
    "\<not> check t (b\<lparr>pos := Suc (Suc (Suc (Suc (Suc 0))))\<rparr>)"
  using three_operands_tokens [OF assms] three_operands_kinds(9) [OF assms]
  by (simp_all add: at_pos)

lemma three_adv:
  assumes "three_operands b a o1 x o2 c e"
  shows "opAt (table_level (Type o1)) (b\<lparr>pos := Suc 0\<rparr>)"
    "advance (b\<lparr>pos := Suc 0\<rparr>) = (o1, b\<lparr>pos := Suc (Suc 0)\<rparr>)"
    "opAt (table_level (Type o2)) (b\<lparr>pos := Suc (Suc (Suc 0))\<rparr>)"
    "advance (b\<lparr>pos := Suc (Suc (Suc 0))\<rparr>) = (o2, b\<lparr>pos := Suc (Suc (Suc (Suc 0)))\<rparr>)"
    "opAt k (b\<lparr>pos := Suc 0\<rparr>) \<longleftrightarrow> table_level (Type o1) = k"
    "opAt k (b\<lparr>pos := Suc (Suc (Suc 0))\<rparr>) \<longleftrightarrow> table_level (Type o2) = k"
  using three_operands_tokens [OF assms] three_operands_kinds(7,8) [OF assms]
  by (simp_all add: at_pos)

text \<open>The three atoms, each stopping at the token after it.\<close>

lemma three_atoms:
  assumes t: "three_operands b a o1 x o2 c e" and k: "3 \<le> k" "k \<le> 14" "18 \<le> n + k"
  shows "table_level (Type o1) < k \<Longrightarrow>
           level_parser k n (b\<lparr>pos := 0\<rparr>) = Some (Identifier (Value a), b\<lparr>pos := Suc 0\<rparr>)"
    and "table_level (Type o2) < k \<Longrightarrow>
           level_parser k n (b\<lparr>pos := Suc (Suc 0)\<rparr>) =
             Some (Identifier (Value x), b\<lparr>pos := Suc (Suc (Suc 0))\<rparr>)"
    and "level_parser k n (b\<lparr>pos := Suc (Suc (Suc (Suc 0)))\<rparr>) =
             Some (Identifier (Value c), b\<lparr>pos := Suc (Suc (Suc (Suc (Suc 0))))\<rparr>)"
  using stop_at_atom [of 0 b k n] stop_at_atom [of "Suc (Suc 0)" b k n]
    stop_at_atom [of "Suc (Suc (Suc (Suc 0)))" b k n]
    three_operands_tokens [OF t] three_operands_kinds [OF t] k
  by simp_all

text \<open>The two pairs, each stopping at the token after it.\<close>

lemma three_pairs:
  assumes t: "three_operands b a o1 x o2 c e" and k: "3 \<le> k" "20 \<le> n + k"
  shows "table_level (Type o2) < k \<Longrightarrow> k \<le> table_level (Type o1) \<Longrightarrow>
           level_parser k n (b\<lparr>pos := 0\<rparr>) =
             Some (BinaryOperation (Value o1) (Identifier (Value a)) (Identifier (Value x)),
                   b\<lparr>pos := Suc (Suc (Suc 0))\<rparr>)"
    and "k \<le> table_level (Type o2) \<Longrightarrow>
           level_parser k n (b\<lparr>pos := Suc (Suc 0)\<rparr>) =
             Some (BinaryOperation (Value o2) (Identifier (Value x)) (Identifier (Value c)),
                   b\<lparr>pos := Suc (Suc (Suc (Suc (Suc 0))))\<rparr>)"
  using two_operands [of 0 b "table_level (Type o1)" k n]
    two_operands [of "Suc (Suc 0)" b "table_level (Type o2)" k n]
    three_operands_tokens [OF t] three_operands_kinds [OF t] k
  by simp_all

lemma three_at_level:
  assumes t: "three_operands b a o1 x o2 c e"
    and k1: "3 \<le> table_level (Type o1)" and k2: "3 \<le> table_level (Type o2)"
    and n: "19 \<le> n"
  shows "parseLogicalOr n (b\<lparr>pos := 0\<rparr>) =
           Some (table_tree a o1 x o2 c, b\<lparr>pos := Suc (Suc (Suc (Suc (Suc 0))))\<rparr>)"
proof -
  let ?K1 = "table_level (Type o1)" and ?K2 = "table_level (Type o2)"
  let ?B0 = "b\<lparr>pos := 0\<rparr>" and ?B1 = "b\<lparr>pos := Suc 0\<rparr>"
  let ?B3 = "b\<lparr>pos := Suc (Suc (Suc 0))\<rparr>"
  let ?END = "b\<lparr>pos := Suc (Suc (Suc (Suc (Suc 0))))\<rparr>"
  let ?A = "Identifier (Value a)" and ?X = "Identifier (Value x)" and ?C = "Identifier (Value c)"
  note le = three_operands_kinds(11,12) [OF t]
  note adv = three_adv [OF t]
  note fin = three_at_end [OF t]
  have up: "level_parser 3 n ?B0 = Some (r, ?END)"
    if "\<And>m. 22 \<le> m + k \<Longrightarrow> level_parser k m ?B0 = Some (r, ?END)" and "3 \<le> k" and "k \<le> 13"
    for r k
    using that n by (intro pass_up [where j = k and k = 3, OF _ fin(1)]) simp_all
  have "level_parser 3 n ?B0 = Some (table_tree a o1 x o2 c, ?END)"
  proof -
    consider (lt) "?K1 < ?K2" | (eq) "?K1 = ?K2" "?K1 \<le> 12" | (exp) "?K1 = 13" "?K2 = 13"
      | (gt) "?K2 < ?K1"
      using le by linarith
    then show ?thesis
    proof cases
      case lt
      then have k: "3 \<le> ?K1" "?K1 \<le> 12" using k1 le by simp_all
      have tree: "table_tree a o1 x o2 c = BinaryOperation (Value o1) ?A (BinaryOperation (Value o2) ?X ?C)"
        using lt by (simp add: table_tree_def groups_right_def)
      have "level_parser ?K1 m ?B0 = Some (table_tree a o1 x o2 c, ?END)" if m: "22 \<le> m + ?K1" for m
      proof -
        from m k have m': "m = Suc (Suc (Suc (m - 3)))" by simp
        have l: "level_parser (Suc ?K1) (Suc (Suc (m - 3))) ?B0 = Some (?A, ?B1)"
          using m k by (intro three_atoms(1) [OF t]) simp_all
        have r: "level_parser (Suc ?K1) (Suc (Suc (m - 3))) (snd (advance ?B1)) =
                   Some (BinaryOperation (Value o2) ?X ?C, ?END)"
          unfolding adv(2) snd_conv
          using m k lt by (intro three_pairs(2) [OF t]) simp_all
        from leftLevel_1 [where sub = "level_parser (Suc ?K1)" and c = "opAt ?K1",
            OF l adv(1) r fin(2)]
        show ?thesis
          by (subst m') (simp add: level_parser_left [OF k] adv(2) tree)
      qed
      then show ?thesis using k by (intro up [where k = ?K1]) simp_all
    next
      case eq
      then have k: "3 \<le> ?K1" "?K1 \<le> 12" using k1 by simp_all
      have tree: "table_tree a o1 x o2 c = BinaryOperation (Value o2) (BinaryOperation (Value o1) ?A ?X) ?C"
        using eq k1 by (simp add: table_tree_def groups_right_def table_right_assoc_def)
      have "level_parser ?K1 m ?B0 = Some (table_tree a o1 x o2 c, ?END)" if m: "22 \<le> m + ?K1" for m
      proof -
        from m k have m': "m = Suc (Suc (Suc (Suc (m - 4))))" by simp
        have l: "level_parser (Suc ?K1) (Suc (Suc (Suc (m - 4)))) ?B0 = Some (?A, ?B1)"
          using m k by (intro three_atoms(1) [OF t]) simp_all
        have r: "level_parser (Suc ?K1) (Suc (Suc (Suc (m - 4)))) (snd (advance ?B1)) = Some (?X, ?B3)"
          unfolding adv(2) snd_conv
          using m k eq by (intro three_atoms(2) [OF t]) simp_all
        have c2: "opAt ?K1 ?B3" using adv(3) eq by simp
        have z: "level_parser (Suc ?K1) (Suc (Suc (Suc (m - 4)))) (snd (advance ?B3)) = Some (?C, ?END)"
          unfolding adv(4) snd_conv
          using m k by (intro three_atoms(3) [OF t]) simp_all
        from leftLevel_2 [where sub = "level_parser (Suc ?K1)" and c = "opAt ?K1",
            OF l adv(1) r c2 z fin(2)]
        show ?thesis
          apply (subst m')
          apply (subst level_parser_left [OF k])
          apply (simp add: adv(2,4) tree)
          done
      qed
      then show ?thesis using k by (intro up [where k = ?K1]) simp_all
    next
      case exp
      have tree: "table_tree a o1 x o2 c = BinaryOperation (Value o1) ?A (BinaryOperation (Value o2) ?X ?C)"
        using exp by (simp add: table_tree_def groups_right_def table_right_assoc_def)
      have "level_parser 13 m ?B0 = Some (table_tree a o1 x o2 c, ?END)" if m: "22 \<le> m + 13" for m
      proof -
        from m obtain m0 where m': "m = Suc m0" by (cases m) simp_all
        have l: "level_parser 14 m0 ?B0 = Some (?A, ?B1)"
          using m m' exp by (intro three_atoms(1) [OF t]) simp_all
        have r: "level_parser 13 m0 (b\<lparr>pos := Suc (Suc 0)\<rparr>) =
                   Some (BinaryOperation (Value o2) ?X ?C, ?END)"
          using m m' exp by (intro three_pairs(2) [OF t]) simp_all
        have c1: "opAt 13 ?B1" using adv(1) exp by simp
        show ?thesis
          apply (subst m')
          apply (subst level_parser_13)
          apply (simp add: l c1 adv(2) r tree)
          done
      qed
      then show ?thesis by (intro up [where k = 13]) simp_all
    next
      case gt
      then have k: "3 \<le> ?K2" "?K2 \<le> 12" using k2 le by simp_all
      have tree: "table_tree a o1 x o2 c = BinaryOperation (Value o2) (BinaryOperation (Value o1) ?A ?X) ?C"
        using gt by (simp add: table_tree_def groups_right_def)
      have "level_parser ?K2 m ?B0 = Some (table_tree a o1 x o2 c, ?END)" if m: "22 \<le> m + ?K2" for m
      proof -
        from m k have m': "m = Suc (Suc (Suc (m - 3)))" by simp
        have l: "level_parser (Suc ?K2) (Suc (Suc (m - 3))) ?B0 =
                   Some (BinaryOperation (Value o1) ?A ?X, ?B3)"
          using m k gt by (intro three_pairs(1) [OF t]) simp_all
        have r: "level_parser (Suc ?K2) (Suc (Suc (m - 3))) (snd (advance ?B3)) = Some (?C, ?END)"
          unfolding adv(4) snd_conv
          using m k by (intro three_atoms(3) [OF t]) simp_all
        from leftLevel_1 [where sub = "level_parser (Suc ?K2)" and c = "opAt ?K2",
            OF l adv(3) r fin(2)]
        show ?thesis
          by (subst m') (simp add: level_parser_left [OF k] adv(4) tree)
      qed
      then show ?thesis using k by (intro up [where k = ?K2]) simp_all
    qed
  qed
  then show ?thesis by (simp add: level_parser_def)
qed

lemma table_level_values: "table_level t \<in> {0, 1, 3, 4, 5, 6, 7, 8, 9, 10, 11, 12, 13}"
  by (simp add: table_level_def)

lemma table_level_low: "table_level t < 3 \<Longrightarrow> table_level t \<noteq> 0 \<Longrightarrow> table_level t = 1"
  using table_level_values [of t] by auto

lemma three_expression:
  assumes t: "three_operands b a o1 x o2 c e" and n: "25 \<le> n"
  shows "parseExpression n (b\<lparr>pos := 0\<rparr>) =
           Some (table_tree a o1 x o2 c, b\<lparr>pos := Suc (Suc (Suc (Suc (Suc 0))))\<rparr>)"
proof -
  let ?K1 = "table_level (Type o1)" and ?K2 = "table_level (Type o2)"
  let ?B0 = "b\<lparr>pos := 0\<rparr>" and ?B1 = "b\<lparr>pos := Suc 0\<rparr>"
  let ?B2 = "b\<lparr>pos := Suc (Suc 0)\<rparr>"
  let ?B3 = "b\<lparr>pos := Suc (Suc (Suc 0))\<rparr>"
  let ?B4 = "b\<lparr>pos := Suc (Suc (Suc (Suc 0)))\<rparr>"
  let ?END = "b\<lparr>pos := Suc (Suc (Suc (Suc (Suc 0))))\<rparr>"
  let ?A = "Identifier (Value a)" and ?X = "Identifier (Value x)" and ?C = "Identifier (Value c)"
  note tk = three_operands_tokens [OF t]
  note kd = three_operands_kinds [OF t]
  note adv = three_adv [OF t]
  note fin = three_at_end [OF t]
  from t have nz: "?K1 \<noteq> 0" "?K2 \<noteq> 0" by (simp_all add: three_operands_def)
  define n4 where "n4 = n - 4"
  define n3 where "n3 = Suc n4"
  define n2 where "n2 = Suc n3"
  define n1 where "n1 = Suc n2"
  from n have f: "21 \<le> n4" and n1': "n = Suc n1"
    by (simp_all add: n1_def n2_def n3_def n4_def)
  note n2 = n1_def and n3 = n2_def and n4 = n3_def
  have last: "parseAssignment (Suc m) ?B4 = Some (?C, ?END)" if "16 \<le> m" for m
  proof -
    have "parseTernary m ?B4 = Some (?C, ?END)"
      using ternary_atom [of "Suc (Suc (Suc (Suc 0)))" b m] tk kd that by simp
    then show ?thesis using fin(2) by (rule assign_pass)
  qed
  have "parseAssignment n1 ?B0 = Some (table_tree a o1 x o2 c, ?END)"
  proof -
    consider (bin) "3 \<le> ?K1" "3 \<le> ?K2" | (asg1) "?K1 = 1" | (asg2) "3 \<le> ?K1" "?K2 = 1"
      using table_level_low [of "Type o1"] table_level_low [of "Type o2"] nz by linarith
    then show ?thesis
    proof cases
      case bin
      have "parseLogicalOr n3 ?B0 = Some (table_tree a o1 x o2 c, ?END)"
        using f by (intro three_at_level [OF t bin]) (simp add: n4)
      then have "parseTernary n2 ?B0 = Some (table_tree a o1 x o2 c, ?END)"
        unfolding n3 using fin(3) by (rule ternary_pass)
      then show ?thesis
        unfolding n2 using fin(2) by (rule assign_pass)
    next
      case asg1
      have tree: "table_tree a o1 x o2 c = BinaryOperation (Value o1) ?A (BinaryOperation (Value o2) ?X ?C)"
        using asg1 nz by (auto simp: table_tree_def groups_right_def table_right_assoc_def)
      have l: "parseTernary n2 ?B0 = Some (?A, ?B1)"
        using ternary_atom [of 0 b n2] tk kd asg1 f by (simp add: n3 n4)
      have c1: "opAt 1 ?B1" using adv(1) asg1 by simp
      have r: "parseAssignment n2 (snd (advance ?B1)) = Some (BinaryOperation (Value o2) ?X ?C, ?END)"
        unfolding adv(2) snd_conv
      proof (cases "?K2 = 1")
        case True
        have l2: "parseTernary n3 ?B2 = Some (?X, ?B3)"
          using ternary_atom [of "Suc (Suc 0)" b n3] tk kd True f by (simp add: n4)
        have c2: "opAt 1 ?B3" using adv(3) True by simp
        have r2: "parseAssignment n3 (snd (advance ?B3)) = Some (?C, ?END)"
          unfolding adv(4) snd_conv n4 using f by (intro last) simp
        from assign_step [OF l2 c2 r2] show "parseAssignment n2 ?B2 =
            Some (BinaryOperation (Value o2) ?X ?C, ?END)"
          unfolding n3 by (simp add: adv(4))
      next
        case False
        then have k2: "3 \<le> ?K2" using table_level_low [of "Type o2"] nz by linarith
        have "parseTernary n3 ?B2 = Some (BinaryOperation (Value o2) ?X ?C, ?END)"
          using ternary_two [of "Suc (Suc 0)" b "?K2" n3] tk kd k2 f by (simp add: n4)
        then show "parseAssignment n2 ?B2 = Some (BinaryOperation (Value o2) ?X ?C, ?END)"
          unfolding n3 using fin(2) by (rule assign_pass)
      qed
      from assign_step [OF l c1 r] show ?thesis
        unfolding n2 by (simp add: adv(2) tree)
    next
      case asg2
      have tree: "table_tree a o1 x o2 c = BinaryOperation (Value o2) (BinaryOperation (Value o1) ?A ?X) ?C"
        using asg2 by (simp add: table_tree_def groups_right_def)
      have l: "parseTernary n2 ?B0 = Some (BinaryOperation (Value o1) ?A ?X, ?B3)"
        using ternary_two [of 0 b "?K1" n2] tk kd asg2 f by (simp add: n3 n4)
      have c1: "opAt 1 ?B3" using adv(3) asg2 by simp
      have r: "parseAssignment n2 (snd (advance ?B3)) = Some (?C, ?END)"
        unfolding adv(4) snd_conv n3 using f by (intro last) (simp add: n4)
      from assign_step [OF l c1 r] show ?thesis
        unfolding n2 by (simp add: adv(4) tree)
    qed
  qed
  then show ?thesis by (simp add: n1' parseExpression_Suc')
qed


section \<open>The claims\<close>

subsection \<open>The claim on operator precedence\<close>

definition src_sum :: string where
  "src_sum = ''a + b * c''"

lemma src_sum_length: "length src_sum = 9"
  by (simp add: src_sum_def)

lemma src_sum_nth:
  "src_sum ! 0 = CHR ''a''"
  "src_sum ! 1 = CHR '' ''"
  "src_sum ! 2 = CHR ''+''"
  "src_sum ! 3 = CHR '' ''"
  "src_sum ! 4 = CHR ''b''"
  "src_sum ! 5 = CHR '' ''"
  "src_sum ! 6 = CHR ''*''"
  "src_sum ! 7 = CHR '' ''"
  "src_sum ! 8 = CHR ''c''"
  by (simp_all add: src_sum_def del: One_nat_def)

lemma src_sum_slice: "slice src_sum i j = slice ''a + b * c'' i j"
  by (simp add: src_sum_def)

definition src_sum_toks :: "Token list" where
  "src_sum_toks = Tokenize (lex_New src_sum)"

lemma src_sum_toks_eq: "src_sum_toks =
  [\<lparr>Type = IDENTIFIER, Value = ''a'', Line = 1, Column = 0, Start = 0, End = 1\<rparr>,
   \<lparr>Type = ADD, Value = ''+'', Line = 1, Column = 2, Start = 2, End = 3\<rparr>,
   \<lparr>Type = IDENTIFIER, Value = ''b'', Line = 1, Column = 4, Start = 4, End = 5\<rparr>,
   \<lparr>Type = MUL, Value = ''*'', Line = 1, Column = 6, Start = 6, End = 7\<rparr>,
   \<lparr>Type = IDENTIFIER, Value = ''c'', Line = 1, Column = 8, Start = 8, End = 9\<rparr>,
   \<lparr>Type = EOF, Value = [], Line = 1, Column = 9, Start = 9, End = 9\<rparr>]"
  unfolding src_sum_toks_def
  by (simp add: lex_eval src_sum_length src_sum_nth src_sum_slice tokdefs del: One_nat_def split del: if_split)

lemma src_sum_toks_length: "length src_sum_toks = 6"
  by (simp add: src_sum_toks_eq)

lemma src_sum_toks_nth:
  "src_sum_toks ! 0 = \<lparr>Type = IDENTIFIER, Value = ''a'', Line = 1, Column = 0, Start = 0, End = 1\<rparr>"
  "src_sum_toks ! 1 = \<lparr>Type = ADD, Value = ''+'', Line = 1, Column = 2, Start = 2, End = 3\<rparr>"
  "src_sum_toks ! 2 = \<lparr>Type = IDENTIFIER, Value = ''b'', Line = 1, Column = 4, Start = 4, End = 5\<rparr>"
  "src_sum_toks ! 3 = \<lparr>Type = MUL, Value = ''*'', Line = 1, Column = 6, Start = 6, End = 7\<rparr>"
  "src_sum_toks ! 4 = \<lparr>Type = IDENTIFIER, Value = ''c'', Line = 1, Column = 8, Start = 8, End = 9\<rparr>"
  "src_sum_toks ! 5 = \<lparr>Type = EOF, Value = [], Line = 1, Column = 9, Start = 9, End = 9\<rparr>"
  "src_sum_toks ! Suc 0 = \<lparr>Type = ADD, Value = ''+'', Line = 1, Column = 2, Start = 2, End = 3\<rparr>"
  by (simp_all add: src_sum_toks_eq del: One_nat_def)

lemmas src_sum_eval = src_sum_toks_length src_sum_toks_nth

definition src_pow :: string where
  "src_pow = ''a ** b ** c''"

lemma src_pow_length: "length src_pow = 11"
  by (simp add: src_pow_def)

lemma src_pow_nth:
  "src_pow ! 0 = CHR ''a''"
  "src_pow ! 1 = CHR '' ''"
  "src_pow ! 2 = CHR ''*''"
  "src_pow ! 3 = CHR ''*''"
  "src_pow ! 4 = CHR '' ''"
  "src_pow ! 5 = CHR ''b''"
  "src_pow ! 6 = CHR '' ''"
  "src_pow ! 7 = CHR ''*''"
  "src_pow ! 8 = CHR ''*''"
  "src_pow ! 9 = CHR '' ''"
  "src_pow ! 10 = CHR ''c''"
  by (simp_all add: src_pow_def del: One_nat_def)

lemma src_pow_slice: "slice src_pow i j = slice ''a ** b ** c'' i j"
  by (simp add: src_pow_def)

definition src_pow_toks :: "Token list" where
  "src_pow_toks = Tokenize (lex_New src_pow)"

lemma src_pow_toks_eq: "src_pow_toks =
  [\<lparr>Type = IDENTIFIER, Value = ''a'', Line = 1, Column = 0, Start = 0, End = 1\<rparr>,
   \<lparr>Type = EXP, Value = ''**'', Line = 1, Column = 2, Start = 2, End = 4\<rparr>,
   \<lparr>Type = IDENTIFIER, Value = ''b'', Line = 1, Column = 5, Start = 5, End = 6\<rparr>,
   \<lparr>Type = EXP, Value = ''**'', Line = 1, Column = 7, Start = 7, End = 9\<rparr>,
   \<lparr>Type = IDENTIFIER, Value = ''c'', Line = 1, Column = 10, Start = 10, End = 11\<rparr>,
   \<lparr>Type = EOF, Value = [], Line = 1, Column = 11, Start = 11, End = 11\<rparr>]"
  unfolding src_pow_toks_def
  by (simp add: lex_eval src_pow_length src_pow_nth src_pow_slice tokdefs del: One_nat_def split del: if_split)

lemma src_pow_toks_length: "length src_pow_toks = 6"
  by (simp add: src_pow_toks_eq)

lemma src_pow_toks_nth:
  "src_pow_toks ! 0 = \<lparr>Type = IDENTIFIER, Value = ''a'', Line = 1, Column = 0, Start = 0, End = 1\<rparr>"
  "src_pow_toks ! 1 = \<lparr>Type = EXP, Value = ''**'', Line = 1, Column = 2, Start = 2, End = 4\<rparr>"
  "src_pow_toks ! 2 = \<lparr>Type = IDENTIFIER, Value = ''b'', Line = 1, Column = 5, Start = 5, End = 6\<rparr>"
  "src_pow_toks ! 3 = \<lparr>Type = EXP, Value = ''**'', Line = 1, Column = 7, Start = 7, End = 9\<rparr>"
  "src_pow_toks ! 4 = \<lparr>Type = IDENTIFIER, Value = ''c'', Line = 1, Column = 10, Start = 10, End = 11\<rparr>"
  "src_pow_toks ! 5 = \<lparr>Type = EOF, Value = [], Line = 1, Column = 11, Start = 11, End = 11\<rparr>"
  "src_pow_toks ! Suc 0 = \<lparr>Type = EXP, Value = ''**'', Line = 1, Column = 2, Start = 2, End = 4\<rparr>"
  by (simp_all add: src_pow_toks_eq del: One_nat_def)

lemmas src_pow_eval = src_pow_toks_length src_pow_toks_nth

definition src_sub :: string where
  "src_sub = ''a - b - c''"

lemma src_sub_length: "length src_sub = 9"
  by (simp add: src_sub_def)

lemma src_sub_nth:
  "src_sub ! 0 = CHR ''a''"
  "src_sub ! 1 = CHR '' ''"
  "src_sub ! 2 = CHR ''-''"
  "src_sub ! 3 = CHR '' ''"
  "src_sub ! 4 = CHR ''b''"
  "src_sub ! 5 = CHR '' ''"
  "src_sub ! 6 = CHR ''-''"
  "src_sub ! 7 = CHR '' ''"
  "src_sub ! 8 = CHR ''c''"
  by (simp_all add: src_sub_def del: One_nat_def)

lemma src_sub_slice: "slice src_sub i j = slice ''a - b - c'' i j"
  by (simp add: src_sub_def)

definition src_sub_toks :: "Token list" where
  "src_sub_toks = Tokenize (lex_New src_sub)"

lemma src_sub_toks_eq: "src_sub_toks =
  [\<lparr>Type = IDENTIFIER, Value = ''a'', Line = 1, Column = 0, Start = 0, End = 1\<rparr>,
   \<lparr>Type = SUB, Value = ''-'', Line = 1, Column = 2, Start = 2, End = 3\<rparr>,
   \<lparr>Type = IDENTIFIER, Value = ''b'', Line = 1, Column = 4, Start = 4, End = 5\<rparr>,
   \<lparr>Type = SUB, Value = ''-'', Line = 1, Column = 6, Start = 6, End = 7\<rparr>,
   \<lparr>Type = IDENTIFIER, Value = ''c'', Line = 1, Column = 8, Start = 8, End = 9\<rparr>,
   \<lparr>Type = EOF, Value = [], Line = 1, Column = 9, Start = 9, End = 9\<rparr>]"
  unfolding src_sub_toks_def
  by (simp add: lex_eval src_sub_length src_sub_nth src_sub_slice tokdefs del: One_nat_def split del: if_split)

lemma src_sub_toks_length: "length src_sub_toks = 6"
  by (simp add: src_sub_toks_eq)

lemma src_sub_toks_nth:
  "src_sub_toks ! 0 = \<lparr>Type = IDENTIFIER, Value = ''a'', Line = 1, Column = 0, Start = 0, End = 1\<rparr>"
  "src_sub_toks ! 1 = \<lparr>Type = SUB, Value = ''-'', Line = 1, Column = 2, Start = 2, End = 3\<rparr>"
  "src_sub_toks ! 2 = \<lparr>Type = IDENTIFIER, Value = ''b'', Line = 1, Column = 4, Start = 4, End = 5\<rparr>"
  "src_sub_toks ! 3 = \<lparr>Type = SUB, Value = ''-'', Line = 1, Column = 6, Start = 6, End = 7\<rparr>"
  "src_sub_toks ! 4 = \<lparr>Type = IDENTIFIER, Value = ''c'', Line = 1, Column = 8, Start = 8, End = 9\<rparr>"
  "src_sub_toks ! 5 = \<lparr>Type = EOF, Value = [], Line = 1, Column = 9, Start = 9, End = 9\<rparr>"
  "src_sub_toks ! Suc 0 = \<lparr>Type = SUB, Value = ''-'', Line = 1, Column = 2, Start = 2, End = 3\<rparr>"
  by (simp_all add: src_sub_toks_eq del: One_nat_def)

lemmas src_sub_eval = src_sub_toks_length src_sub_toks_nth

definition src_or :: string where
  "src_or = ''a || b == c''"

lemma src_or_length: "length src_or = 11"
  by (simp add: src_or_def)

lemma src_or_nth:
  "src_or ! 0 = CHR ''a''"
  "src_or ! 1 = CHR '' ''"
  "src_or ! 2 = CHR ''|''"
  "src_or ! 3 = CHR ''|''"
  "src_or ! 4 = CHR '' ''"
  "src_or ! 5 = CHR ''b''"
  "src_or ! 6 = CHR '' ''"
  "src_or ! 7 = CHR ''=''"
  "src_or ! 8 = CHR ''=''"
  "src_or ! 9 = CHR '' ''"
  "src_or ! 10 = CHR ''c''"
  by (simp_all add: src_or_def del: One_nat_def)

lemma src_or_slice: "slice src_or i j = slice ''a || b == c'' i j"
  by (simp add: src_or_def)

definition src_or_toks :: "Token list" where
  "src_or_toks = Tokenize (lex_New src_or)"

lemma src_or_toks_eq: "src_or_toks =
  [\<lparr>Type = IDENTIFIER, Value = ''a'', Line = 1, Column = 0, Start = 0, End = 1\<rparr>,
   \<lparr>Type = OR, Value = ''||'', Line = 1, Column = 2, Start = 2, End = 4\<rparr>,
   \<lparr>Type = IDENTIFIER, Value = ''b'', Line = 1, Column = 5, Start = 5, End = 6\<rparr>,
   \<lparr>Type = EQ, Value = ''=='', Line = 1, Column = 7, Start = 7, End = 9\<rparr>,
   \<lparr>Type = IDENTIFIER, Value = ''c'', Line = 1, Column = 10, Start = 10, End = 11\<rparr>,
   \<lparr>Type = EOF, Value = [], Line = 1, Column = 11, Start = 11, End = 11\<rparr>]"
  unfolding src_or_toks_def
  by (simp add: lex_eval src_or_length src_or_nth src_or_slice tokdefs del: One_nat_def split del: if_split)

lemma src_or_toks_length: "length src_or_toks = 6"
  by (simp add: src_or_toks_eq)

lemma src_or_toks_nth:
  "src_or_toks ! 0 = \<lparr>Type = IDENTIFIER, Value = ''a'', Line = 1, Column = 0, Start = 0, End = 1\<rparr>"
  "src_or_toks ! 1 = \<lparr>Type = OR, Value = ''||'', Line = 1, Column = 2, Start = 2, End = 4\<rparr>"
  "src_or_toks ! 2 = \<lparr>Type = IDENTIFIER, Value = ''b'', Line = 1, Column = 5, Start = 5, End = 6\<rparr>"
  "src_or_toks ! 3 = \<lparr>Type = EQ, Value = ''=='', Line = 1, Column = 7, Start = 7, End = 9\<rparr>"
  "src_or_toks ! 4 = \<lparr>Type = IDENTIFIER, Value = ''c'', Line = 1, Column = 10, Start = 10, End = 11\<rparr>"
  "src_or_toks ! 5 = \<lparr>Type = EOF, Value = [], Line = 1, Column = 11, Start = 11, End = 11\<rparr>"
  "src_or_toks ! Suc 0 = \<lparr>Type = OR, Value = ''||'', Line = 1, Column = 2, Start = 2, End = 4\<rparr>"
  by (simp_all add: src_or_toks_eq del: One_nat_def)

lemmas src_or_eval = src_or_toks_length src_or_toks_nth


text \<open>
  Claim C5. Binary operators follow the table of precedence and associativity. For every
  two binary operators \<open>o1\<close> and \<open>o2\<close> of the table (the twelve assignment operators and the
  operators of the levels 3 to 13) and all identifiers \<open>a\<close>, \<open>x\<close> and \<open>c\<close>, \<^verbatim>\<open>parseExpression\<close>
  on the tokens of \<open>a o1 x o2 c\<close> returns the tree of the table: \<open>a o1 (x o2 c)\<close> when \<open>o2\<close>
  is of a higher level than \<open>o1\<close>, or of the same level and that level associates to the
  right (the assignments and \<^verbatim>\<open>**\<close>), and \<open>(a o1 x) o2 c\<close> otherwise; it consumes the five
  tokens and records no error. In particular \<^verbatim>\<open>a + b * c\<close> is the sum of \<open>a\<close> and the product,
  and \<^verbatim>\<open>a ** b ** c\<close> nests to the right.
\<close>

theorem binary_operators_follow_table:
  assumes "Type a = IDENTIFIER" and "Type x = IDENTIFIER" and "Type c = IDENTIFIER"
    and "table_level (Type o1) \<noteq> 0" and "table_level (Type o2) \<noteq> 0"
    and "Type e = EOF" and "40 \<le> n"
  shows "parseExpression n \<lparr>tokens = [a, o1, x, o2, c, e], pos = 0, errors = es, options = opts\<rparr> =
           Some (table_tree a o1 x o2 c,
                 \<lparr>tokens = [a, o1, x, o2, c, e], pos = 5, errors = es, options = opts\<rparr>) \<and>
         map_option fst (parseExpression 40 (New src_sum None)) =
           Some (BinaryOperation ''+'' (Identifier ''a'')
                  (BinaryOperation ''*'' (Identifier ''b'') (Identifier ''c''))) \<and>
         map_option fst (parseExpression 40 (New src_pow None)) =
           Some (BinaryOperation ''**'' (Identifier ''a'')
                  (BinaryOperation ''**'' (Identifier ''b'') (Identifier ''c'')))"
proof -
  let ?b = "\<lparr>tokens = [a, o1, x, o2, c, e], pos = 0, errors = es, options = opts\<rparr>"
  have "three_operands ?b a o1 x o2 c e"
    using assms by (simp add: three_operands_def)
  from three_expression [OF this, of n] assms(7)
  have general: "parseExpression n ?b =
      Some (table_tree a o1 x o2 c,
            \<lparr>tokens = [a, o1, x, o2, c, e], pos = 5, errors = es, options = opts\<rparr>)"
    by (simp add: eval_nat_numeral)
  have sum: "map_option fst (parseExpression 40 (New src_sum None)) =
           Some (BinaryOperation ''+'' (Identifier ''a'')
                  (BinaryOperation ''*'' (Identifier ''b'') (Identifier ''c'')))"
    unfolding New_def src_sum_toks_def [symmetric]
    by (simp add: prim_eval parse_eval src_sum_eval tokdefs Let_def
          del: One_nat_def split del: if_split cong: bind_weak_cong)
  have pow: "map_option fst (parseExpression 40 (New src_pow None)) =
           Some (BinaryOperation ''**'' (Identifier ''a'')
                  (BinaryOperation ''**'' (Identifier ''b'') (Identifier ''c'')))"
    unfolding New_def src_pow_toks_def [symmetric]
    by (simp add: prim_eval parse_eval src_pow_eval tokdefs Let_def
          del: One_nat_def split del: if_split cong: bind_weak_cong)
  from general sum pow show ?thesis by simp
qed

text \<open>
  Two instances, from the source text to the tree: \<^verbatim>\<open>a - b - c\<close> nests to the left, and in
  \<^verbatim>\<open>a || b == c\<close> the comparison of the higher level is the right operand.
\<close>

theorem binary_operators_follow_table_witness:
  "map_option fst (parseExpression 40 (New src_sub None)) =
     Some (BinaryOperation ''-'' (BinaryOperation ''-'' (Identifier ''a'') (Identifier ''b''))
            (Identifier ''c'')) \<and>
   map_option fst (parseExpression 40 (New src_or None)) =
     Some (BinaryOperation ''||'' (Identifier ''a'')
            (BinaryOperation ''=='' (Identifier ''b'') (Identifier ''c'')))"
proof -
  have sub: "New src_sub None =
      \<lparr>tokens = src_sub_toks, pos = 0, errors = [],
         options = \<lparr>Tolerant = False, Loc = False, Range = False\<rparr>\<rparr>"
    by (simp add: New_def src_sub_toks_def)
  have or: "New src_or None =
      \<lparr>tokens = src_or_toks, pos = 0, errors = [],
         options = \<lparr>Tolerant = False, Loc = False, Range = False\<rparr>\<rparr>"
    by (simp add: New_def src_or_toks_def)
  have 1: "map_option fst (parseExpression 40 (New src_sub None)) =
     Some (BinaryOperation ''-'' (BinaryOperation ''-'' (Identifier ''a'') (Identifier ''b''))
            (Identifier ''c''))"
    unfolding sub src_sub_toks_eq
    by (subst binary_operators_follow_table [THEN conjunct1])
      (simp_all add: table_tree_def groups_right_def table_right_assoc_def table_level_def tokdefs)
  have 2: "map_option fst (parseExpression 40 (New src_or None)) =
     Some (BinaryOperation ''||'' (Identifier ''a'')
            (BinaryOperation ''=='' (Identifier ''b'') (Identifier ''c'')))"
    unfolding or src_or_toks_eq
    by (subst binary_operators_follow_table [THEN conjunct1])
      (simp_all add: table_tree_def groups_right_def table_right_assoc_def table_level_def tokdefs)
  from 1 2 show ?thesis by simp
qed

subsection \<open>Numeric literals\<close>

definition src_hex :: string where
  "src_hex = ''0x1_0''"

lemma src_hex_length: "length src_hex = 5"
  by (simp add: src_hex_def)

lemma src_hex_nth:
  "src_hex ! 0 = CHR ''0''"
  "src_hex ! 1 = CHR ''x''"
  "src_hex ! 2 = CHR ''1''"
  "src_hex ! 3 = CHR ''_''"
  "src_hex ! 4 = CHR ''0''"
  by (simp_all add: src_hex_def del: One_nat_def)

lemma src_hex_slice: "slice src_hex i j = slice ''0x1_0'' i j"
  by (simp add: src_hex_def)

definition src_hex_toks :: "Token list" where
  "src_hex_toks = Tokenize (lex_New src_hex)"

lemma src_hex_toks_eq: "src_hex_toks =
  [\<lparr>Type = HEX_NUMBER, Value = ''0x1_0'', Line = 1, Column = 0, Start = 0, End = 5\<rparr>,
   \<lparr>Type = EOF, Value = [], Line = 1, Column = 5, Start = 5, End = 5\<rparr>]"
  unfolding src_hex_toks_def
  by (simp add: lex_eval src_hex_length src_hex_nth src_hex_slice tokdefs del: One_nat_def split del: if_split)

lemma src_hex_toks_length: "length src_hex_toks = 2"
  by (simp add: src_hex_toks_eq)

lemma src_hex_toks_nth:
  "src_hex_toks ! 0 = \<lparr>Type = HEX_NUMBER, Value = ''0x1_0'', Line = 1, Column = 0, Start = 0, End = 5\<rparr>"
  "src_hex_toks ! 1 = \<lparr>Type = EOF, Value = [], Line = 1, Column = 5, Start = 5, End = 5\<rparr>"
  "src_hex_toks ! Suc 0 = \<lparr>Type = EOF, Value = [], Line = 1, Column = 5, Start = 5, End = 5\<rparr>"
  by (simp_all add: src_hex_toks_eq del: One_nat_def)

lemmas src_hex_eval = src_hex_toks_length src_hex_toks_nth

definition src_dec :: string where
  "src_dec = ''1_000''"

lemma src_dec_length: "length src_dec = 5"
  by (simp add: src_dec_def)

lemma src_dec_nth:
  "src_dec ! 0 = CHR ''1''"
  "src_dec ! 1 = CHR ''_''"
  "src_dec ! 2 = CHR ''0''"
  "src_dec ! 3 = CHR ''0''"
  "src_dec ! 4 = CHR ''0''"
  by (simp_all add: src_dec_def del: One_nat_def)

lemma src_dec_slice: "slice src_dec i j = slice ''1_000'' i j"
  by (simp add: src_dec_def)

definition src_dec_toks :: "Token list" where
  "src_dec_toks = Tokenize (lex_New src_dec)"

lemma src_dec_toks_eq: "src_dec_toks =
  [\<lparr>Type = NUMBER, Value = ''1000'', Line = 1, Column = 0, Start = 0, End = 5\<rparr>,
   \<lparr>Type = EOF, Value = [], Line = 1, Column = 5, Start = 5, End = 5\<rparr>]"
  unfolding src_dec_toks_def
  by (simp add: lex_eval src_dec_length src_dec_nth src_dec_slice tokdefs del: One_nat_def split del: if_split)

lemma src_dec_toks_length: "length src_dec_toks = 2"
  by (simp add: src_dec_toks_eq)

lemma src_dec_toks_nth:
  "src_dec_toks ! 0 = \<lparr>Type = NUMBER, Value = ''1000'', Line = 1, Column = 0, Start = 0, End = 5\<rparr>"
  "src_dec_toks ! 1 = \<lparr>Type = EOF, Value = [], Line = 1, Column = 5, Start = 5, End = 5\<rparr>"
  "src_dec_toks ! Suc 0 = \<lparr>Type = EOF, Value = [], Line = 1, Column = 5, Start = 5, End = 5\<rparr>"
  by (simp_all add: src_dec_toks_eq del: One_nat_def)

lemmas src_dec_eval = src_dec_toks_length src_dec_toks_nth

text \<open>
  Claim C6. The scanner removes the separating underscores from the value of a decimal
  \<^verbatim>\<open>NUMBER\<close> token, but \<^verbatim>\<open>readHexNumber\<close> keeps them: the value of the token of \<^verbatim>\<open>0x1_0\<close> is
  the lexeme as written, whereas the value of the token of \<^verbatim>\<open>1_000\<close> is \<^verbatim>\<open>1000\<close>.
\<close>

theorem hex_number_keeps_underscores:
  "map (\<lambda>t. (Type t, Value t)) (Tokenize (lex_New src_hex)) = [(HEX_NUMBER, ''0x1_0''), (EOF, [])] \<and>
   map (\<lambda>t. (Type t, Value t)) (Tokenize (lex_New src_dec)) = [(NUMBER, ''1000''), (EOF, [])]"
  unfolding src_hex_toks_def [symmetric] src_dec_toks_def [symmetric]
  by (simp add: src_hex_toks_eq src_dec_toks_eq)

subsection \<open>A statement that starts with a parenthesis\<close>

definition src_paren :: string where
  "src_paren = ''(1 + 2) * 3;''"

lemma src_paren_length: "length src_paren = 12"
  by (simp add: src_paren_def)

lemma src_paren_nth:
  "src_paren ! 0 = CHR ''(''"
  "src_paren ! 1 = CHR ''1''"
  "src_paren ! 2 = CHR '' ''"
  "src_paren ! 3 = CHR ''+''"
  "src_paren ! 4 = CHR '' ''"
  "src_paren ! 5 = CHR ''2''"
  "src_paren ! 6 = CHR '')''"
  "src_paren ! 7 = CHR '' ''"
  "src_paren ! 8 = CHR ''*''"
  "src_paren ! 9 = CHR '' ''"
  "src_paren ! 10 = CHR ''3''"
  "src_paren ! 11 = CHR '';''"
  by (simp_all add: src_paren_def del: One_nat_def)

lemma src_paren_slice: "slice src_paren i j = slice ''(1 + 2) * 3;'' i j"
  by (simp add: src_paren_def)

definition src_paren_toks :: "Token list" where
  "src_paren_toks = Tokenize (lex_New src_paren)"

lemma src_paren_toks_eq: "src_paren_toks =
  [\<lparr>Type = LPAREN, Value = ''('', Line = 1, Column = 0, Start = 0, End = 1\<rparr>,
   \<lparr>Type = NUMBER, Value = ''1'', Line = 1, Column = 1, Start = 1, End = 2\<rparr>,
   \<lparr>Type = ADD, Value = ''+'', Line = 1, Column = 3, Start = 3, End = 4\<rparr>,
   \<lparr>Type = NUMBER, Value = ''2'', Line = 1, Column = 5, Start = 5, End = 6\<rparr>,
   \<lparr>Type = RPAREN, Value = '')'', Line = 1, Column = 6, Start = 6, End = 7\<rparr>,
   \<lparr>Type = MUL, Value = ''*'', Line = 1, Column = 8, Start = 8, End = 9\<rparr>,
   \<lparr>Type = NUMBER, Value = ''3'', Line = 1, Column = 10, Start = 10, End = 11\<rparr>,
   \<lparr>Type = SEMICOLON, Value = '';'', Line = 1, Column = 11, Start = 11, End = 12\<rparr>,
   \<lparr>Type = EOF, Value = [], Line = 1, Column = 12, Start = 12, End = 12\<rparr>]"
  unfolding src_paren_toks_def
  by (simp add: lex_eval src_paren_length src_paren_nth src_paren_slice tokdefs del: One_nat_def split del: if_split)

lemma src_paren_toks_length: "length src_paren_toks = 9"
  by (simp add: src_paren_toks_eq)

lemma src_paren_toks_nth:
  "src_paren_toks ! 0 = \<lparr>Type = LPAREN, Value = ''('', Line = 1, Column = 0, Start = 0, End = 1\<rparr>"
  "src_paren_toks ! 1 = \<lparr>Type = NUMBER, Value = ''1'', Line = 1, Column = 1, Start = 1, End = 2\<rparr>"
  "src_paren_toks ! 2 = \<lparr>Type = ADD, Value = ''+'', Line = 1, Column = 3, Start = 3, End = 4\<rparr>"
  "src_paren_toks ! 3 = \<lparr>Type = NUMBER, Value = ''2'', Line = 1, Column = 5, Start = 5, End = 6\<rparr>"
  "src_paren_toks ! 4 = \<lparr>Type = RPAREN, Value = '')'', Line = 1, Column = 6, Start = 6, End = 7\<rparr>"
  "src_paren_toks ! 5 = \<lparr>Type = MUL, Value = ''*'', Line = 1, Column = 8, Start = 8, End = 9\<rparr>"
  "src_paren_toks ! 6 = \<lparr>Type = NUMBER, Value = ''3'', Line = 1, Column = 10, Start = 10, End = 11\<rparr>"
  "src_paren_toks ! 7 = \<lparr>Type = SEMICOLON, Value = '';'', Line = 1, Column = 11, Start = 11, End = 12\<rparr>"
  "src_paren_toks ! 8 = \<lparr>Type = EOF, Value = [], Line = 1, Column = 12, Start = 12, End = 12\<rparr>"
  "src_paren_toks ! Suc 0 = \<lparr>Type = NUMBER, Value = ''1'', Line = 1, Column = 1, Start = 1, End = 2\<rparr>"
  by (simp_all add: src_paren_toks_eq del: One_nat_def)

lemmas src_paren_eval = src_paren_toks_length src_paren_toks_nth

definition expr_1_plus_2 :: Node where
  "expr_1_plus_2 =
     BinaryOperation ''+'' (mkNode ''NumberLiteral'' [(''Number'', VString ''1'')])
                           (mkNode ''NumberLiteral'' [(''Number'', VString ''2'')])"

text \<open>
  Claim C4. On the statement \<^verbatim>\<open>(1 + 2) * 3;\<close> the attempt to read a tuple declaration fails,
  and the cursor is put back to the position saved after the opening parenthesis was
  consumed, not before it. \<^verbatim>\<open>parseStatement\<close> therefore returns the expression statement of
  \<^verbatim>\<open>1 + 2\<close> and records the error that a semicolon was expected at the closing
  parenthesis, whereas \<^verbatim>\<open>parseExpressionStatement\<close> on the same tokens returns the statement
  of the product and records no error.
\<close>

theorem tuple_fallback_skips_parenthesis:
  "map_option (\<lambda>(s, b). (s, errors b)) (parseStatement 40 (New src_paren None)) =
     Some (mkNode ''ExpressionStatement'' [(''Expression'', VNode expr_1_plus_2)],
           [\<lparr>Message = ''expected '' @ [CHR 0x27] @ '';'' @ [CHR 0x27] @ '', got '' @ [CHR 0x27] @ '')'' @ [CHR 0x27],
             ErrLine = 1, ErrColumn = 6\<rparr>]) \<and>
   map_option (\<lambda>(s, b). (s, errors b)) (parseExpressionStatement 40 (New src_paren None)) =
     Some (mkNode ''ExpressionStatement''
             [(''Expression'',
               VNode (BinaryOperation ''*'' expr_1_plus_2
                        (mkNode ''NumberLiteral'' [(''Number'', VString ''3'')])))],
           [])"
  unfolding New_def src_paren_toks_def [symmetric] expr_1_plus_2_def
  by (simp add: prim_eval parse_eval src_paren_eval tokdefs Let_def
        del: One_nat_def split del: if_split cong: bind_weak_cong)


subsection \<open>Inline assembly\<close>

definition src_asm :: string where
  "src_asm = ''contract C { function f() public { assembly { let x := add(1, 2) } } }''"

lemma src_asm_length: "length src_asm = 70"
  by (simp add: src_asm_def)

lemma src_asm_nth:
  "src_asm ! 0 = CHR ''c''"
  "src_asm ! 1 = CHR ''o''"
  "src_asm ! 2 = CHR ''n''"
  "src_asm ! 3 = CHR ''t''"
  "src_asm ! 4 = CHR ''r''"
  "src_asm ! 5 = CHR ''a''"
  "src_asm ! 6 = CHR ''c''"
  "src_asm ! 7 = CHR ''t''"
  "src_asm ! 8 = CHR '' ''"
  "src_asm ! 9 = CHR ''C''"
  "src_asm ! 10 = CHR '' ''"
  "src_asm ! 11 = CHR ''{''"
  "src_asm ! 12 = CHR '' ''"
  "src_asm ! 13 = CHR ''f''"
  "src_asm ! 14 = CHR ''u''"
  "src_asm ! 15 = CHR ''n''"
  "src_asm ! 16 = CHR ''c''"
  "src_asm ! 17 = CHR ''t''"
  "src_asm ! 18 = CHR ''i''"
  "src_asm ! 19 = CHR ''o''"
  "src_asm ! 20 = CHR ''n''"
  "src_asm ! 21 = CHR '' ''"
  "src_asm ! 22 = CHR ''f''"
  "src_asm ! 23 = CHR ''(''"
  "src_asm ! 24 = CHR '')''"
  "src_asm ! 25 = CHR '' ''"
  "src_asm ! 26 = CHR ''p''"
  "src_asm ! 27 = CHR ''u''"
  "src_asm ! 28 = CHR ''b''"
  "src_asm ! 29 = CHR ''l''"
  "src_asm ! 30 = CHR ''i''"
  "src_asm ! 31 = CHR ''c''"
  "src_asm ! 32 = CHR '' ''"
  "src_asm ! 33 = CHR ''{''"
  "src_asm ! 34 = CHR '' ''"
  "src_asm ! 35 = CHR ''a''"
  "src_asm ! 36 = CHR ''s''"
  "src_asm ! 37 = CHR ''s''"
  "src_asm ! 38 = CHR ''e''"
  "src_asm ! 39 = CHR ''m''"
  "src_asm ! 40 = CHR ''b''"
  "src_asm ! 41 = CHR ''l''"
  "src_asm ! 42 = CHR ''y''"
  "src_asm ! 43 = CHR '' ''"
  "src_asm ! 44 = CHR ''{''"
  "src_asm ! 45 = CHR '' ''"
  "src_asm ! 46 = CHR ''l''"
  "src_asm ! 47 = CHR ''e''"
  "src_asm ! 48 = CHR ''t''"
  "src_asm ! 49 = CHR '' ''"
  "src_asm ! 50 = CHR ''x''"
  "src_asm ! 51 = CHR '' ''"
  "src_asm ! 52 = CHR '':''"
  "src_asm ! 53 = CHR ''=''"
  "src_asm ! 54 = CHR '' ''"
  "src_asm ! 55 = CHR ''a''"
  "src_asm ! 56 = CHR ''d''"
  "src_asm ! 57 = CHR ''d''"
  "src_asm ! 58 = CHR ''(''"
  "src_asm ! 59 = CHR ''1''"
  "src_asm ! 60 = CHR '',''"
  "src_asm ! 61 = CHR '' ''"
  "src_asm ! 62 = CHR ''2''"
  "src_asm ! 63 = CHR '')''"
  "src_asm ! 64 = CHR '' ''"
  "src_asm ! 65 = CHR ''}''"
  "src_asm ! 66 = CHR '' ''"
  "src_asm ! 67 = CHR ''}''"
  "src_asm ! 68 = CHR '' ''"
  "src_asm ! 69 = CHR ''}''"
  by (simp_all add: src_asm_def del: One_nat_def)

lemma src_asm_slice: "slice src_asm i j = slice ''contract C { function f() public { assembly { let x := add(1, 2) } } }'' i j"
  by (simp add: src_asm_def)

definition src_asm_toks :: "Token list" where
  "src_asm_toks = Tokenize (lex_New src_asm)"

lemma src_asm_toks_eq: "src_asm_toks =
  [\<lparr>Type = CONTRACT, Value = ''contract'', Line = 1, Column = 0, Start = 0, End = 8\<rparr>,
   \<lparr>Type = IDENTIFIER, Value = ''C'', Line = 1, Column = 9, Start = 9, End = 10\<rparr>,
   \<lparr>Type = LBRACE, Value = ''{'', Line = 1, Column = 11, Start = 11, End = 12\<rparr>,
   \<lparr>Type = FUNCTION, Value = ''function'', Line = 1, Column = 13, Start = 13, End = 21\<rparr>,
   \<lparr>Type = IDENTIFIER, Value = ''f'', Line = 1, Column = 22, Start = 22, End = 23\<rparr>,
   \<lparr>Type = LPAREN, Value = ''('', Line = 1, Column = 23, Start = 23, End = 24\<rparr>,
   \<lparr>Type = RPAREN, Value = '')'', Line = 1, Column = 24, Start = 24, End = 25\<rparr>,
   \<lparr>Type = PUBLIC, Value = ''public'', Line = 1, Column = 26, Start = 26, End = 32\<rparr>,
   \<lparr>Type = LBRACE, Value = ''{'', Line = 1, Column = 33, Start = 33, End = 34\<rparr>,
   \<lparr>Type = ASSEMBLY, Value = ''assembly'', Line = 1, Column = 35, Start = 35, End = 43\<rparr>,
   \<lparr>Type = LBRACE, Value = ''{'', Line = 1, Column = 44, Start = 44, End = 45\<rparr>,
   \<lparr>Type = LET, Value = ''let'', Line = 1, Column = 46, Start = 46, End = 49\<rparr>,
   \<lparr>Type = IDENTIFIER, Value = ''x'', Line = 1, Column = 50, Start = 50, End = 51\<rparr>,
   \<lparr>Type = COLON, Value = '':'', Line = 1, Column = 52, Start = 52, End = 53\<rparr>,
   \<lparr>Type = ASSIGN, Value = ''='', Line = 1, Column = 53, Start = 53, End = 54\<rparr>,
   \<lparr>Type = IDENTIFIER, Value = ''add'', Line = 1, Column = 55, Start = 55, End = 58\<rparr>,
   \<lparr>Type = LPAREN, Value = ''('', Line = 1, Column = 58, Start = 58, End = 59\<rparr>,
   \<lparr>Type = NUMBER, Value = ''1'', Line = 1, Column = 59, Start = 59, End = 60\<rparr>,
   \<lparr>Type = COMMA, Value = '','', Line = 1, Column = 60, Start = 60, End = 61\<rparr>,
   \<lparr>Type = NUMBER, Value = ''2'', Line = 1, Column = 62, Start = 62, End = 63\<rparr>,
   \<lparr>Type = RPAREN, Value = '')'', Line = 1, Column = 63, Start = 63, End = 64\<rparr>,
   \<lparr>Type = RBRACE, Value = ''}'', Line = 1, Column = 65, Start = 65, End = 66\<rparr>,
   \<lparr>Type = RBRACE, Value = ''}'', Line = 1, Column = 67, Start = 67, End = 68\<rparr>,
   \<lparr>Type = RBRACE, Value = ''}'', Line = 1, Column = 69, Start = 69, End = 70\<rparr>,
   \<lparr>Type = EOF, Value = [], Line = 1, Column = 70, Start = 70, End = 70\<rparr>]"
  unfolding src_asm_toks_def
  by (simp add: lex_eval src_asm_length src_asm_nth src_asm_slice tokdefs del: One_nat_def split del: if_split)

lemma src_asm_toks_length: "length src_asm_toks = 25"
  by (simp add: src_asm_toks_eq)

lemma src_asm_toks_nth:
  "src_asm_toks ! 0 = \<lparr>Type = CONTRACT, Value = ''contract'', Line = 1, Column = 0, Start = 0, End = 8\<rparr>"
  "src_asm_toks ! 1 = \<lparr>Type = IDENTIFIER, Value = ''C'', Line = 1, Column = 9, Start = 9, End = 10\<rparr>"
  "src_asm_toks ! 2 = \<lparr>Type = LBRACE, Value = ''{'', Line = 1, Column = 11, Start = 11, End = 12\<rparr>"
  "src_asm_toks ! 3 = \<lparr>Type = FUNCTION, Value = ''function'', Line = 1, Column = 13, Start = 13, End = 21\<rparr>"
  "src_asm_toks ! 4 = \<lparr>Type = IDENTIFIER, Value = ''f'', Line = 1, Column = 22, Start = 22, End = 23\<rparr>"
  "src_asm_toks ! 5 = \<lparr>Type = LPAREN, Value = ''('', Line = 1, Column = 23, Start = 23, End = 24\<rparr>"
  "src_asm_toks ! 6 = \<lparr>Type = RPAREN, Value = '')'', Line = 1, Column = 24, Start = 24, End = 25\<rparr>"
  "src_asm_toks ! 7 = \<lparr>Type = PUBLIC, Value = ''public'', Line = 1, Column = 26, Start = 26, End = 32\<rparr>"
  "src_asm_toks ! 8 = \<lparr>Type = LBRACE, Value = ''{'', Line = 1, Column = 33, Start = 33, End = 34\<rparr>"
  "src_asm_toks ! 9 = \<lparr>Type = ASSEMBLY, Value = ''assembly'', Line = 1, Column = 35, Start = 35, End = 43\<rparr>"
  "src_asm_toks ! 10 = \<lparr>Type = LBRACE, Value = ''{'', Line = 1, Column = 44, Start = 44, End = 45\<rparr>"
  "src_asm_toks ! 11 = \<lparr>Type = LET, Value = ''let'', Line = 1, Column = 46, Start = 46, End = 49\<rparr>"
  "src_asm_toks ! 12 = \<lparr>Type = IDENTIFIER, Value = ''x'', Line = 1, Column = 50, Start = 50, End = 51\<rparr>"
  "src_asm_toks ! 13 = \<lparr>Type = COLON, Value = '':'', Line = 1, Column = 52, Start = 52, End = 53\<rparr>"
  "src_asm_toks ! 14 = \<lparr>Type = ASSIGN, Value = ''='', Line = 1, Column = 53, Start = 53, End = 54\<rparr>"
  "src_asm_toks ! 15 = \<lparr>Type = IDENTIFIER, Value = ''add'', Line = 1, Column = 55, Start = 55, End = 58\<rparr>"
  "src_asm_toks ! 16 = \<lparr>Type = LPAREN, Value = ''('', Line = 1, Column = 58, Start = 58, End = 59\<rparr>"
  "src_asm_toks ! 17 = \<lparr>Type = NUMBER, Value = ''1'', Line = 1, Column = 59, Start = 59, End = 60\<rparr>"
  "src_asm_toks ! 18 = \<lparr>Type = COMMA, Value = '','', Line = 1, Column = 60, Start = 60, End = 61\<rparr>"
  "src_asm_toks ! 19 = \<lparr>Type = NUMBER, Value = ''2'', Line = 1, Column = 62, Start = 62, End = 63\<rparr>"
  "src_asm_toks ! 20 = \<lparr>Type = RPAREN, Value = '')'', Line = 1, Column = 63, Start = 63, End = 64\<rparr>"
  "src_asm_toks ! 21 = \<lparr>Type = RBRACE, Value = ''}'', Line = 1, Column = 65, Start = 65, End = 66\<rparr>"
  "src_asm_toks ! 22 = \<lparr>Type = RBRACE, Value = ''}'', Line = 1, Column = 67, Start = 67, End = 68\<rparr>"
  "src_asm_toks ! 23 = \<lparr>Type = RBRACE, Value = ''}'', Line = 1, Column = 69, Start = 69, End = 70\<rparr>"
  "src_asm_toks ! 24 = \<lparr>Type = EOF, Value = [], Line = 1, Column = 70, Start = 70, End = 70\<rparr>"
  "src_asm_toks ! Suc 0 = \<lparr>Type = IDENTIFIER, Value = ''C'', Line = 1, Column = 9, Start = 9, End = 10\<rparr>"
  by (simp_all add: src_asm_toks_eq del: One_nat_def)

lemmas src_asm_eval = src_asm_toks_length src_asm_toks_nth

definition asm_call_add :: Node where
  "asm_call_add =
     mkNode ''AssemblyCall''
       [(''FunctionName'', VString ''add''),
        (''Arguments'',
         VList [VNode (mkNode ''AssemblyLiteral'' [(''Value'', VString ''1''), (''Kind'', VString ''number'')]),
                VNode (mkNode ''AssemblyLiteral'' [(''Value'', VString ''2''), (''Kind'', VString ''number'')])])]"

definition contract_with_body :: "Value list \<Rightarrow> Node" where
  "contract_with_body statements =
     mkNode ''SourceUnit''
       [(''Children'',
         VList [VNode (mkNode ''ContractDefinition''
           [(''Name'', VString ''C''), (''Kind'', VString ''contract''), (''BaseContracts'', VList []),
            (''SubNodes'',
             VList [VNode (mkNode ''FunctionDefinition''
               [(''Parameters'', VList []), (''Modifiers'', VList []), (''Name'', VString ''f''),
                (''Visibility'', VString ''public''),
                (''Body'', VNode (mkNode ''Block'' [(''Statements'', VList statements)]))])])])])]"

text \<open>
  Claim C2. The scanner has no token for \<^verbatim>\<open>:=\<close>: it emits \<^verbatim>\<open>COLON\<close> and \<^verbatim>\<open>ASSIGN\<close>. After
  \<^verbatim>\<open>let x\<close> the builder looks for \<^verbatim>\<open>ASSIGN\<close>, finds \<^verbatim>\<open>COLON\<close> and closes the definition without
  an expression; the assembly block then skips the two operator tokens and reads the call as
  a second operation. So on the input of the claim the block has two operations, the local
  definition of \<open>x\<close> with no expression and the call \<^verbatim>\<open>add(1, 2)\<close>, and no error is recorded.
\<close>

theorem assembly_let_loses_expression:
  "map_option (\<lambda>(r, b). (r, errors b)) (Build 100 (New src_asm None)) =
     Some ((Some (contract_with_body
              [VNode (mkNode ''InlineAssembly''
                 [(''Body'',
                   VNode (mkNode ''AssemblyBlock''
                     [(''Operations'',
                       VList [VNode (mkNode ''AssemblyLocalDefinition''
                                [(''Names'', VList [VNode (Identifier ''x'')])]),
                              VNode asm_call_add])]))])]),
            None), [])"
  unfolding New_def src_asm_toks_def [symmetric] asm_call_add_def contract_with_body_def
  by (simp add: prim_eval parse_eval src_asm_eval tokdefs Let_def
        del: One_nat_def split del: if_split cong: bind_weak_cong)

subsection \<open>Locations\<close>

definition src_loc :: string where
  "src_loc = ''contract C { uint x = a + b; }''"

lemma src_loc_length: "length src_loc = 30"
  by (simp add: src_loc_def)

lemma src_loc_nth:
  "src_loc ! 0 = CHR ''c''"
  "src_loc ! 1 = CHR ''o''"
  "src_loc ! 2 = CHR ''n''"
  "src_loc ! 3 = CHR ''t''"
  "src_loc ! 4 = CHR ''r''"
  "src_loc ! 5 = CHR ''a''"
  "src_loc ! 6 = CHR ''c''"
  "src_loc ! 7 = CHR ''t''"
  "src_loc ! 8 = CHR '' ''"
  "src_loc ! 9 = CHR ''C''"
  "src_loc ! 10 = CHR '' ''"
  "src_loc ! 11 = CHR ''{''"
  "src_loc ! 12 = CHR '' ''"
  "src_loc ! 13 = CHR ''u''"
  "src_loc ! 14 = CHR ''i''"
  "src_loc ! 15 = CHR ''n''"
  "src_loc ! 16 = CHR ''t''"
  "src_loc ! 17 = CHR '' ''"
  "src_loc ! 18 = CHR ''x''"
  "src_loc ! 19 = CHR '' ''"
  "src_loc ! 20 = CHR ''=''"
  "src_loc ! 21 = CHR '' ''"
  "src_loc ! 22 = CHR ''a''"
  "src_loc ! 23 = CHR '' ''"
  "src_loc ! 24 = CHR ''+''"
  "src_loc ! 25 = CHR '' ''"
  "src_loc ! 26 = CHR ''b''"
  "src_loc ! 27 = CHR '';''"
  "src_loc ! 28 = CHR '' ''"
  "src_loc ! 29 = CHR ''}''"
  by (simp_all add: src_loc_def del: One_nat_def)

lemma src_loc_slice: "slice src_loc i j = slice ''contract C { uint x = a + b; }'' i j"
  by (simp add: src_loc_def)

definition src_loc_toks :: "Token list" where
  "src_loc_toks = Tokenize (lex_New src_loc)"

lemma src_loc_toks_eq: "src_loc_toks =
  [\<lparr>Type = CONTRACT, Value = ''contract'', Line = 1, Column = 0, Start = 0, End = 8\<rparr>,
   \<lparr>Type = IDENTIFIER, Value = ''C'', Line = 1, Column = 9, Start = 9, End = 10\<rparr>,
   \<lparr>Type = LBRACE, Value = ''{'', Line = 1, Column = 11, Start = 11, End = 12\<rparr>,
   \<lparr>Type = UINT, Value = ''uint'', Line = 1, Column = 13, Start = 13, End = 17\<rparr>,
   \<lparr>Type = IDENTIFIER, Value = ''x'', Line = 1, Column = 18, Start = 18, End = 19\<rparr>,
   \<lparr>Type = ASSIGN, Value = ''='', Line = 1, Column = 20, Start = 20, End = 21\<rparr>,
   \<lparr>Type = IDENTIFIER, Value = ''a'', Line = 1, Column = 22, Start = 22, End = 23\<rparr>,
   \<lparr>Type = ADD, Value = ''+'', Line = 1, Column = 24, Start = 24, End = 25\<rparr>,
   \<lparr>Type = IDENTIFIER, Value = ''b'', Line = 1, Column = 26, Start = 26, End = 27\<rparr>,
   \<lparr>Type = SEMICOLON, Value = '';'', Line = 1, Column = 27, Start = 27, End = 28\<rparr>,
   \<lparr>Type = RBRACE, Value = ''}'', Line = 1, Column = 29, Start = 29, End = 30\<rparr>,
   \<lparr>Type = EOF, Value = [], Line = 1, Column = 30, Start = 30, End = 30\<rparr>]"
  unfolding src_loc_toks_def
  by (simp add: lex_eval src_loc_length src_loc_nth src_loc_slice tokdefs del: One_nat_def split del: if_split)

lemma src_loc_toks_length: "length src_loc_toks = 12"
  by (simp add: src_loc_toks_eq)

lemma src_loc_toks_nth:
  "src_loc_toks ! 0 = \<lparr>Type = CONTRACT, Value = ''contract'', Line = 1, Column = 0, Start = 0, End = 8\<rparr>"
  "src_loc_toks ! 1 = \<lparr>Type = IDENTIFIER, Value = ''C'', Line = 1, Column = 9, Start = 9, End = 10\<rparr>"
  "src_loc_toks ! 2 = \<lparr>Type = LBRACE, Value = ''{'', Line = 1, Column = 11, Start = 11, End = 12\<rparr>"
  "src_loc_toks ! 3 = \<lparr>Type = UINT, Value = ''uint'', Line = 1, Column = 13, Start = 13, End = 17\<rparr>"
  "src_loc_toks ! 4 = \<lparr>Type = IDENTIFIER, Value = ''x'', Line = 1, Column = 18, Start = 18, End = 19\<rparr>"
  "src_loc_toks ! 5 = \<lparr>Type = ASSIGN, Value = ''='', Line = 1, Column = 20, Start = 20, End = 21\<rparr>"
  "src_loc_toks ! 6 = \<lparr>Type = IDENTIFIER, Value = ''a'', Line = 1, Column = 22, Start = 22, End = 23\<rparr>"
  "src_loc_toks ! 7 = \<lparr>Type = ADD, Value = ''+'', Line = 1, Column = 24, Start = 24, End = 25\<rparr>"
  "src_loc_toks ! 8 = \<lparr>Type = IDENTIFIER, Value = ''b'', Line = 1, Column = 26, Start = 26, End = 27\<rparr>"
  "src_loc_toks ! 9 = \<lparr>Type = SEMICOLON, Value = '';'', Line = 1, Column = 27, Start = 27, End = 28\<rparr>"
  "src_loc_toks ! 10 = \<lparr>Type = RBRACE, Value = ''}'', Line = 1, Column = 29, Start = 29, End = 30\<rparr>"
  "src_loc_toks ! 11 = \<lparr>Type = EOF, Value = [], Line = 1, Column = 30, Start = 30, End = 30\<rparr>"
  "src_loc_toks ! Suc 0 = \<lparr>Type = IDENTIFIER, Value = ''C'', Line = 1, Column = 9, Start = 9, End = 10\<rparr>"
  by (simp_all add: src_loc_toks_eq del: One_nat_def)

lemmas src_loc_eval = src_loc_toks_length src_loc_toks_nth

definition all_locations :: Options where
  "all_locations = \<lparr>Tolerant = False, Loc = True, Range = True\<rparr>"

text \<open>
  Claim C1. With both \<^verbatim>\<open>Loc\<close> and \<^verbatim>\<open>Range\<close> switched on, the tree of
  \<^verbatim>\<open>contract C { uint x = a + b; }\<close> has a root \<^verbatim>\<open>SourceUnit\<close> with a location but no range
  (\<^verbatim>\<open>Build\<close> sets only \<^verbatim>\<open>Loc\<close>), and its \<^verbatim>\<open>BinaryOperation\<close> and its three \<^verbatim>\<open>Identifier\<close> nodes
  have neither: the expression functions never call \<^verbatim>\<open>setLocation\<close>. The contract, the
  declarations and the type name carry both.
\<close>

theorem expression_nodes_have_no_location:
  "map_option fst (Build 100 (New src_loc (Some all_locations))) =
     Some (Some (Node ''SourceUnit'' (Some (Location (Position 1 0) (Position 1 30))) None
       [(''Children'',
         VList [VNode (Node ''ContractDefinition''
           (Some (Location (Position 1 0) (Position 1 30))) (Some (0, 30))
           [(''Name'', VString ''C''), (''Kind'', VString ''contract''), (''BaseContracts'', VList []),
            (''SubNodes'',
             VList [VNode (Node ''StateVariableDeclaration''
               (Some (Location (Position 1 13) (Position 1 28))) (Some (13, 28))
               [(''Variables'',
                 VList [VNode (Node ''VariableDeclaration''
                   (Some (Location (Position 1 13) (Position 1 28))) (Some (13, 28))
                   [(''TypeName'',
                     VNode (Node ''ElementaryTypeName''
                       (Some (Location (Position 1 13) (Position 1 17))) (Some (13, 17))
                       [(''Name'', VString ''uint'')])),
                    (''IsStateVar'', VBool True),
                    (''Name'', VString ''x''),
                    (''Identifier'', VNode (Node ''Identifier'' None None [(''Name'', VString ''x'')]))])]),
                (''InitialValue'',
                 VNode (Node ''BinaryOperation'' None None
                   [(''Operator'', VString ''+''),
                    (''Left'', VNode (Node ''Identifier'' None None [(''Name'', VString ''a'')])),
                    (''Right'', VNode (Node ''Identifier'' None None [(''Name'', VString ''b'')]))]))])])])])]),
           None)"
  unfolding New_def src_loc_toks_def [symmetric] all_locations_def
  by (simp add: prim_eval parse_eval src_loc_eval tokdefs Let_def
        del: One_nat_def split del: if_split cong: bind_weak_cong)

subsection \<open>Function definitions\<close>

definition src_anon :: string where
  "src_anon = ''contract C { function () {} }''"

lemma src_anon_length: "length src_anon = 29"
  by (simp add: src_anon_def)

lemma src_anon_nth:
  "src_anon ! 0 = CHR ''c''"
  "src_anon ! 1 = CHR ''o''"
  "src_anon ! 2 = CHR ''n''"
  "src_anon ! 3 = CHR ''t''"
  "src_anon ! 4 = CHR ''r''"
  "src_anon ! 5 = CHR ''a''"
  "src_anon ! 6 = CHR ''c''"
  "src_anon ! 7 = CHR ''t''"
  "src_anon ! 8 = CHR '' ''"
  "src_anon ! 9 = CHR ''C''"
  "src_anon ! 10 = CHR '' ''"
  "src_anon ! 11 = CHR ''{''"
  "src_anon ! 12 = CHR '' ''"
  "src_anon ! 13 = CHR ''f''"
  "src_anon ! 14 = CHR ''u''"
  "src_anon ! 15 = CHR ''n''"
  "src_anon ! 16 = CHR ''c''"
  "src_anon ! 17 = CHR ''t''"
  "src_anon ! 18 = CHR ''i''"
  "src_anon ! 19 = CHR ''o''"
  "src_anon ! 20 = CHR ''n''"
  "src_anon ! 21 = CHR '' ''"
  "src_anon ! 22 = CHR ''(''"
  "src_anon ! 23 = CHR '')''"
  "src_anon ! 24 = CHR '' ''"
  "src_anon ! 25 = CHR ''{''"
  "src_anon ! 26 = CHR ''}''"
  "src_anon ! 27 = CHR '' ''"
  "src_anon ! 28 = CHR ''}''"
  by (simp_all add: src_anon_def del: One_nat_def)

lemma src_anon_slice: "slice src_anon i j = slice ''contract C { function () {} }'' i j"
  by (simp add: src_anon_def)

definition src_anon_toks :: "Token list" where
  "src_anon_toks = Tokenize (lex_New src_anon)"

lemma src_anon_toks_eq: "src_anon_toks =
  [\<lparr>Type = CONTRACT, Value = ''contract'', Line = 1, Column = 0, Start = 0, End = 8\<rparr>,
   \<lparr>Type = IDENTIFIER, Value = ''C'', Line = 1, Column = 9, Start = 9, End = 10\<rparr>,
   \<lparr>Type = LBRACE, Value = ''{'', Line = 1, Column = 11, Start = 11, End = 12\<rparr>,
   \<lparr>Type = FUNCTION, Value = ''function'', Line = 1, Column = 13, Start = 13, End = 21\<rparr>,
   \<lparr>Type = LPAREN, Value = ''('', Line = 1, Column = 22, Start = 22, End = 23\<rparr>,
   \<lparr>Type = RPAREN, Value = '')'', Line = 1, Column = 23, Start = 23, End = 24\<rparr>,
   \<lparr>Type = LBRACE, Value = ''{'', Line = 1, Column = 25, Start = 25, End = 26\<rparr>,
   \<lparr>Type = RBRACE, Value = ''}'', Line = 1, Column = 26, Start = 26, End = 27\<rparr>,
   \<lparr>Type = RBRACE, Value = ''}'', Line = 1, Column = 28, Start = 28, End = 29\<rparr>,
   \<lparr>Type = EOF, Value = [], Line = 1, Column = 29, Start = 29, End = 29\<rparr>]"
  unfolding src_anon_toks_def
  by (simp add: lex_eval src_anon_length src_anon_nth src_anon_slice tokdefs del: One_nat_def split del: if_split)

lemma src_anon_toks_length: "length src_anon_toks = 10"
  by (simp add: src_anon_toks_eq)

lemma src_anon_toks_nth:
  "src_anon_toks ! 0 = \<lparr>Type = CONTRACT, Value = ''contract'', Line = 1, Column = 0, Start = 0, End = 8\<rparr>"
  "src_anon_toks ! 1 = \<lparr>Type = IDENTIFIER, Value = ''C'', Line = 1, Column = 9, Start = 9, End = 10\<rparr>"
  "src_anon_toks ! 2 = \<lparr>Type = LBRACE, Value = ''{'', Line = 1, Column = 11, Start = 11, End = 12\<rparr>"
  "src_anon_toks ! 3 = \<lparr>Type = FUNCTION, Value = ''function'', Line = 1, Column = 13, Start = 13, End = 21\<rparr>"
  "src_anon_toks ! 4 = \<lparr>Type = LPAREN, Value = ''('', Line = 1, Column = 22, Start = 22, End = 23\<rparr>"
  "src_anon_toks ! 5 = \<lparr>Type = RPAREN, Value = '')'', Line = 1, Column = 23, Start = 23, End = 24\<rparr>"
  "src_anon_toks ! 6 = \<lparr>Type = LBRACE, Value = ''{'', Line = 1, Column = 25, Start = 25, End = 26\<rparr>"
  "src_anon_toks ! 7 = \<lparr>Type = RBRACE, Value = ''}'', Line = 1, Column = 26, Start = 26, End = 27\<rparr>"
  "src_anon_toks ! 8 = \<lparr>Type = RBRACE, Value = ''}'', Line = 1, Column = 28, Start = 28, End = 29\<rparr>"
  "src_anon_toks ! 9 = \<lparr>Type = EOF, Value = [], Line = 1, Column = 29, Start = 29, End = 29\<rparr>"
  "src_anon_toks ! Suc 0 = \<lparr>Type = IDENTIFIER, Value = ''C'', Line = 1, Column = 9, Start = 9, End = 10\<rparr>"
  by (simp_all add: src_anon_toks_eq del: One_nat_def)

lemmas src_anon_eval = src_anon_toks_length src_anon_toks_nth

definition function_flags :: "Node \<Rightarrow> bool \<times> bool \<times> bool" where
  "function_flags node =
     (field_bool node ''IsConstructor'', field_bool node ''IsFallback'', field_bool node ''IsReceiveEther'')"

definition anon_function :: Node where
  "anon_function =
     mkNode ''FunctionDefinition''
       [(''Parameters'', VList []), (''Modifiers'', VList []),
        (''Body'', VNode (mkNode ''Block'' [(''Statements'', VList [])]))]"

text \<open>
  Claim C7. The builder accepts a function definition without a name, the fallback
  function of older Solidity: on \<^verbatim>\<open>contract C { function () {} }\<close> it records no error and
  returns a \<^verbatim>\<open>FunctionDefinition\<close> whose name is empty and whose three flags are all false,
  so all three flags false does not tell that the node is a named function.
\<close>

theorem unnamed_function_has_no_flag:
  "map_option (\<lambda>(r, b). (r, errors b)) (Build 100 (New src_anon None)) =
     Some ((Some (mkNode ''SourceUnit''
                   [(''Children'',
                     VList [VNode (mkNode ''ContractDefinition''
                       [(''Name'', VString ''C''), (''Kind'', VString ''contract''),
                        (''BaseContracts'', VList []),
                        (''SubNodes'', VList [VNode anon_function])])])]),
            None), []) \<and>
   field_string anon_function ''Name'' = [] \<and>
   function_flags anon_function = (False, False, False)"
  unfolding New_def src_anon_toks_def [symmetric] anon_function_def function_flags_def
  by (simp add: prim_eval parse_eval src_anon_eval tokdefs Let_def field_bool_def
        del: One_nat_def split del: if_split cong: bind_weak_cong)

subsection \<open>The word \<^verbatim>\<open>byte\<close>\<close>

definition src_byte :: string where
  "src_byte = ''contract C { byte b; }''"

lemma src_byte_length: "length src_byte = 22"
  by (simp add: src_byte_def)

lemma src_byte_nth:
  "src_byte ! 0 = CHR ''c''"
  "src_byte ! 1 = CHR ''o''"
  "src_byte ! 2 = CHR ''n''"
  "src_byte ! 3 = CHR ''t''"
  "src_byte ! 4 = CHR ''r''"
  "src_byte ! 5 = CHR ''a''"
  "src_byte ! 6 = CHR ''c''"
  "src_byte ! 7 = CHR ''t''"
  "src_byte ! 8 = CHR '' ''"
  "src_byte ! 9 = CHR ''C''"
  "src_byte ! 10 = CHR '' ''"
  "src_byte ! 11 = CHR ''{''"
  "src_byte ! 12 = CHR '' ''"
  "src_byte ! 13 = CHR ''b''"
  "src_byte ! 14 = CHR ''y''"
  "src_byte ! 15 = CHR ''t''"
  "src_byte ! 16 = CHR ''e''"
  "src_byte ! 17 = CHR '' ''"
  "src_byte ! 18 = CHR ''b''"
  "src_byte ! 19 = CHR '';''"
  "src_byte ! 20 = CHR '' ''"
  "src_byte ! 21 = CHR ''}''"
  by (simp_all add: src_byte_def del: One_nat_def)

lemma src_byte_slice: "slice src_byte i j = slice ''contract C { byte b; }'' i j"
  by (simp add: src_byte_def)

definition src_byte_toks :: "Token list" where
  "src_byte_toks = Tokenize (lex_New src_byte)"

lemma src_byte_toks_eq: "src_byte_toks =
  [\<lparr>Type = CONTRACT, Value = ''contract'', Line = 1, Column = 0, Start = 0, End = 8\<rparr>,
   \<lparr>Type = IDENTIFIER, Value = ''C'', Line = 1, Column = 9, Start = 9, End = 10\<rparr>,
   \<lparr>Type = LBRACE, Value = ''{'', Line = 1, Column = 11, Start = 11, End = 12\<rparr>,
   \<lparr>Type = IDENTIFIER, Value = ''byte'', Line = 1, Column = 13, Start = 13, End = 17\<rparr>,
   \<lparr>Type = IDENTIFIER, Value = ''b'', Line = 1, Column = 18, Start = 18, End = 19\<rparr>,
   \<lparr>Type = SEMICOLON, Value = '';'', Line = 1, Column = 19, Start = 19, End = 20\<rparr>,
   \<lparr>Type = RBRACE, Value = ''}'', Line = 1, Column = 21, Start = 21, End = 22\<rparr>,
   \<lparr>Type = EOF, Value = [], Line = 1, Column = 22, Start = 22, End = 22\<rparr>]"
  unfolding src_byte_toks_def
  by (simp add: lex_eval src_byte_length src_byte_nth src_byte_slice tokdefs del: One_nat_def split del: if_split)

lemma src_byte_toks_length: "length src_byte_toks = 8"
  by (simp add: src_byte_toks_eq)

lemma src_byte_toks_nth:
  "src_byte_toks ! 0 = \<lparr>Type = CONTRACT, Value = ''contract'', Line = 1, Column = 0, Start = 0, End = 8\<rparr>"
  "src_byte_toks ! 1 = \<lparr>Type = IDENTIFIER, Value = ''C'', Line = 1, Column = 9, Start = 9, End = 10\<rparr>"
  "src_byte_toks ! 2 = \<lparr>Type = LBRACE, Value = ''{'', Line = 1, Column = 11, Start = 11, End = 12\<rparr>"
  "src_byte_toks ! 3 = \<lparr>Type = IDENTIFIER, Value = ''byte'', Line = 1, Column = 13, Start = 13, End = 17\<rparr>"
  "src_byte_toks ! 4 = \<lparr>Type = IDENTIFIER, Value = ''b'', Line = 1, Column = 18, Start = 18, End = 19\<rparr>"
  "src_byte_toks ! 5 = \<lparr>Type = SEMICOLON, Value = '';'', Line = 1, Column = 19, Start = 19, End = 20\<rparr>"
  "src_byte_toks ! 6 = \<lparr>Type = RBRACE, Value = ''}'', Line = 1, Column = 21, Start = 21, End = 22\<rparr>"
  "src_byte_toks ! 7 = \<lparr>Type = EOF, Value = [], Line = 1, Column = 22, Start = 22, End = 22\<rparr>"
  "src_byte_toks ! Suc 0 = \<lparr>Type = IDENTIFIER, Value = ''C'', Line = 1, Column = 9, Start = 9, End = 10\<rparr>"
  by (simp_all add: src_byte_toks_eq del: One_nat_def)

lemmas src_byte_eval = src_byte_toks_length src_byte_toks_nth

lemma peek_in_tokens: "peek b = EOF_token \<or> peek b \<in> set (tokens b)"
  by (simp add: peek_def)

text \<open>
  Claim C10. No token of the scanner has kind \<^verbatim>\<open>BYTE\<close>, whatever the input: \<^verbatim>\<open>byte\<close> is not
  in the keyword table, and the scanner gives the word the kind \<^verbatim>\<open>IDENTIFIER\<close>. So the
  builder, whose token list is the scanner's and never changes, never has a token of kind
  \<^verbatim>\<open>BYTE\<close> under its cursor, at any position: the \<^verbatim>\<open>BYTE\<close> alternative of
  \<^verbatim>\<open>isElementaryTypeName\<close> is never taken. In \<^verbatim>\<open>contract C { byte b; }\<close> the type of the
  state variable is a \<^verbatim>\<open>UserDefinedTypeName\<close>.
\<close>

theorem scanner_never_emits_BYTE:
  "(\<forall>t \<in> set (Tokenize (lex_New inp)). Type t \<noteq> BYTE) \<and>
   keywords_map ''byte'' = None \<and>
   Type (peek ((New inp opts)\<lparr>pos := p, errors := es\<rparr>)) \<noteq> BYTE \<and>
   map (\<lambda>t. (Type t, Value t)) (Tokenize (lex_New src_byte)) =
     [(CONTRACT, ''contract''), (IDENTIFIER, ''C''), (LBRACE, ''{''), (IDENTIFIER, ''byte''),
      (IDENTIFIER, ''b''), (SEMICOLON, '';''), (RBRACE, ''}''), (EOF, [])] \<and>
   map_option fst (Build 100 (New src_byte None)) =
     Some (Some (mkNode ''SourceUnit''
       [(''Children'',
         VList [VNode (mkNode ''ContractDefinition''
           [(''Name'', VString ''C''), (''Kind'', VString ''contract''), (''BaseContracts'', VList []),
            (''SubNodes'',
             VList [VNode (mkNode ''StateVariableDeclaration''
               [(''Variables'',
                 VList [VNode (mkNode ''VariableDeclaration''
                   [(''TypeName'', VNode (mkNode ''UserDefinedTypeName'' [(''NamePath'', VString ''byte'')])),
                    (''IsStateVar'', VBool True),
                    (''Name'', VString ''b''),
                    (''Identifier'', VNode (Identifier ''b''))])])])])])])]), None)"
proof -
  have scan: "\<forall>t \<in> set (Tokenize (lex_New inp)). Type t \<noteq> BYTE"
    by (rule Tokenize_not_BYTE)
  have kw: "keywords_map ''byte'' = None"
    by (simp add: keywords_map_def keywords_table_def)
  have cur: "Type (peek ((New inp opts)\<lparr>pos := p, errors := es\<rparr>)) \<noteq> BYTE"
    using peek_in_tokens [of "(New inp opts)\<lparr>pos := p, errors := es\<rparr>"] scan
    by (auto simp add: New_def EOF_token_def tokdefs)
  have toks: "map (\<lambda>t. (Type t, Value t)) (Tokenize (lex_New src_byte)) =
     [(CONTRACT, ''contract''), (IDENTIFIER, ''C''), (LBRACE, ''{''), (IDENTIFIER, ''byte''),
      (IDENTIFIER, ''b''), (SEMICOLON, '';''), (RBRACE, ''}''), (EOF, [])]"
    unfolding src_byte_toks_def [symmetric] by (simp add: src_byte_toks_eq)
  have run: "map_option fst (Build 100 (New src_byte None)) =
     Some (Some (mkNode ''SourceUnit''
       [(''Children'',
         VList [VNode (mkNode ''ContractDefinition''
           [(''Name'', VString ''C''), (''Kind'', VString ''contract''), (''BaseContracts'', VList []),
            (''SubNodes'',
             VList [VNode (mkNode ''StateVariableDeclaration''
               [(''Variables'',
                 VList [VNode (mkNode ''VariableDeclaration''
                   [(''TypeName'', VNode (mkNode ''UserDefinedTypeName'' [(''NamePath'', VString ''byte'')])),
                    (''IsStateVar'', VBool True),
                    (''Name'', VString ''b''),
                    (''Identifier'', VNode (Identifier ''b''))])])])])])])]), None)"
    unfolding New_def src_byte_toks_def [symmetric]
    by (simp add: prim_eval parse_eval src_byte_eval tokdefs Let_def
          del: One_nat_def split del: if_split cong: bind_weak_cong)
  from scan kw cur toks run show ?thesis by blast
qed

theorem scanner_never_emits_BYTE_witness:
  "list_all (\<lambda>t. Type t \<noteq> BYTE) (Tokenize (lex_New src_byte)) \<and>
   length (Tokenize (lex_New src_byte)) = 8"
  using scanner_never_emits_BYTE [where inp = src_byte and opts = None and p = 0 and es = "[]"]
  unfolding src_byte_toks_def [symmetric]
  by (simp add: list_all_iff src_byte_toks_length)


end
